theory Spec2Isabelle
  imports Complex_Main
begin

section \<open>Python values used by the HTTP runners\<close>

text \<open>
  A Python \<open>str\<close> is a sequence of Unicode code points, so a string is a list of
  code points (\<open>nat\<close>) and \<open>length\<close> is Python's \<open>len\<close>. \<open>py\<close> turns a literal
  of the model into such a string. \<open>bytes\<close> is a list of byte values.
\<close>

type_synonym pystr = "nat list"
type_synonym pybytes = "nat list"

definition py :: "string \<Rightarrow> pystr" where
  "py s = map of_char s"

text \<open>
  Exceptions: the class and the message (\<open>str(exc)\<close>). \<open>KeyboardInterrupt\<close> is the
  only class here that is not a subclass of \<open>Exception\<close>.
\<close>

datatype exc_kind =
    ValueError | TypeError | KeyError | OverflowError | JSONDecodeError | UnicodeEncodeError
  | FileNotFoundError | OSError | RuntimeError | OtherException | KeyboardInterrupt

datatype exc = Exc exc_kind pystr

fun exc_kind_of :: "exc \<Rightarrow> exc_kind" where
  "exc_kind_of (Exc k m) = k"

fun str_exc :: "exc \<Rightarrow> pystr" where
  "str_exc (Exc k m) = m"

definition is_Exception :: "exc \<Rightarrow> bool" where
  "is_Exception e = (exc_kind_of e \<noteq> KeyboardInterrupt)"

subsection \<open>String methods\<close>

text \<open>\<open>str.isspace\<close> of one character: the code points Python 3 strips as whitespace.\<close>

definition isspace :: "nat \<Rightarrow> bool" where
  "isspace c =
     ((9 \<le> c \<and> c \<le> 13) \<or> (28 \<le> c \<and> c \<le> 32) \<or> c = 133 \<or> c = 160 \<or> c = 5760
      \<or> (8192 \<le> c \<and> c \<le> 8202) \<or> c = 8232 \<or> c = 8233 \<or> c = 8239 \<or> c = 8287
      \<or> c = 12288)"

text \<open>\<open>s.strip()\<close>\<close>

definition strip :: "pystr \<Rightarrow> pystr" where
  "strip s = rev (dropWhile isspace (rev (dropWhile isspace s)))"

text \<open>\<open>s.find(sep)\<close>: the index of the first occurrence of \<open>sep\<close>, if any.\<close>

fun find_sub :: "pystr \<Rightarrow> pystr \<Rightarrow> nat option" where
  "find_sub sep [] = (if sep = [] then Some 0 else None)"
| "find_sub sep (c # cs) =
     (if take (length sep) (c # cs) = sep then Some 0
      else map_option Suc (find_sub sep cs))"

text \<open>\<open>sep in s\<close>\<close>

definition str_contains :: "pystr \<Rightarrow> pystr \<Rightarrow> bool" where
  "str_contains sep s = (find_sub sep s \<noteq> None)"

text \<open>\<open>s.split(sep, 1)\<close>: at most one split, at the first occurrence; an empty
  separator raises.\<close>

definition split1 :: "pystr \<Rightarrow> pystr \<Rightarrow> exc + pystr list" where
  "split1 s sep =
     (if sep = [] then Inl (Exc ValueError (py ''empty separator''))
      else (case find_sub sep s of
              None \<Rightarrow> Inr [s]
            | Some i \<Rightarrow> Inr [take i s, drop (i + length sep) s]))"

text \<open>
  \<open>str.isalnum\<close> of one character. Below 128 it is the ASCII digits and letters; the
  Unicode character database decides the rest and is a parameter \<open>U\<close>.
\<close>

definition isalnum :: "(nat \<Rightarrow> bool) \<Rightarrow> nat \<Rightarrow> bool" where
  "isalnum U c =
     (if c < 128 then (48 \<le> c \<and> c \<le> 57) \<or> (65 \<le> c \<and> c \<le> 90) \<or> (97 \<le> c \<and> c \<le> 122)
      else U c)"

subsection \<open>Dictionaries\<close>

text \<open>
  A \<open>dict\<close> keeps its keys in insertion order; \<open>d[k] = v\<close> on a key already present
  replaces the value where the key stands.
\<close>

type_synonym dict = "(pystr \<times> pystr) list"

fun dict_set :: "dict \<Rightarrow> pystr \<Rightarrow> pystr \<Rightarrow> dict" where
  "dict_set [] k v = [(k, v)]"
| "dict_set ((k', v') # d) k v =
     (if k' = k then (k, v) # d else (k', v') # dict_set d k v)"

definition dict_get :: "dict \<Rightarrow> pystr \<Rightarrow> pystr option" where
  "dict_get d k = map_of d k"

section \<open>Configuration parsing (src/http_runner.py)\<close>

definition unpack_error :: exc where
  "unpack_error = Exc ValueError (py ''not enough values to unpack (expected 2, got 1)'')"

definition invalid_pair_format :: "pystr \<Rightarrow> pystr \<Rightarrow> exc" where
  "invalid_pair_format item sep =
     Exc ValueError (py ''Invalid pair '' @ [39] @ item @ [39] @ py ''. Expected format key''
                     @ sep @ py ''value'')"

definition invalid_pair_key :: "pystr \<Rightarrow> exc" where
  "invalid_pair_key item =
     Exc ValueError (py ''Invalid pair '' @ [39] @ item @ [39] @ py ''. Key is empty'')"

definition invalid_header_format :: "pystr \<Rightarrow> exc" where
  "invalid_header_format item =
     Exc ValueError (py ''Invalid header '' @ [39] @ item @ [39]
                     @ py ''. Expected format '' @ [39] @ py ''Name: Value'' @ [39])"

definition invalid_header_name :: "pystr \<Rightarrow> exc" where
  "invalid_header_name item =
     Exc ValueError (py ''Invalid header '' @ [39] @ item @ [39] @ py ''. Name is empty'')"

definition none_not_iterable :: exc where
  "none_not_iterable = Exc TypeError (py ''argument of type 'NoneType' is not iterable'')"

text \<open>
  The \<open>for item in pairs\<close> loop of \<open>parse_key_value_pairs\<close> (lines 27-37), with the
  dictionary built so far. An entry is \<open>None\<close> or a string.
\<close>

fun parse_key_value_pairs_loop :: "pystr \<Rightarrow> pystr option list \<Rightarrow> dict \<Rightarrow> exc + dict" where
  "parse_key_value_pairs_loop sep [] result = Inr result"
| "parse_key_value_pairs_loop sep (item # rest) result =
     (case item of
        None \<Rightarrow> parse_key_value_pairs_loop sep rest result
      | Some s \<Rightarrow>
          if \<not> str_contains sep s then Inl (invalid_pair_format s sep)
          else (case split1 s sep of
                  Inl e \<Rightarrow> Inl e
                | Inr [k, v] \<Rightarrow>
                    if strip k = [] then Inl (invalid_pair_key s)
                    else parse_key_value_pairs_loop sep rest (dict_set result (strip k) (strip v))
                | Inr _ \<Rightarrow> Inl unpack_error))"

definition parse_key_value_pairs :: "pystr option list option \<Rightarrow> pystr \<Rightarrow> exc + dict" where
  "parse_key_value_pairs pairs sep =
     (case pairs of
        None \<Rightarrow> Inr []
      | Some ps \<Rightarrow> if ps = [] then Inr [] else parse_key_value_pairs_loop sep ps [])"

text \<open>
  The loop of \<open>parse_header_pairs\<close> (lines 46-54). It has no \<open>None\<close> test:
  \<open>":" not in None\<close> raises \<open>TypeError\<close>.
\<close>

fun parse_header_pairs_loop :: "pystr option list \<Rightarrow> dict \<Rightarrow> exc + dict" where
  "parse_header_pairs_loop [] headers = Inr headers"
| "parse_header_pairs_loop (item # rest) headers =
     (case item of
        None \<Rightarrow> Inl none_not_iterable
      | Some s \<Rightarrow>
          if \<not> str_contains (py '':'') s then Inl (invalid_header_format s)
          else (case split1 s (py '':'') of
                  Inl e \<Rightarrow> Inl e
                | Inr [n, v] \<Rightarrow>
                    if strip n = [] then Inl (invalid_header_name s)
                    else parse_header_pairs_loop rest (dict_set headers (strip n) (strip v))
                | Inr _ \<Rightarrow> Inl unpack_error))"

definition parse_header_pairs :: "pystr option list option \<Rightarrow> exc + dict" where
  "parse_header_pairs pairs =
     (case pairs of
        None \<Rightarrow> Inr []
      | Some ps \<Rightarrow> if ps = [] then Inr [] else parse_header_pairs_loop ps [])"

section \<open>Configuration parsing (src/http_runner_stdlib.py)\<close>

fun stdlib_parse_key_value_pairs_loop ::
  "pystr \<Rightarrow> pystr option list \<Rightarrow> dict \<Rightarrow> exc + dict" where
  "stdlib_parse_key_value_pairs_loop sep [] result = Inr result"
| "stdlib_parse_key_value_pairs_loop sep (item # rest) result =
     (case item of
        None \<Rightarrow> stdlib_parse_key_value_pairs_loop sep rest result
      | Some s \<Rightarrow>
          if \<not> str_contains sep s then Inl (invalid_pair_format s sep)
          else (case split1 s sep of
                  Inl e \<Rightarrow> Inl e
                | Inr [k, v] \<Rightarrow>
                    if strip k = [] then Inl (invalid_pair_key s)
                    else stdlib_parse_key_value_pairs_loop sep rest
                           (dict_set result (strip k) (strip v))
                | Inr _ \<Rightarrow> Inl unpack_error))"

definition stdlib_parse_key_value_pairs ::
  "pystr option list option \<Rightarrow> pystr \<Rightarrow> exc + dict" where
  "stdlib_parse_key_value_pairs pairs sep =
     (case pairs of
        None \<Rightarrow> Inr []
      | Some ps \<Rightarrow> if ps = [] then Inr [] else stdlib_parse_key_value_pairs_loop sep ps [])"

fun stdlib_parse_header_pairs_loop :: "pystr option list \<Rightarrow> dict \<Rightarrow> exc + dict" where
  "stdlib_parse_header_pairs_loop [] headers = Inr headers"
| "stdlib_parse_header_pairs_loop (item # rest) headers =
     (case item of
        None \<Rightarrow> Inl none_not_iterable
      | Some s \<Rightarrow>
          if \<not> str_contains (py '':'') s then Inl (invalid_header_format s)
          else (case split1 s (py '':'') of
                  Inl e \<Rightarrow> Inl e
                | Inr [n, v] \<Rightarrow>
                    if strip n = [] then Inl (invalid_header_name s)
                    else stdlib_parse_header_pairs_loop rest (dict_set headers (strip n) (strip v))
                | Inr _ \<Rightarrow> Inl unpack_error))"

definition stdlib_parse_header_pairs :: "pystr option list option \<Rightarrow> exc + dict" where
  "stdlib_parse_header_pairs pairs =
     (case pairs of
        None \<Rightarrow> Inr []
      | Some ps \<Rightarrow> if ps = [] then Inr [] else stdlib_parse_header_pairs_loop ps [])"

section \<open>File names\<close>

text \<open>
  \<open>safe_filename\<close> has the same text in both files (http_runner.py line 131,
  http_runner_stdlib.py line 193).
\<close>

definition safe_filename :: "(nat \<Rightarrow> bool) \<Rightarrow> pystr \<Rightarrow> pystr" where
  "safe_filename U v =
     take 128 (map (\<lambda>ch. if isalnum U ch \<or> ch \<in> set (py ''-_.'') then ch else 95) v)"

section \<open>Values, requests and the outside world\<close>

text \<open>
  JSON values as \<open>json.loads\<close> returns them; an Outcome record is the list of items
  of a Python dictionary whose values are such values. A Python \<open>float\<close> is the real
  number it denotes.
\<close>

datatype json =
    JNull | JBool bool | JInt int | JFloat real | JStr pystr
  | JList "json list" | JDict "(pystr \<times> json) list"

type_synonym pydict = "(pystr \<times> json) list"

datatype json_type = TNull | TBool | TInt | TFloat | TStr | TList | TDict

fun json_type_of :: "json \<Rightarrow> json_type" where
  "json_type_of JNull = TNull"
| "json_type_of (JBool b) = TBool"
| "json_type_of (JInt i) = TInt"
| "json_type_of (JFloat x) = TFloat"
| "json_type_of (JStr s) = TStr"
| "json_type_of (JList xs) = TList"
| "json_type_of (JDict d) = TDict"

text \<open>A \<open>str\<close> to \<open>str\<close> dictionary as a JSON object.\<close>

definition json_of_dict :: "dict \<Rightarrow> json" where
  "json_of_dict d = JDict (map (\<lambda>(k, v). (k, JStr v)) d)"

text \<open>Truthiness of an optional string: \<open>None\<close> and \<open>""\<close> are false.\<close>

fun truthy :: "pystr option \<Rightarrow> bool" where
  "truthy None = False"
| "truthy (Some s) = (s \<noteq> [])"

text \<open>\<open>d or None\<close> for a dictionary.\<close>

definition or_None :: "dict \<Rightarrow> dict option" where
  "or_None d = (if d = [] then None else Some d)"

text \<open>
  \<open>s.encode("utf-8")\<close>: a surrogate raises \<open>UnicodeEncodeError\<close>, with the message
  \<open>msg s\<close> the codec gives for the string.
\<close>

definition utf8_char :: "nat \<Rightarrow> pybytes option" where
  "utf8_char c =
     (if c < 128 then Some [c]
      else if c < 2048 then Some [192 + c div 64, 128 + c mod 64]
      else if 55296 \<le> c \<and> c < 57344 then None
      else if c < 65536 then Some [224 + c div 4096, 128 + (c div 64) mod 64, 128 + c mod 64]
      else Some [240 + c div 262144, 128 + (c div 4096) mod 64, 128 + (c div 64) mod 64,
                 128 + c mod 64])"

fun utf8_bytes :: "pystr \<Rightarrow> pybytes option" where
  "utf8_bytes [] = Some []"
| "utf8_bytes (c # cs) =
     (case utf8_char c of
        None \<Rightarrow> None
      | Some bs \<Rightarrow> (case utf8_bytes cs of None \<Rightarrow> None | Some rest \<Rightarrow> Some (bs @ rest)))"

definition utf8_encode :: "(pystr \<Rightarrow> pystr) \<Rightarrow> pystr \<Rightarrow> exc + pybytes" where
  "utf8_encode msg s =
     (case utf8_bytes s of
        None \<Rightarrow> Inl (Exc UnicodeEncodeError (msg s))
      | Some bs \<Rightarrow> Inr bs)"

text \<open>\<open>os.path.join(a, b)\<close> of two components (POSIX).\<close>

definition path_join :: "pystr \<Rightarrow> pystr \<Rightarrow> pystr" where
  "path_join a b =
     (if b \<noteq> [] \<and> hd b = 47 then b
      else if a = [] \<or> last a = 47 then a @ b
      else a @ [47] @ b)"

text \<open>The keyword arguments of \<open>requests.request\<close> (http_runner.py lines 113-125).\<close>

record request_args =
  rq_method :: pystr
  rq_url :: pystr
  rq_params :: "dict option"
  rq_headers :: "dict option"
  rq_cookies :: "dict option"
  rq_timeout :: real
  rq_allow_redirects :: bool
  rq_verify :: bool
  rq_proxies :: "dict option"
  rq_data :: "pystr option"
  rq_json :: "json option"

text \<open>What the runner reads of a \<open>requests.Response\<close>.\<close>

record response =
  status_code :: int
  headers :: dict
  content :: pybytes

text \<open>
  The \<open>urllib\<close> request and opener of http_runner_stdlib.py (lines 164-168): the
  request's URL, body, method and headers, the timeout, and the three settings
  \<open>build_opener\<close> turns into handlers.
\<close>

record url_request =
  u_url :: pystr
  u_body :: "pybytes option"
  u_method :: pystr
  u_headers :: dict
  u_timeout :: real
  u_verify_tls :: bool
  u_proxies :: "dict option"
  u_follow_redirects :: bool

text \<open>
  What \<open>opener.open\<close> and reading the response can do (lines 171-189): a response
  with its status, header items, content and measured time; an \<open>HTTPError\<close> with its
  code, its headers (possibly none), the result of \<open>e.read()\<close> and the measured time;
  a \<open>URLError\<close> with its text; or any other exception.
\<close>

datatype open_result =
    Opened int "(pystr \<times> pystr) list" pybytes real
  | HTTPError_raised int "(pystr \<times> pystr) list option" "exc + pybytes" real
  | URLError_raised pystr
  | Other_raised exc

text \<open>
  The calls a run makes on the outside world, in order. \<open>Sleep ms\<close> is
  a \<open>time.sleep(ms / 1000.0)\<close> that returned, \<open>Print line\<close> a \<open>print(line)\<close>.
\<close>

datatype event =
    Sleep int
  | RequestsCall request_args
  | OpenerOpen url_request
  | MakeDirs pystr
  | WriteText pystr pystr
  | WriteBinary pystr pybytes
  | Print pystr

text \<open>
  The outside world as one worker meets it, by attempt index: the answer of the
  transport, and whether creating the directory and writing the two files raise.
  The time the runner measures around a \<open>requests\<close> call comes with the answer.
\<close>

record worker_env =
  requests_request :: "nat \<Rightarrow> request_args \<Rightarrow> exc + (response \<times> real)"
  opener_open :: "nat \<Rightarrow> url_request \<Rightarrow> open_result"
  os_makedirs :: "nat \<Rightarrow> pystr \<Rightarrow> exc option"
  write_meta :: "nat \<Rightarrow> pystr \<Rightarrow> exc option"
  write_body :: "nat \<Rightarrow> pystr \<Rightarrow> exc option"

text \<open>
  The \<open>argparse.Namespace\<close> both \<open>build_arg_parser\<close> functions produce (http_runner.py
  lines 302-337, http_runner_stdlib.py lines 361-390). A repeatable option is \<open>None\<close>
  or the list of its values.
\<close>

record args =
  a_url :: pystr
  a_method :: pystr
  a_param :: "pystr list option"
  a_cookie :: "pystr list option"
  a_header :: "pystr list option"
  a_session_file :: "pystr option"
  a_session_header_name :: "pystr option"
  a_session_cookie_name :: "pystr option"
  a_name :: "pystr option"
  a_json :: "pystr option"
  a_data :: "pystr option"
  a_timeout :: real
  a_proxy :: "pystr option"
  a_no_verify :: bool
  a_follow_redirects :: bool
  a_concurrency :: int
  a_retries :: int
  a_backoff_ms :: int
  a_delay_ms :: int
  a_output :: "pystr option"
  a_save_dir :: "pystr option"
  a_save_body :: bool

text \<open>
  Library functions and the rest of the outside world: the Unicode tables, the file
  system, \<open>json\<close>, \<open>round\<close>, the \<open>urllib.parse\<close> computation of
  \<open>attach_params_to_url\<close> (lines 109-114), \<open>parse_args\<close> (which returns the
  arguments or exits with a code), the worker environments by
  submission index, the order in which the futures complete, after how many
  received results an interrupt arrives (if one does), whether writing the
  aggregate file raises, whether \<open>time.sleep\<close> raises for a delay given in
  milliseconds (as it does when the platform's time type cannot hold it), whether
  \<open>print\<close> raises for a line (as it does when the console cannot encode it), what
  \<open>str\<close> makes of a number in an f-string, and the message of the UTF-8 codec for a
  string it cannot encode.
\<close>

record env =
  uni_alnum :: "nat \<Rightarrow> bool"
  str_title :: "pystr \<Rightarrow> pystr"
  os_isfile :: "pystr \<Rightarrow> bool"
  read_text :: "pystr \<Rightarrow> exc + pystr"
  read_binary :: "pystr \<Rightarrow> exc + pybytes"
  read_lines :: "pystr \<Rightarrow> exc + pystr list"
  json_loads :: "pystr \<Rightarrow> exc + json"
  json_dumps :: "json \<Rightarrow> pystr"
  json_dump_indent2 :: "json \<Rightarrow> pystr"
  py_round2 :: "real \<Rightarrow> real"
  urllib_attach :: "pystr \<Rightarrow> dict \<Rightarrow> exc + pystr"
  parse_args :: "pystr list option \<Rightarrow> int + args"
  worker :: "nat \<Rightarrow> worker_env"
  completion_order :: "nat \<Rightarrow> nat list"
  interrupt_after :: "nat option"
  write_output :: "pystr \<Rightarrow> exc option"
  time_sleep :: "int \<Rightarrow> exc option"
  console_print :: "pystr \<Rightarrow> exc option"
  py_str :: "json \<Rightarrow> pystr"
  encode_error_message :: "pystr \<Rightarrow> pystr"

section \<open>One target: requests, retries and persistence\<close>

text \<open>
  The arguments of \<open>perform_request_with_retries\<close>. The JSON body is a parsed value
  in http_runner.py and bytes in http_runner_stdlib.py, hence the type parameter.
\<close>

record 'j job =
  j_name :: pystr
  j_url :: pystr
  j_method :: pystr
  j_params :: dict
  j_base_headers :: dict
  j_base_cookies :: dict
  j_session_value :: "pystr option"
  j_session_header_name :: "pystr option"
  j_session_cookie_name :: "pystr option"
  j_timeout :: real
  j_allow_redirects :: bool
  j_verify_tls :: bool
  j_proxies :: "dict option"
  j_data :: "nat list option"
  j_json :: "'j option"
  j_retries :: int
  j_backoff_base_ms :: int
  j_delay_between_ms :: int
  j_save_dir :: "pystr option"
  j_save_body :: bool

text \<open>Session injection (http_runner.py lines 156-163, http_runner_stdlib.py 218-225).\<close>

definition session_headers :: "'j job \<Rightarrow> dict" where
  "session_headers J =
     (if truthy (j_session_value J) \<and> truthy (j_session_header_name J)
      then dict_set (j_base_headers J) (the (j_session_header_name J)) (the (j_session_value J))
      else j_base_headers J)"

definition session_cookies :: "'j job \<Rightarrow> dict" where
  "session_cookies J =
     (if truthy (j_session_value J) \<and> truthy (j_session_cookie_name J)
      then dict_set (j_base_cookies J) (the (j_session_cookie_name J)) (the (j_session_value J))
      else j_base_cookies J)"

text \<open>
  What one call of the transport function gives the retry loop: the calls made, and
  the exception raised or the status, response headers, content and elapsed time.
\<close>

type_synonym fetched = "int \<times> dict \<times> pybytes \<times> real"
type_synonym sent = "event list \<times> (exc + fetched)"

text \<open>\<open>build_request\<close> (http_runner.py lines 99-127), as called at lines 176-188.\<close>

definition request_args_of :: "json job \<Rightarrow> request_args" where
  "request_args_of J =
     \<lparr> rq_method = j_method J, rq_url = j_url J,
       rq_params = or_None (j_params J),
       rq_headers = or_None (session_headers J),
       rq_cookies = or_None (session_cookies J),
       rq_timeout = j_timeout J,
       rq_allow_redirects = j_allow_redirects J,
       rq_verify = j_verify_tls J,
       rq_proxies = j_proxies J,
       rq_data = j_data J,
       rq_json = j_json J \<rparr>"

definition build_request :: "worker_env \<Rightarrow> json job \<Rightarrow> nat \<Rightarrow> sent" where
  "build_request W J attempt =
     ([RequestsCall (request_args_of J)],
      (case requests_request W attempt (request_args_of J) of
         Inl e \<Rightarrow> Inl e
       | Inr (resp, elapsed) \<Rightarrow> Inr (status_code resp, headers resp, content resp, elapsed)))"

text \<open>\<open>s.strip(chars)\<close> and \<open>sep.join(xs)\<close>, for \<open>merge_cookies_into_header\<close>.\<close>

definition strip_chars :: "pystr \<Rightarrow> pystr \<Rightarrow> pystr" where
  "strip_chars cs s =
     rev (dropWhile (\<lambda>c. c \<in> set cs) (rev (dropWhile (\<lambda>c. c \<in> set cs) s)))"

fun str_join :: "pystr \<Rightarrow> pystr list \<Rightarrow> pystr" where
  "str_join sep [] = []"
| "str_join sep [x] = x"
| "str_join sep (x # y # ys) = x @ sep @ str_join sep (y # ys)"

text \<open>\<open>merge_cookies_into_header\<close> (http_runner_stdlib.py lines 93-98).\<close>

definition merge_cookies_into_header :: "dict \<Rightarrow> dict \<Rightarrow> dict" where
  "merge_cookies_into_header hs cookies =
     (if cookies = [] then hs
      else
        let existing = strip (case dict_get hs (py ''Cookie'') of None \<Rightarrow> [] | Some c \<Rightarrow> c);
            jar = str_join (py ''; '') (map (\<lambda>(k, v). k @ py ''='' @ v) cookies)
        in dict_set hs (py ''Cookie'') (strip (strip_chars (py ''; '') (existing @ py ''; '' @ jar))))"

text \<open>\<open>attach_params_to_url\<close> (lines 106-114).\<close>

definition attach_params_to_url :: "env \<Rightarrow> pystr \<Rightarrow> dict \<Rightarrow> exc + pystr" where
  "attach_params_to_url E url params =
     (if params = [] then Inr url else urllib_attach E url params)"

text \<open>A dictionary comprehension over header items: a repeated key keeps its last value.\<close>

definition dict_of_items :: "(pystr \<times> pystr) list \<Rightarrow> dict" where
  "dict_of_items items = foldl (\<lambda>d (k, v). dict_set d k v) [] items"

text \<open>
  \<open>build_and_send_request\<close> (http_runner_stdlib.py lines 138-189), as called at
  lines 238-250. Building the \<open>Request\<close> and the opener and opening it are one call
  on the outside world.
\<close>

definition final_headers_of :: "env \<Rightarrow> pybytes job \<Rightarrow> dict" where
  "final_headers_of E J =
     (let merged = merge_cookies_into_header (session_headers J) (session_cookies J)
      in if j_json J \<noteq> None
            \<and> py ''Content-Type'' \<notin> set (map fst (dict_of_items
                  (map (\<lambda>(k, v). (str_title E k, v)) merged)))
         then dict_set merged (py ''Content-Type'') (py ''application/json; charset=utf-8'')
         else merged)"

definition url_request_of :: "env \<Rightarrow> pybytes job \<Rightarrow> pystr \<Rightarrow> url_request" where
  "url_request_of E J final_url =
     \<lparr> u_url = final_url,
       u_body = (if j_json J \<noteq> None then j_json J else j_data J),
       u_method = j_method J,
       u_headers = final_headers_of E J,
       u_timeout = j_timeout J,
       u_verify_tls = j_verify_tls J,
       u_proxies = j_proxies J,
       u_follow_redirects = j_allow_redirects J \<rparr>"

definition build_and_send_request :: "env \<Rightarrow> worker_env \<Rightarrow> pybytes job \<Rightarrow> nat \<Rightarrow> sent" where
  "build_and_send_request E W J attempt =
     (case attach_params_to_url E (j_url J) (j_params J) of
        Inl e \<Rightarrow> ([], Inl e)
      | Inr final_url \<Rightarrow>
          ([OpenerOpen (url_request_of E J final_url)],
           (case opener_open W attempt (url_request_of E J final_url) of
              Opened status items body elapsed \<Rightarrow>
                Inr (status, dict_of_items items, body, elapsed)
            | HTTPError_raised code hdrs body elapsed \<Rightarrow>
                Inr (code,
                     (case hdrs of None \<Rightarrow> [] | Some items \<Rightarrow> dict_of_items items),
                     (case body of Inl e \<Rightarrow> [] | Inr b \<Rightarrow> b),
                     elapsed)
            | URLError_raised msg \<Rightarrow> Inl (Exc RuntimeError msg)
            | Other_raised e \<Rightarrow> Inl e)))"

text \<open>
  The Outcome records (http_runner.py lines 190-195 and 215-218; the same text at
  http_runner_stdlib.py lines 252-257 and 276-279).
\<close>

definition success_record :: "env \<Rightarrow> pystr \<Rightarrow> fetched \<Rightarrow> pydict" where
  "success_record E name f =
     (case f of (status, hdrs, body, elapsed) \<Rightarrow>
        [(py ''name'', JStr name),
         (py ''status'', JInt status),
         (py ''elapsed_ms'', JFloat (py_round2 E elapsed)),
         (py ''response_headers'', json_of_dict hdrs)])"

definition failure_record :: "pystr \<Rightarrow> exc option \<Rightarrow> pydict" where
  "failure_record name last_exc =
     [(py ''name'', JStr name),
      (py ''error'', JStr (case last_exc of None \<Rightarrow> py ''Unknown error'' | Some e \<Rightarrow> str_exc e))]"

text \<open>
  Persistence of one result (http_runner.py lines 197-207, http_runner_stdlib.py
  lines 259-268): the calls made and the exception raised, if any.
\<close>

definition meta_path :: "env \<Rightarrow> 'j job \<Rightarrow> pystr" where
  "meta_path E J =
     path_join (the (j_save_dir J)) (safe_filename (uni_alnum E) (j_name J) @ py ''.meta.json'')"

definition body_path :: "env \<Rightarrow> 'j job \<Rightarrow> pystr" where
  "body_path E J =
     path_join (the (j_save_dir J)) (safe_filename (uni_alnum E) (j_name J) @ py ''.body'')"

definition save_result ::
  "env \<Rightarrow> worker_env \<Rightarrow> 'j job \<Rightarrow> nat \<Rightarrow> pydict \<Rightarrow> pybytes \<Rightarrow> event list \<times> exc option" where
  "save_result E W J attempt rec body =
     (if \<not> truthy (j_save_dir J) then ([], None)
      else
        (case os_makedirs W attempt (the (j_save_dir J)) of
           Some e \<Rightarrow> ([MakeDirs (the (j_save_dir J))], Some e)
         | None \<Rightarrow>
             (case write_meta W attempt (meta_path E J) of
                Some e \<Rightarrow>
                  ([MakeDirs (the (j_save_dir J)),
                    WriteText (meta_path E J) (json_dump_indent2 E (JDict rec))], Some e)
              | None \<Rightarrow>
                  if j_save_body J
                  then ([MakeDirs (the (j_save_dir J)),
                         WriteText (meta_path E J) (json_dump_indent2 E (JDict rec)),
                         WriteBinary (body_path E J) body],
                        write_body W attempt (body_path E J))
                  else ([MakeDirs (the (j_save_dir J)),
                         WriteText (meta_path E J) (json_dump_indent2 E (JDict rec))], None))))"

text \<open>
  \<open>time.sleep(ms / 1000.0)\<close> for an integer \<open>ms\<close>. The division converts \<open>ms\<close> to a
  float and raises \<open>OverflowError\<close> when it is too large for one (from
  \<open>2^1024 - 2^970\<close> on); \<open>time.sleep\<close> then returns or raises as the platform has it.
  The calls made, and the exception raised, if any.
\<close>

definition float_overflow :: "int \<Rightarrow> bool" where
  "float_overflow n = (2 ^ 1024 - 2 ^ 970 \<le> \<bar>n\<bar>)"

definition time_sleep_ms :: "env \<Rightarrow> int \<Rightarrow> event list \<times> exc option" where
  "time_sleep_ms E ms =
     (if float_overflow ms
      then ([], Some (Exc OverflowError (py ''int too large to convert to float'')))
      else (case time_sleep E ms of
              Some e \<Rightarrow> ([], Some e)
            | None \<Rightarrow> ([Sleep ms], None)))"

text \<open>Lines 169-171 and 231-233: the backoff before a retry. Lines 173-174 and 235-236:
  the pacing delay before every attempt.\<close>

definition backoff_sleep :: "env \<Rightarrow> 'j job \<Rightarrow> nat \<Rightarrow> event list \<times> exc option" where
  "backoff_sleep E J attempt =
     (if attempt > 0 \<and> j_backoff_base_ms J > 0
      then time_sleep_ms E (j_backoff_base_ms J * 2 ^ (attempt - 1))
      else ([], None))"

definition pacing_sleep :: "env \<Rightarrow> 'j job \<Rightarrow> event list \<times> exc option" where
  "pacing_sleep E J =
     (if j_delay_between_ms J > 0 then time_sleep_ms E (j_delay_between_ms J) else ([], None))"

text \<open>
  The body of the \<open>try\<close> of one attempt (http_runner.py lines 169-209,
  http_runner_stdlib.py lines 231-270), for the transport function \<open>send\<close>: the calls
  made, and the record returned or the exception raised. The first statement that
  raises ends the body: a sleep that raises leaves the request unsent.
\<close>

definition attempt_body ::
  "(nat \<Rightarrow> sent) \<Rightarrow> env \<Rightarrow> worker_env \<Rightarrow> 'j job \<Rightarrow> nat \<Rightarrow> event list \<times> (exc + pydict)" where
  "attempt_body send E W J attempt =
     (case backoff_sleep E J attempt of
        (c1, Some e) \<Rightarrow> (c1, Inl e)
      | (c1, None) \<Rightarrow>
     (case pacing_sleep E J of
        (c2, Some e) \<Rightarrow> (c1 @ c2, Inl e)
      | (c2, None) \<Rightarrow>
     (case send attempt of
        (c3, Inl e) \<Rightarrow> (c1 @ c2 @ c3, Inl e)
      | (c3, Inr f) \<Rightarrow>
     (case save_result E W J attempt (success_record E (j_name J) f) (fst (snd (snd f))) of
        (c4, Some e) \<Rightarrow> (c1 @ c2 @ c3 @ c4, Inl e)
      | (c4, None) \<Rightarrow> (c1 @ c2 @ c3 @ c4, Inr (success_record E (j_name J) f))))))"

text \<open>
  The \<open>while attempt <= retries\<close> loop (http_runner.py lines 165-218,
  http_runner_stdlib.py lines 227-279) over the attempt body \<open>body\<close>, with the calls
  made so far. \<open>except Exception\<close> catches an exception of the body that is an
  \<open>Exception\<close>: it is kept as \<open>last_exc\<close> and the attempt index goes up by one. Any
  other exception leaves the function. The result is the calls made, and the record
  returned or the exception raised.
\<close>

function retry_loop ::
  "(nat \<Rightarrow> event list \<times> (exc + pydict)) \<Rightarrow> int \<Rightarrow> pystr \<Rightarrow> nat \<Rightarrow> exc option \<Rightarrow> event list
     \<Rightarrow> event list \<times> (exc + pydict)" where
  "retry_loop body retries name attempt last_exc calls =
     (if int attempt \<le> retries
      then (case body attempt of
              (made, Inr rec) \<Rightarrow> (calls @ made, Inr rec)
            | (made, Inl e) \<Rightarrow>
                if is_Exception e
                then retry_loop body retries name (attempt + 1) (Some e) (calls @ made)
                else (calls @ made, Inl e))
      else (calls, Inr (failure_record name last_exc)))"
  by pat_completeness auto
termination
  by (relation "measure (\<lambda>(body, retries, name, attempt, last_exc, calls).
                           nat (retries + 1 - int attempt))") auto

declare retry_loop.simps [simp del]

definition perform_request_with_retries ::
  "env \<Rightarrow> worker_env \<Rightarrow> json job \<Rightarrow> event list \<times> (exc + pydict)" where
  "perform_request_with_retries E W J =
     retry_loop (attempt_body (build_request W J) E W J) (j_retries J) (j_name J) 0 None []"

definition stdlib_perform_request_with_retries ::
  "env \<Rightarrow> worker_env \<Rightarrow> pybytes job \<Rightarrow> event list \<times> (exc + pydict)" where
  "stdlib_perform_request_with_retries E W J =
     retry_loop (attempt_body (build_and_send_request E W J) E W J)
       (j_retries J) (j_name J) 0 None []"

section \<open>Body sources\<close>

definition both_body_sources :: exc where
  "both_body_sources = Exc ValueError (py ''Provide either --json or --data, not both'')"

text \<open>\<open>load_json_from_file\<close> (the same text in both files).\<close>

definition load_json_from_file :: "env \<Rightarrow> pystr \<Rightarrow> exc + json" where
  "load_json_from_file E file_path =
     (case read_text E file_path of Inl e \<Rightarrow> Inl e | Inr s \<Rightarrow> json_loads E s)"

text \<open>
  Lines 71-78 of http_runner.py and 64-71 of http_runner_stdlib.py: the JSON value
  of \<open>--json\<close>, from the file of that name if there is one, else parsed inline; only
  a \<open>JSONDecodeError\<close> of the inline text is turned into a \<open>ValueError\<close>.
\<close>

definition json_source :: "env \<Rightarrow> pystr \<Rightarrow> exc + json" where
  "json_source E j =
     (if os_isfile E j then load_json_from_file E j
      else (case json_loads E j of
              Inl e \<Rightarrow>
                if exc_kind_of e = JSONDecodeError
                then Inl (Exc ValueError (py ''--json is not valid JSON: '' @ str_exc e))
                else Inl e
            | Inr obj \<Rightarrow> Inr obj))"

text \<open>
  \<open>parse_body\<close> of http_runner.py (lines 63-87): \<open>(data, json_body)\<close>. The JSON
  text \<open>null\<close> is parsed to Python's \<open>None\<close>, the value \<open>json_body\<close> has when no
  \<open>--json\<close> is given.
\<close>

definition json_body_of :: "json \<Rightarrow> json option" where
  "json_body_of obj = (if obj = JNull then None else Some obj)"

definition parse_body :: "env \<Rightarrow> args \<Rightarrow> exc + (pystr option \<times> json option)" where
  "parse_body E A =
     (if a_json A \<noteq> None \<and> a_data A \<noteq> None then Inl both_body_sources
      else
        (case (case a_json A of
                 None \<Rightarrow> Inr None
               | Some j \<Rightarrow>
                   (case json_source E j of
                      Inl e \<Rightarrow> Inl e
                    | Inr obj \<Rightarrow> Inr (json_body_of obj))) of
           Inl e \<Rightarrow> Inl e
         | Inr json_body \<Rightarrow>
             (case a_data A of
                None \<Rightarrow> Inr (None, json_body)
              | Some d \<Rightarrow>
                  if os_isfile E d
                  then (case read_text E d of
                          Inl e \<Rightarrow> Inl e
                        | Inr text \<Rightarrow> Inr (Some text, json_body))
                  else Inr (Some d, json_body))))"

text \<open>\<open>parse_body\<close> of http_runner_stdlib.py (lines 57-81): \<open>(data_bytes, json_bytes)\<close>.\<close>

definition stdlib_parse_body :: "env \<Rightarrow> args \<Rightarrow> exc + (pybytes option \<times> pybytes option)" where
  "stdlib_parse_body E A =
     (if a_json A \<noteq> None \<and> a_data A \<noteq> None then Inl both_body_sources
      else
        (case (case a_json A of
                 None \<Rightarrow> Inr None
               | Some j \<Rightarrow>
                   (case json_source E j of
                      Inl e \<Rightarrow> Inl e
                    | Inr obj \<Rightarrow>
                        (case utf8_encode (encode_error_message E) (json_dumps E obj) of
                           Inl e \<Rightarrow> Inl e
                         | Inr bs \<Rightarrow> Inr (Some bs)))) of
           Inl e \<Rightarrow> Inl e
         | Inr json_bytes \<Rightarrow>
             (case a_data A of
                None \<Rightarrow> Inr (None, json_bytes)
              | Some d \<Rightarrow>
                  if os_isfile E d
                  then (case read_binary E d of
                          Inl e \<Rightarrow> Inl e
                        | Inr bs \<Rightarrow> Inr (Some bs, json_bytes))
                  else (case utf8_encode (encode_error_message E) d of
                          Inl e \<Rightarrow> Inl e
                        | Inr bs \<Rightarrow> Inr (Some bs, json_bytes)))))"

section \<open>The run\<close>

text \<open>\<open>build_proxies\<close> (the same text in both files).\<close>

definition build_proxies :: "args \<Rightarrow> dict option" where
  "build_proxies A =
     (if \<not> truthy (a_proxy A) then None
      else Some [(py ''http'', the (a_proxy A)), (py ''https'', the (a_proxy A))])"

text \<open>\<open>args.param or []\<close>, as the list the parsers take.\<close>

definition or_empty :: "pystr list option \<Rightarrow> pystr option list option" where
  "or_empty ps = Some (map Some (case ps of None \<Rightarrow> [] | Some xs \<Rightarrow> xs))"

text \<open>
  Fan-out (http_runner.py lines 228-241, http_runner_stdlib.py lines 289-301): the
  names and session values of the targets.
\<close>

definition names_and_sessions :: "env \<Rightarrow> args \<Rightarrow> exc + (pystr \<times> pystr option) list" where
  "names_and_sessions E A =
     (if truthy (a_session_file A)
      then
        if \<not> os_isfile E (the (a_session_file A))
        then Inl (Exc FileNotFoundError
                    (py ''Session file not found: '' @ the (a_session_file A)))
        else (case read_lines E (the (a_session_file A)) of
                Inl e \<Rightarrow> Inl e
              | Inr lines \<Rightarrow>
                  Inr (map (\<lambda>token. (token, Some token))
                         (filter (\<lambda>token. token \<noteq> []) (map strip lines))))
      else Inr [(if truthy (a_name A) then the (a_name A) else py ''request'', None)])"

text \<open>The keyword arguments of \<open>executor.submit\<close> (lines 248-270 and 308-330).\<close>

definition job_of ::
  "args \<Rightarrow> dict \<Rightarrow> dict \<Rightarrow> dict \<Rightarrow> nat list option \<Rightarrow> 'j option \<Rightarrow> pystr \<times> pystr option
     \<Rightarrow> 'j job" where
  "job_of A base_params base_cookies base_headers data json_body target =
     \<lparr> j_name = fst target, j_url = a_url A, j_method = a_method A,
       j_params = base_params, j_base_headers = base_headers, j_base_cookies = base_cookies,
       j_session_value = snd target,
       j_session_header_name = a_session_header_name A,
       j_session_cookie_name = a_session_cookie_name A,
       j_timeout = a_timeout A,
       j_allow_redirects = a_follow_redirects A,
       j_verify_tls = (\<not> a_no_verify A),
       j_proxies = build_proxies A,
       j_data = data, j_json = json_body,
       j_retries = a_retries A,
       j_backoff_base_ms = a_backoff_ms A,
       j_delay_between_ms = a_delay_ms A,
       j_save_dir = a_save_dir A,
       j_save_body = a_save_body A \<rparr>"

text \<open>
  \<open>as_completed\<close> yields every future once: in the order the outside world gives when
  that is a permutation of the futures, in submission order otherwise.
\<close>

definition as_completed :: "env \<Rightarrow> nat \<Rightarrow> nat list" where
  "as_completed E n =
     (if sort (completion_order E n) = [0..<n] then completion_order E n else [0..<n])"

text \<open>The aggregate file (lines 286-290 and 346-349): one \<open>json.dumps\<close> line per result.\<close>

definition jsonl :: "env \<Rightarrow> pydict list \<Rightarrow> pystr" where
  "jsonl E results = concat (map (\<lambda>item. json_dumps E (JDict item) @ [10]) results)"

text \<open>
  \<open>run_concurrent_requests\<close> for the parsers, the \<open>parse_body\<close> and the
  \<open>perform_request_with_retries\<close> of one file: the two files have the same text but
  for the names \<open>data\<close>/\<open>data_bytes\<close> and \<open>json_body\<close>/\<open>json_bytes\<close> (http_runner.py
  lines 221-292, http_runner_stdlib.py lines 282-351).

  \<open>pre_run\<close> is everything before the first \<open>submit\<close> (lines 222-245 and 283-305):
  the exception raised, or the arguments of the calls to submit, one per target. A
  pool of no workers raises in the executor's constructor.
\<close>

definition pre_run ::
  "(pystr option list option \<Rightarrow> pystr \<Rightarrow> exc + dict)
     \<Rightarrow> (pystr option list option \<Rightarrow> exc + dict)
     \<Rightarrow> (env \<Rightarrow> args \<Rightarrow> exc + (nat list option \<times> 'j option))
     \<Rightarrow> env \<Rightarrow> args \<Rightarrow> exc + 'j job list" where
  "pre_run pair_parser header_parser body_parser E A =
     (case pair_parser (or_empty (a_param A)) (py ''='') of
        Inl e \<Rightarrow> Inl e
      | Inr base_params \<Rightarrow>
     (case pair_parser (or_empty (a_cookie A)) (py ''='') of
        Inl e \<Rightarrow> Inl e
      | Inr base_cookies \<Rightarrow>
     (case header_parser (or_empty (a_header A)) of
        Inl e \<Rightarrow> Inl e
      | Inr base_headers \<Rightarrow>
     (case body_parser E A of
        Inl e \<Rightarrow> Inl e
      | Inr (data, json_body) \<Rightarrow>
     (case names_and_sessions E A of
        Inl e \<Rightarrow> Inl e
      | Inr targets \<Rightarrow>
          if a_concurrency A \<le> 0
          then Inl (Exc ValueError (py ''max_workers must be greater than 0''))
          else Inr (map (job_of A base_params base_cookies base_headers data json_body)
                      targets))))))"

text \<open>
  Lines 275-278 and 335-338: \<open>future.result()\<close> returns the worker's record or raises
  what the worker raised; an \<open>Exception\<close> becomes a failure record under the target's
  name, any other exception goes on.
\<close>

definition future_result :: "pystr \<Rightarrow> exc + pydict \<Rightarrow> exc + pydict" where
  "future_result name res =
     (case res of
        Inr rec \<Rightarrow> Inr rec
      | Inl e \<Rightarrow> if is_Exception e then Inr (failure_record name (Some e)) else Inl e)"

text \<open>
  Lines 281-284 and 341-344: the console line of a result. A string is formatted as
  it is, any other value by \<open>str\<close>; a missing key raises \<open>KeyError\<close>.
\<close>

definition format_value :: "env \<Rightarrow> json \<Rightarrow> pystr" where
  "format_value E v = (case v of JStr s \<Rightarrow> s | _ \<Rightarrow> py_str E v)"

definition key_error :: "pystr \<Rightarrow> exc" where
  "key_error k = Exc KeyError ([39] @ k @ [39])"

definition console_line :: "env \<Rightarrow> pystr \<Rightarrow> pydict \<Rightarrow> exc + pystr" where
  "console_line E name result =
     (case map_of result (py ''error'') of
        Some err \<Rightarrow> Inr (py ''[!] '' @ name @ py '': ERROR -> '' @ format_value E err)
      | None \<Rightarrow>
          (case map_of result (py ''status'') of
             None \<Rightarrow> Inl (key_error (py ''status''))
           | Some st \<Rightarrow>
               (case map_of result (py ''elapsed_ms'') of
                  None \<Rightarrow> Inl (key_error (py ''elapsed_ms''))
                | Some ms \<Rightarrow>
                    Inr (py ''[+] '' @ name @ py '': '' @ format_value E st @ py '' in ''
                         @ format_value E ms @ py ''ms''))))"

text \<open>
  The \<open>for future in as_completed(...)\<close> loop (lines 273-284 and 333-344) over the
  futures in the order they complete, each with its name and what its worker
  returned or raised, with the number of results received, the results and the
  calls of the main thread so far. An interrupt is raised in the main thread while
  it waits for the next result. A result is appended and its line printed; a
  \<open>print\<close> that raises ends the loop with its exception.
\<close>

fun receive ::
  "env \<Rightarrow> (pystr \<times> (exc + pydict)) list \<Rightarrow> nat \<Rightarrow> pydict list \<Rightarrow> event list
     \<Rightarrow> (exc + pydict list) \<times> event list" where
  "receive E [] n results calls = (Inr results, calls)"
| "receive E ((name, res) # rest) n results calls =
     (if interrupt_after E = Some n then (Inl (Exc KeyboardInterrupt []), calls)
      else
        (case future_result name res of
           Inl e \<Rightarrow> (Inl e, calls)
         | Inr result \<Rightarrow>
             (case console_line E name result of
                Inl e \<Rightarrow> (Inl e, calls)
              | Inr line \<Rightarrow>
                  (case console_print E line of
                     Some e \<Rightarrow> (Inl e, calls @ [Print line])
                   | None \<Rightarrow>
                       receive E rest (n + 1) (results @ [result]) (calls @ [Print line])))))"

text \<open>
  Lines 273-292 and 333-351, for the finished workers in submission order, each
  with its name, its calls and what it returned or raised: the results in the order
  they are received, and the aggregate file. The result is what
  \<open>run_concurrent_requests\<close> returns or raises, the calls of each worker in submission
  order, and the calls of the main thread. Leaving the \<open>with\<close> block waits for every
  worker, also when an exception is on its way.
\<close>

definition interrupted :: "env \<Rightarrow> nat \<Rightarrow> bool" where
  "interrupted E n = (case interrupt_after E of None \<Rightarrow> False | Some k \<Rightarrow> k < n)"

definition collect_results ::
  "env \<Rightarrow> args \<Rightarrow> (pystr \<times> event list \<times> (exc + pydict)) list
     \<Rightarrow> (exc + pydict list) \<times> event list list \<times> event list" where
  "collect_results E A finished =
     (case receive E
             (map (\<lambda>i. (fst (finished ! i), snd (snd (finished ! i))))
                (as_completed E (length finished)))
             0 [] [] of
        (Inl e, calls) \<Rightarrow> (Inl e, map (\<lambda>f. fst (snd f)) finished, calls)
      | (Inr results, calls) \<Rightarrow>
          if truthy (a_output A)
          then (case write_output E (the (a_output A)) of
                  Some e \<Rightarrow> (Inl e, map (\<lambda>f. fst (snd f)) finished,
                             calls @ [WriteText (the (a_output A)) (jsonl E results)])
                | None \<Rightarrow> (Inr results, map (\<lambda>f. fst (snd f)) finished,
                           calls @ [WriteText (the (a_output A)) (jsonl E results)]))
          else (Inr results, map (\<lambda>f. fst (snd f)) finished, calls))"

definition run_with ::
  "(pystr option list option \<Rightarrow> pystr \<Rightarrow> exc + dict)
     \<Rightarrow> (pystr option list option \<Rightarrow> exc + dict)
     \<Rightarrow> (env \<Rightarrow> args \<Rightarrow> exc + (nat list option \<times> 'j option))
     \<Rightarrow> (env \<Rightarrow> worker_env \<Rightarrow> 'j job \<Rightarrow> event list \<times> (exc + pydict))
     \<Rightarrow> env \<Rightarrow> args \<Rightarrow> (exc + pydict list) \<times> event list list \<times> event list" where
  "run_with pair_parser header_parser body_parser perform E A =
     (case pre_run pair_parser header_parser body_parser E A of
        Inl e \<Rightarrow> (Inl e, [], [])
      | Inr jobs \<Rightarrow>
          collect_results E A
            (map (\<lambda>i. (j_name (jobs ! i), perform E (worker E i) (jobs ! i)))
               [0..<length jobs]))"

definition run_concurrent_requests ::
  "env \<Rightarrow> args \<Rightarrow> (exc + pydict list) \<times> event list list \<times> event list" where
  "run_concurrent_requests =
     run_with parse_key_value_pairs parse_header_pairs parse_body perform_request_with_retries"

definition stdlib_run_concurrent_requests ::
  "env \<Rightarrow> args \<Rightarrow> (exc + pydict list) \<times> event list list \<times> event list" where
  "stdlib_run_concurrent_requests =
     run_with stdlib_parse_key_value_pairs stdlib_parse_header_pairs stdlib_parse_body
       stdlib_perform_request_with_retries"

text \<open>
  \<open>main\<close> (http_runner.py lines 342-353, http_runner_stdlib.py lines 395-406): it
  returns an exit code; or \<open>parse_args\<close> exits (\<open>SystemExit\<close> is no \<open>Exception\<close> and is
  not caught); or the \<open>print\<close> of a handler raises, and \<open>main\<close> raises that exception.
\<close>

datatype exit = Returned int | SystemExit_raised int | Raised exc

definition main_with ::
  "(env \<Rightarrow> args \<Rightarrow> (exc + pydict list) \<times> event list list \<times> event list)
     \<Rightarrow> env \<Rightarrow> pystr list option \<Rightarrow> exit" where
  "main_with run E argv =
     (case parse_args E argv of
        Inl code \<Rightarrow> SystemExit_raised code
      | Inr A \<Rightarrow>
          (case fst (run E A) of
             Inr results \<Rightarrow> Returned 0
           | Inl e \<Rightarrow>
               if exc_kind_of e = KeyboardInterrupt
               then (case console_print E (py ''Interrupted'') of
                       Some e' \<Rightarrow> Raised e'
                     | None \<Rightarrow> Returned 130)
               else (case console_print E (py ''ERROR: '' @ str_exc e) of
                       Some e' \<Rightarrow> Raised e'
                     | None \<Rightarrow> Returned 1)))"

definition main :: "env \<Rightarrow> pystr list option \<Rightarrow> exit" where
  "main = main_with run_concurrent_requests"

definition stdlib_main :: "env \<Rightarrow> pystr list option \<Rightarrow> exit" where
  "stdlib_main = main_with stdlib_run_concurrent_requests"

section \<open>Reading the calls and the aggregate file\<close>

text \<open>A call on the transport: one HTTP request of one attempt.\<close>

fun is_request :: "event \<Rightarrow> bool" where
  "is_request (RequestsCall q) = True"
| "is_request (OpenerOpen q) = True"
| "is_request (Sleep ms) = False"
| "is_request (MakeDirs p) = False"
| "is_request (WriteText p s) = False"
| "is_request (WriteBinary p b) = False"
| "is_request (Print line) = False"

text \<open>An answer of \<open>opener.open\<close> that carries an HTTP response.\<close>

fun is_response :: "open_result \<Rightarrow> bool" where
  "is_response (Opened st items body t) = True"
| "is_response (HTTPError_raised code hdrs body t) = True"
| "is_response (URLError_raised msg) = False"
| "is_response (Other_raised e) = False"

fun response_status :: "open_result \<Rightarrow> int option" where
  "response_status (Opened st items body t) = Some st"
| "response_status (HTTPError_raised code hdrs body t) = Some code"
| "response_status (URLError_raised msg) = None"
| "response_status (Other_raised e) = None"

text \<open>The lines of a text, split at the line feeds, without them.\<close>

fun file_lines :: "pystr \<Rightarrow> pystr \<Rightarrow> pystr list" where
  "file_lines cur [] = (if cur = [] then [] else [cur])"
| "file_lines cur (c # cs) =
     (if c = 10 then cur # file_lines [] cs else file_lines (cur @ [c]) cs)"

text \<open>
  The two shapes of the JSON Lines schema, as the specification gives them: the keys
  in order, each with the type of its value.
\<close>

definition shape_of :: "pydict \<Rightarrow> (pystr \<times> json_type) list" where
  "shape_of item = map (\<lambda>(k, v). (k, json_type_of v)) item"

definition success_shape :: "(pystr \<times> json_type) list" where
  "success_shape =
     [(py ''name'', TStr), (py ''status'', TInt), (py ''elapsed_ms'', TFloat),
      (py ''response_headers'', TDict)]"

definition failure_shape :: "(pystr \<times> json_type) list" where
  "failure_shape = [(py ''name'', TStr), (py ''error'', TStr)]"

section \<open>Example inputs\<close>

text \<open>
  A worker environment whose transport answers attempt \<open>k\<close> with the exception or
  the status \<open>answer k\<close> (through \<open>requests\<close> as a response, through \<open>urllib\<close> as an
  \<open>HTTPError\<close> from 300 on), and whose metadata file cannot be written when
  \<open>meta_error\<close> is an exception.
\<close>

definition example_worker :: "(nat \<Rightarrow> exc + int) \<Rightarrow> exc option \<Rightarrow> worker_env" where
  "example_worker answer meta_error =
     \<lparr> requests_request = (\<lambda>k q. case answer k of
          Inl e \<Rightarrow> Inl e
        | Inr st \<Rightarrow> Inr (\<lparr> status_code = st, headers = [], content = [] \<rparr>, 12.5)),
       opener_open = (\<lambda>k q. case answer k of
          Inl e \<Rightarrow> Other_raised e
        | Inr st \<Rightarrow> if st < 300 then Opened st [] [] 12.5
                    else HTTPError_raised st (Some []) (Inr []) 12.5),
       os_makedirs = (\<lambda>k p. None),
       write_meta = (\<lambda>k p. meta_error),
       write_body = (\<lambda>k p. None) \<rparr>"

definition timed_out :: exc where
  "timed_out = Exc OtherException (py ''timed out'')"

definition read_only :: exc where
  "read_only = Exc OSError (py ''Read-only file system'')"

text \<open>
  An environment with one file, a \<open>json\<close> that knows the empty object only, sleeps
  and prints that return, workers
  that all get the answers \<open>answer\<close>, and results received in reverse submission
  order.
\<close>

definition example_env :: "(nat \<Rightarrow> exc + int) \<Rightarrow> exc option \<Rightarrow> nat option \<Rightarrow> env" where
  "example_env answer meta_error interrupt =
     \<lparr> uni_alnum = (\<lambda>c. False),
       str_title = (\<lambda>s. s),
       os_isfile = (\<lambda>p. p = py ''sessions.txt''),
       read_text = (\<lambda>p. Inl (Exc FileNotFoundError p)),
       read_binary = (\<lambda>p. Inl (Exc FileNotFoundError p)),
       read_lines = (\<lambda>p. if p = py ''sessions.txt'' then Inr [py ''s1'', [], py ''s2'']
                          else Inl (Exc FileNotFoundError p)),
       json_loads = (\<lambda>s. if s = py ''{}'' then Inr (JDict [])
                          else Inl (Exc JSONDecodeError (py ''Expecting value''))),
       json_dumps = (\<lambda>v. py ''{}''),
       json_dump_indent2 = (\<lambda>v. py ''{}''),
       py_round2 = (\<lambda>x. x),
       urllib_attach = (\<lambda>u d. Inr u),
       parse_args = (\<lambda>argv. Inl 2),
       worker = (\<lambda>i. example_worker answer meta_error),
       completion_order = (\<lambda>n. rev [0..<n]),
       interrupt_after = interrupt,
       write_output = (\<lambda>p. None),
       time_sleep = (\<lambda>ms. None),
       console_print = (\<lambda>line. None),
       py_str = (\<lambda>v. py ''0''),
       encode_error_message = (\<lambda>s. py ''surrogates not allowed'') \<rparr>"

definition example_job :: "int \<Rightarrow> int \<Rightarrow> int \<Rightarrow> pystr option \<Rightarrow> 'j job" where
  "example_job retries backoff delay dir =
     \<lparr> j_name = py ''t1'', j_url = py ''http://h/'', j_method = py ''GET'',
       j_params = [], j_base_headers = [], j_base_cookies = [],
       j_session_value = None, j_session_header_name = None, j_session_cookie_name = None,
       j_timeout = 30, j_allow_redirects = False, j_verify_tls = True, j_proxies = None,
       j_data = None, j_json = None,
       j_retries = retries, j_backoff_base_ms = backoff, j_delay_between_ms = delay,
       j_save_dir = dir, j_save_body = False \<rparr>"

definition example_args :: args where
  "example_args =
     \<lparr> a_url = py ''http://h/'', a_method = py ''GET'',
       a_param = None, a_cookie = None, a_header = None,
       a_session_file = None, a_session_header_name = None, a_session_cookie_name = None,
       a_name = None, a_json = None, a_data = None,
       a_timeout = 30, a_proxy = None, a_no_verify = False, a_follow_redirects = False,
       a_concurrency = 10, a_retries = 2, a_backoff_ms = 200, a_delay_ms = 0,
       a_output = None, a_save_dir = None, a_save_body = False \<rparr>"

section \<open>Properties\<close>

subsection \<open>File names\<close>

lemma isalnum_separators: "\<not> isalnum U 47" "\<not> isalnum U 92"
  by (simp_all add: isalnum_def)

text \<open>
  C5. For every input string, \<open>safe_filename\<close> returns a string of at most 128
  characters (the first 128 of the input, mapped), each of them alphanumeric or one
  of \<open>-\<close>, \<open>_\<close>, \<open>.\<close>; a character of the input that is none of these is replaced by
  \<open>_\<close> (95) and the others are kept; the result holds neither \<open>/\<close> (47) nor
  a backslash (92).
\<close>

theorem safe_filename_flat:
  "length (safe_filename U v) = min 128 (length v)
   \<and> (\<forall>c \<in> set (safe_filename U v). isalnum U c \<or> c \<in> set (py ''-_.''))
   \<and> (\<forall>i < length (safe_filename U v).
         safe_filename U v ! i
           = (if isalnum U (v ! i) \<or> v ! i \<in> set (py ''-_.'') then v ! i else 95))
   \<and> 47 \<notin> set (safe_filename U v) \<and> 92 \<notin> set (safe_filename U v)"
proof -
  let ?f = "\<lambda>ch. if isalnum U ch \<or> ch \<in> set (py ''-_.'') then ch else 95"
  have len: "length (safe_filename U v) = min 128 (length v)"
    by (simp add: safe_filename_def min.commute)
  have img: "isalnum U (?f ch) \<or> ?f ch \<in> set (py ''-_.'')" for ch
    by (simp add: py_def)
  have chars: "\<forall>c \<in> set (safe_filename U v). isalnum U c \<or> c \<in> set (py ''-_.'')"
  proof
    fix c assume "c \<in> set (safe_filename U v)"
    then have "c \<in> set (map ?f v)"
      unfolding safe_filename_def by (rule in_set_takeD)
    then obtain ch where "c = ?f ch" unfolding set_map by (rule imageE)
    with img [of ch] show "isalnum U c \<or> c \<in> set (py ''-_.'')" by simp
  qed
  have nth: "\<forall>i < length (safe_filename U v).
         safe_filename U v ! i
           = (if isalnum U (v ! i) \<or> v ! i \<in> set (py ''-_.'') then v ! i else 95)"
    by (simp add: safe_filename_def)
  have "47 \<notin> set (py ''-_.'')" "92 \<notin> set (py ''-_.'')" by (simp_all add: py_def)
  with chars isalnum_separators [of U]
  have seps: "47 \<notin> set (safe_filename U v)" "92 \<notin> set (safe_filename U v)" by blast+
  from len chars nth seps show ?thesis by blast
qed

theorem safe_filename_flat_witness:
  "safe_filename (\<lambda>c. False) (py ''../../etc/passwd'') = py ''.._.._etc_passwd''
   \<and> length (safe_filename (\<lambda>c. False) (py ''../../etc/passwd'')) = 16
   \<and> 47 \<notin> set (safe_filename (\<lambda>c. False) (py ''../../etc/passwd''))"
  using safe_filename_flat [of "\<lambda>c. False" "py ''../../etc/passwd''"]
  by (simp add: safe_filename_def py_def isalnum_def)

subsection \<open>The parsers of the two files\<close>

lemma parse_key_value_pairs_loop_same:
  "stdlib_parse_key_value_pairs_loop sep ps acc = parse_key_value_pairs_loop sep ps acc"
  by (induction ps arbitrary: acc) (auto split: option.splits sum.splits list.splits)

lemma parse_header_pairs_loop_same:
  "stdlib_parse_header_pairs_loop ps acc = parse_header_pairs_loop ps acc"
  by (induction ps arbitrary: acc) (auto split: option.splits sum.splits list.splits)

lemma stdlib_parse_key_value_pairs_eq:
  "stdlib_parse_key_value_pairs = parse_key_value_pairs"
  by (rule ext, rule ext)
     (simp add: stdlib_parse_key_value_pairs_def parse_key_value_pairs_def
        parse_key_value_pairs_loop_same split: option.splits)

lemma stdlib_parse_header_pairs_eq:
  "stdlib_parse_header_pairs = parse_header_pairs"
  by (rule ext)
     (simp add: stdlib_parse_header_pairs_def parse_header_pairs_def
        parse_header_pairs_loop_same split: option.splits)

text \<open>
  C10. On every input (a missing list, or a list of entries each \<open>None\<close> or a string,
  and any separator) the parsers of http_runner_stdlib.py return what those of
  http_runner.py return: the same dictionary, or the same exception with the same
  message.
\<close>

theorem parsers_agree:
  "stdlib_parse_key_value_pairs pairs sep = parse_key_value_pairs pairs sep
   \<and> stdlib_parse_header_pairs pairs = parse_header_pairs pairs"
  by (simp add: stdlib_parse_key_value_pairs_eq stdlib_parse_header_pairs_eq)

subsection \<open>Entries of the pair lists\<close>

text \<open>
  What holds of the parsers: the split is at the first occurrence of the separator,
  an entry without it raises, keys and values are trimmed, an empty key raises, a
  \<open>None\<close> entry of a pair list is skipped and a repeated key keeps its last value.
\<close>

lemma find_sub_first:
  "find_sub sep s = Some i
   \<Longrightarrow> take (length sep) (drop i s) = sep \<and> i + length sep \<le> length s
       \<and> (\<forall>j < i. take (length sep) (drop j s) \<noteq> sep)"
proof (induction s arbitrary: i)
  case Nil
  then show ?case by (simp split: if_splits)
next
  case (Cons c cs)
  show ?case
  proof (cases "take (length sep) (c # cs) = sep")
    case True
    with Cons.prems have "i = 0" by simp
    moreover have "length sep \<le> length (c # cs)"
    proof -
      have "length (take (length sep) (c # cs)) \<le> length (c # cs)" by simp
      with True show ?thesis by simp
    qed
    ultimately show ?thesis using True by simp
  next
    case False
    with Cons.prems obtain i' where i': "find_sub sep cs = Some i'" "i = Suc i'" by auto
    from Cons.IH [OF i'(1)] False i'(2) show ?thesis
      by (auto simp: less_Suc_eq_0_disj)
  qed
qed

lemma split1_first:
  assumes "sep \<noteq> []" and "find_sub sep s = Some i"
  shows "split1 s sep = Inr [take i s, drop (i + length sep) s]"
    and "s = take i s @ sep @ drop (i + length sep) s"
proof -
  show "split1 s sep = Inr [take i s, drop (i + length sep) s]"
    using assms by (simp add: split1_def)
  from find_sub_first [OF assms(2)]
  have "take (length sep) (drop i s) = sep" by simp
  then have "drop i s = sep @ drop (length sep) (drop i s)"
    by (metis append_take_drop_id)
  then have "drop i s = sep @ drop (i + length sep) s" by (simp add: add.commute)
  then show "s = take i s @ sep @ drop (i + length sep) s"
    by (metis append_take_drop_id)
qed

lemma dict_set_map_of: "map_of (dict_set d k v) = (map_of d)(k \<mapsto> v)"
  by (induction d) (auto simp: fun_eq_iff)

lemma missing_separator_raises:
  "\<not> str_contains sep s
   \<Longrightarrow> parse_key_value_pairs (Some [Some s]) sep = Inl (invalid_pair_format s sep)"
  "\<not> str_contains (py '':'') s
   \<Longrightarrow> parse_header_pairs (Some [Some s]) = Inl (invalid_header_format s)"
  by (simp_all add: parse_key_value_pairs_def parse_header_pairs_def)

lemma well_formed_pairs:
  "parse_key_value_pairs
     (Some [Some (py '' a = 1=2 ''), None, Some (py ''b=''), Some (py ''a=3'')]) (py ''='')
   = Inr [(py ''a'', py ''3''), (py ''b'', [])]"
  "parse_key_value_pairs (Some [Some (py ''a=1''), Some (py ''a=2'')]) (py ''='')
   = Inr [(py ''a'', py ''2'')]"
  "parse_key_value_pairs (Some [Some (py '' =v'')]) (py ''='') = Inl (invalid_pair_key (py '' =v''))"
  "parse_header_pairs (Some [Some (py ''Host: h:80''), Some (py ''Host:x'')])
   = Inr [(py ''Host'', py ''x'')]"
  "parse_header_pairs (Some [Some (py '': v'')]) = Inl (invalid_header_name (py '': v''))"
  by (simp_all add: parse_key_value_pairs_def parse_header_pairs_def str_contains_def py_def
        split1_def strip_def isspace_def)

text \<open>
  C3. The claim has blank entries skipped. The code raises on them: an empty entry
  and an entry of one space both lack the separator, so \<open>parse_key_value_pairs\<close>
  raises the "Expected format" error, and \<open>parse_header_pairs\<close> does too; it also
  raises on a \<open>None\<close> entry, which \<open>parse_key_value_pairs\<close> skips.
\<close>

theorem blank_pair_raises:
  "parse_key_value_pairs (Some [Some []]) (py ''='') = Inl (invalid_pair_format [] (py ''=''))
   \<and> parse_key_value_pairs (Some [Some (py '' '')]) (py ''='')
       = Inl (invalid_pair_format (py '' '') (py ''=''))
   \<and> parse_key_value_pairs (Some [None, Some (py ''a=1'')]) (py ''='')
       = Inr [(py ''a'', py ''1'')]
   \<and> parse_header_pairs (Some [Some []]) = Inl (invalid_header_format [])
   \<and> parse_header_pairs (Some [None]) = Inl none_not_iterable"
  by (simp add: parse_key_value_pairs_def parse_header_pairs_def str_contains_def py_def
        split1_def strip_def isspace_def)

subsection \<open>The retry loop\<close>

lemma retry_loop_exhausted:
  "\<not> int a \<le> R
   \<Longrightarrow> retry_loop body R name a prev calls = (calls, Inr (failure_record name prev))"
  by (simp add: retry_loop.simps)

lemma retry_loop_Inr:
  "int a \<le> R \<Longrightarrow> body a = (made, Inr r)
   \<Longrightarrow> retry_loop body R name a prev calls = (calls @ made, Inr r)"
  by (simp add: retry_loop.simps)

lemma retry_loop_Inl:
  "int a \<le> R \<Longrightarrow> body a = (made, Inl e) \<Longrightarrow> is_Exception e
   \<Longrightarrow> retry_loop body R name a prev calls
       = retry_loop body R name (Suc a) (Some e) (calls @ made)"
  by (simp add: retry_loop.simps)

lemma retry_loop_not_caught:
  "int a \<le> R \<Longrightarrow> body a = (made, Inl e) \<Longrightarrow> \<not> is_Exception e
   \<Longrightarrow> retry_loop body R name a prev calls = (calls @ made, Inl e)"
  by (simp add: retry_loop.simps)

lemma retry_loop_all_fail:
  assumes "\<forall>k. a \<le> k \<and> int k \<le> R \<longrightarrow> snd (body k) = Inl (err k) \<and> is_Exception (err k)"
  shows "retry_loop body R name a prev calls
         = (calls @ concat (map (\<lambda>k. fst (body k)) [a..<nat (R + 1)]),
            Inr (failure_record name (if int a \<le> R then Some (err (nat R)) else prev)))"
  using assms
proof (induction body R name a prev calls rule: retry_loop.induct)
  case (1 body retries name attempt last_exc calls)
  show ?case
  proof (cases "int attempt \<le> retries")
    case False
    then show ?thesis by (simp add: retry_loop_exhausted)
  next
    case True
    with "1.prems" have f: "snd (body attempt) = Inl (err attempt)"
      and ex: "is_Exception (err attempt)" by simp_all
    then obtain made where b: "body attempt = (made, Inl (err attempt))"
      by (cases "body attempt") simp
    have up: "[attempt..<nat (retries + 1)] = attempt # [Suc attempt..<nat (retries + 1)]"
      using True by (simp add: upt_conv_Cons)
    have ih: "retry_loop body retries name (Suc attempt) (Some (err attempt)) (calls @ made)
         = ((calls @ made) @ concat (map (\<lambda>k. fst (body k)) [Suc attempt..<nat (retries + 1)]),
            Inr (failure_record name (if int (Suc attempt) \<le> retries
                                      then Some (err (nat retries))
                                      else Some (err attempt))))"
      using "1.IH" [OF True b [symmetric] refl ex] "1.prems" by simp
    have lastexc: "(if int (Suc attempt) \<le> retries then Some (err (nat retries))
                 else Some (err attempt)) = Some (err (nat retries))"
    proof (cases "int (Suc attempt) \<le> retries")
      case True
      then show ?thesis by simp
    next
      case False
      with \<open>int attempt \<le> retries\<close> have "nat retries = attempt" by simp
      with False show ?thesis by simp
    qed
    have step: "retry_loop body retries name attempt last_exc calls
         = retry_loop body retries name (Suc attempt) (Some (err attempt)) (calls @ made)"
      by (rule retry_loop_Inl [where body = body and a = attempt, OF True b ex])
    show ?thesis
      unfolding step ih lastexc up using True by (simp add: b)
  qed
qed

lemma retry_loop_fail_then_return:
  assumes "\<forall>k. a \<le> k \<and> k < n \<longrightarrow> snd (body k) = Inl (err k) \<and> is_Exception (err k)"
    and "snd (body n) = Inr r" and "a \<le> n" and "int n \<le> R"
  shows "retry_loop body R name a prev calls
         = (calls @ concat (map (\<lambda>k. fst (body k)) [a..<Suc n]), Inr r)"
  using assms
proof (induction body R name a prev calls rule: retry_loop.induct)
  case (1 body retries name attempt last_exc calls)
  from "1.prems" have le: "int attempt \<le> retries" by simp
  show ?case
  proof (cases "attempt = n")
    case True
    with "1.prems" obtain made where b: "body attempt = (made, Inr r)"
      by (cases "body attempt") simp
    have "retry_loop body retries name attempt last_exc calls = (calls @ made, Inr r)"
      by (rule retry_loop_Inr [where body = body and a = attempt, OF le b])
    then show ?thesis using True b by simp
  next
    case False
    with "1.prems" have lt: "attempt < n" by simp
    with "1.prems" have "snd (body attempt) = Inl (err attempt)"
      and ex: "is_Exception (err attempt)" by simp_all
    then obtain made where b: "body attempt = (made, Inl (err attempt))"
      by (cases "body attempt") simp
    have up: "[attempt..<Suc n] = attempt # [Suc attempt..<Suc n]"
      using lt by (simp add: upt_conv_Cons)
    have ih: "retry_loop body retries name (Suc attempt) (Some (err attempt)) (calls @ made)
         = ((calls @ made) @ concat (map (\<lambda>k. fst (body k)) [Suc attempt..<Suc n]), Inr r)"
      using "1.IH" [OF le b [symmetric] refl ex] "1.prems" lt by simp
    have step: "retry_loop body retries name attempt last_exc calls
         = retry_loop body retries name (Suc attempt) (Some (err attempt)) (calls @ made)"
      by (rule retry_loop_Inl [where body = body and a = attempt, OF le b ex])
    show ?thesis
      unfolding step ih up by (simp add: b)
  qed
qed

subsection \<open>Attempts\<close>

lemma time_sleep_ms_calls:
  "snd (time_sleep_ms E ms) = None \<Longrightarrow> fst (time_sleep_ms E ms) = [Sleep ms]"
  "snd (time_sleep_ms E ms) = Some e \<Longrightarrow> fst (time_sleep_ms E ms) = []"
  by (auto simp: time_sleep_ms_def split: if_splits option.splits)

lemma time_sleep_ms_overflow:
  "float_overflow ms
   \<Longrightarrow> time_sleep_ms E ms = ([], Some (Exc OverflowError (py ''int too large to convert to float'')))"
  by (simp add: time_sleep_ms_def)

lemma backoff_sleep_calls:
  "fst (backoff_sleep E J 0) = []" "snd (backoff_sleep E J 0) = None"
  "0 < k \<Longrightarrow> 0 < j_backoff_base_ms J \<Longrightarrow> snd (backoff_sleep E J k) = None
   \<Longrightarrow> fst (backoff_sleep E J k) = [Sleep (j_backoff_base_ms J * 2 ^ (k - 1))]"
  "j_backoff_base_ms J \<le> 0 \<Longrightarrow> backoff_sleep E J k = ([], None)"
  by (simp_all add: backoff_sleep_def time_sleep_ms_calls)

lemma pacing_sleep_calls:
  "0 < j_delay_between_ms J \<Longrightarrow> snd (pacing_sleep E J) = None
   \<Longrightarrow> fst (pacing_sleep E J) = [Sleep (j_delay_between_ms J)]"
  "j_delay_between_ms J \<le> 0 \<Longrightarrow> pacing_sleep E J = ([], None)"
  by (simp_all add: pacing_sleep_def time_sleep_ms_calls)

lemma no_request_in_sleeps:
  "filter is_request (fst (backoff_sleep E J k)) = []"
  "filter is_request (fst (pacing_sleep E J)) = []"
  by (simp_all add: backoff_sleep_def pacing_sleep_def time_sleep_ms_def split: option.splits)

lemma no_request_in_saves: "filter is_request (fst (save_result E W J k r b)) = []"
  by (simp add: save_result_def Let_def split: option.splits)

lemma save_result_no_dir: "\<not> truthy (j_save_dir J) \<Longrightarrow> save_result E W J k r b = ([], None)"
  by (simp add: save_result_def)

lemma attempt_body_backoff_raises:
  "snd (backoff_sleep E J k) = Some e
   \<Longrightarrow> attempt_body send E W J k = (fst (backoff_sleep E J k), Inl e)"
  by (cases "backoff_sleep E J k") (simp add: attempt_body_def)

lemma attempt_body_pacing_raises:
  "snd (backoff_sleep E J k) = None \<Longrightarrow> snd (pacing_sleep E J) = Some e
   \<Longrightarrow> attempt_body send E W J k
       = (fst (backoff_sleep E J k) @ fst (pacing_sleep E J), Inl e)"
  by (cases "backoff_sleep E J k", cases "pacing_sleep E J") (simp add: attempt_body_def)

lemma attempt_body_Inl:
  "snd (backoff_sleep E J k) = None \<Longrightarrow> snd (pacing_sleep E J) = None
   \<Longrightarrow> send k = (calls, Inl e)
   \<Longrightarrow> attempt_body send E W J k
       = (fst (backoff_sleep E J k) @ fst (pacing_sleep E J) @ calls, Inl e)"
  by (cases "backoff_sleep E J k", cases "pacing_sleep E J") (simp add: attempt_body_def)

lemma attempt_body_save_raises:
  "snd (backoff_sleep E J k) = None \<Longrightarrow> snd (pacing_sleep E J) = None
   \<Longrightarrow> send k = (calls, Inr f)
   \<Longrightarrow> snd (save_result E W J k (success_record E (j_name J) f) (fst (snd (snd f)))) = Some e
   \<Longrightarrow> attempt_body send E W J k
       = (fst (backoff_sleep E J k) @ fst (pacing_sleep E J) @ calls
            @ fst (save_result E W J k (success_record E (j_name J) f) (fst (snd (snd f)))),
          Inl e)"
  by (cases "backoff_sleep E J k", cases "pacing_sleep E J",
      cases "save_result E W J k (success_record E (j_name J) f) (fst (snd (snd f)))")
     (simp add: attempt_body_def)

lemma attempt_body_saved:
  "snd (backoff_sleep E J k) = None \<Longrightarrow> snd (pacing_sleep E J) = None
   \<Longrightarrow> send k = (calls, Inr f)
   \<Longrightarrow> snd (save_result E W J k (success_record E (j_name J) f) (fst (snd (snd f)))) = None
   \<Longrightarrow> attempt_body send E W J k
       = (fst (backoff_sleep E J k) @ fst (pacing_sleep E J) @ calls
            @ fst (save_result E W J k (success_record E (j_name J) f) (fst (snd (snd f)))),
          Inr (success_record E (j_name J) f))"
  by (cases "backoff_sleep E J k", cases "pacing_sleep E J",
      cases "save_result E W J k (success_record E (j_name J) f) (fst (snd (snd f)))")
     (simp add: attempt_body_def)

lemma length_concat_requests:
  assumes "\<forall>k \<in> set ks. length (filter is_request (g k)) = 1"
  shows "length (filter is_request (concat (map g ks))) = length ks"
  using assms by (induction ks) simp_all

lemma perform_all_fail:
  assumes R: "0 \<le> j_retries J"
    and fail: "\<forall>k. int k \<le> j_retries J
                 \<longrightarrow> requests_request W k (request_args_of J) = Inl (err k)
                     \<and> is_Exception (err k)"
    and sleeps: "\<forall>k. int k \<le> j_retries J
                 \<longrightarrow> snd (backoff_sleep E J k) = None \<and> snd (pacing_sleep E J) = None"
  shows "perform_request_with_retries E W J
         = (concat (map (\<lambda>k. fst (backoff_sleep E J k) @ fst (pacing_sleep E J)
                              @ [RequestsCall (request_args_of J)])
                      [0..<nat (j_retries J) + 1]),
            Inr (failure_record (j_name J) (Some (err (nat (j_retries J))))))"
proof -
  let ?body = "attempt_body (build_request W J) E W J"
  have b: "?body k = (fst (backoff_sleep E J k) @ fst (pacing_sleep E J)
                        @ [RequestsCall (request_args_of J)],
                      Inl (err k))" if "int k \<le> j_retries J" for k
    using fail sleeps that
    by (intro attempt_body_Inl [where send = "build_request W J" and k = k])
       (simp_all add: build_request_def)
  then have "\<forall>k. 0 \<le> k \<and> int k \<le> j_retries J
               \<longrightarrow> snd (?body k) = Inl (err k) \<and> is_Exception (err k)"
    using fail by simp
  from retry_loop_all_fail [where body = ?body and err = err, OF this]
  have "perform_request_with_retries E W J
        = (concat (map (\<lambda>k. fst (?body k)) [0..<nat (j_retries J + 1)]),
           Inr (failure_record (j_name J) (Some (err (nat (j_retries J))))))"
    using R by (simp add: perform_request_with_retries_def)
  moreover have "map (\<lambda>k. fst (?body k)) [0..<nat (j_retries J + 1)]
      = map (\<lambda>k. fst (backoff_sleep E J k) @ fst (pacing_sleep E J)
                   @ [RequestsCall (request_args_of J)])
          [0..<nat (j_retries J + 1)]"
    using R by (intro map_cong refl) (simp add: b)
  moreover have "nat (j_retries J + 1) = nat (j_retries J) + 1" using R by simp
  ultimately show ?thesis by (simp only:)
qed

text \<open>
  C1, as amended. In http_runner.py, when the transport raises an \<open>Exception\<close> on
  every attempt, the configured retries are \<open>R \<ge> 0\<close> and every sleep of the attempts
  returns (the delay can be converted to a float and \<open>time.sleep\<close> accepts it),
  \<open>perform_request_with_retries\<close> makes exactly \<open>R + 1\<close> requests and returns the
  failure record \<open>{name, error}\<close> with the message of the last exception. The calls
  are, attempt after attempt, the backoff sleep, the pacing sleep and the request,
  where no backoff is slept before attempt 0, \<open>backoff_base_ms * 2^(i-1)\<close> ms are
  slept before attempt \<open>i > 0\<close> when the base is positive, and \<open>delay_between_ms\<close>,
  when positive, is slept before every attempt.
\<close>

theorem retries_exhausted:
  assumes R: "0 \<le> j_retries J"
    and fail: "\<forall>k. int k \<le> j_retries J
                 \<longrightarrow> requests_request W k (request_args_of J) = Inl (err k)
                     \<and> is_Exception (err k)"
    and sleeps: "\<forall>k. int k \<le> j_retries J
                 \<longrightarrow> snd (backoff_sleep E J k) = None \<and> snd (pacing_sleep E J) = None"
  shows "perform_request_with_retries E W J
         = (concat (map (\<lambda>k. fst (backoff_sleep E J k) @ fst (pacing_sleep E J)
                              @ [RequestsCall (request_args_of J)])
                      [0..<nat (j_retries J) + 1]),
            Inr [(py ''name'', JStr (j_name J)),
                 (py ''error'', JStr (str_exc (err (nat (j_retries J)))))])
       \<and> length (filter is_request (fst (perform_request_with_retries E W J)))
           = nat (j_retries J) + 1
       \<and> fst (backoff_sleep E J 0) = []
       \<and> (\<forall>i. 0 < i \<and> int i \<le> j_retries J \<and> 0 < j_backoff_base_ms J
              \<longrightarrow> fst (backoff_sleep E J i) = [Sleep (j_backoff_base_ms J * 2 ^ (i - 1))])
       \<and> (j_backoff_base_ms J \<le> 0 \<longrightarrow> (\<forall>i. fst (backoff_sleep E J i) = []))
       \<and> (0 < j_delay_between_ms J \<longrightarrow> fst (pacing_sleep E J) = [Sleep (j_delay_between_ms J)])
       \<and> (j_delay_between_ms J \<le> 0 \<longrightarrow> fst (pacing_sleep E J) = [])"
proof -
  note run = perform_all_fail [OF R fail sleeps]
  have "length (filter is_request (fst (perform_request_with_retries E W J)))
        = length [0..<nat (j_retries J) + 1]"
    unfolding run fst_conv
    by (rule length_concat_requests) (simp add: no_request_in_sleeps)
  moreover from sleeps [rule_format, of 0] R have p: "snd (pacing_sleep E J) = None" by simp
  ultimately show ?thesis
    using sleeps by (simp add: run failure_record_def backoff_sleep_calls pacing_sleep_calls)
qed


lemma example_sleeps_return:
  "\<not> float_overflow ms
   \<Longrightarrow> time_sleep_ms (example_env answer meta_error interrupt) ms = ([Sleep ms], None)"
  by (simp add: time_sleep_ms_def example_env_def)

theorem retries_exhausted_witness:
  "perform_request_with_retries (example_env (\<lambda>k. Inl timed_out) None None)
     (example_worker (\<lambda>k. Inl timed_out) None) (example_job 2 100 0 None)
   = ([RequestsCall (request_args_of (example_job 2 100 0 None)), Sleep 100,
       RequestsCall (request_args_of (example_job 2 100 0 None)), Sleep 200,
       RequestsCall (request_args_of (example_job 2 100 0 None))],
      Inr [(py ''name'', JStr (py ''t1'')), (py ''error'', JStr (py ''timed out''))])"
proof -
  define E where "E = example_env (\<lambda>k. Inl timed_out) None None"
  define J :: "json job" where "J = example_job 2 100 0 None"
  have fields: "j_retries J = 2" "j_backoff_base_ms J = 100" "j_delay_between_ms J = 0"
    "j_name J = py ''t1''"
    by (simp_all add: J_def example_job_def)
  have R: "0 \<le> j_retries J" by (simp add: fields)
  have fail: "\<forall>k. int k \<le> j_retries J
      \<longrightarrow> requests_request (example_worker (\<lambda>k. Inl timed_out) None) k (request_args_of J)
           = Inl timed_out \<and> is_Exception timed_out"
    by (simp add: example_worker_def timed_out_def is_Exception_def)
  have small: "\<not> float_overflow 100" "\<not> float_overflow 200"
    by (simp_all add: float_overflow_def)
  have b: "backoff_sleep E J 0 = ([], None)" "backoff_sleep E J 1 = ([Sleep 100], None)"
    "backoff_sleep E J 2 = ([Sleep 200], None)" "pacing_sleep E J = ([], None)"
    by (simp_all add: backoff_sleep_def pacing_sleep_def fields E_def
          example_sleeps_return small)
  have sleeps: "\<forall>k. int k \<le> j_retries J
      \<longrightarrow> snd (backoff_sleep E J k) = None \<and> snd (pacing_sleep E J) = None"
  proof (intro allI impI)
    fix k assume "int k \<le> j_retries J"
    then have "k = 0 \<or> k = 1 \<or> k = 2" unfolding fields by presburger
    then show "snd (backoff_sleep E J k) = None \<and> snd (pacing_sleep E J) = None"
      using b by auto
  qed
  have up: "[0..<nat 2 + 1] = [0, 1, 2]" by (simp add: upt_rec)
  show ?thesis
    using retries_exhausted [OF R fail sleeps]
    unfolding fields up J_def [symmetric] E_def [symmetric]
    by (simp add: b timed_out_def)
qed

text \<open>
  C1 as stated fails: with retries 1 and a backoff base of \<open>2^1024\<close> ms the transport
  times out on attempt 0; on attempt 1 the backoff cannot be converted to a float,
  the \<open>OverflowError\<close> is caught as that attempt's failure and no second request is
  sent. One request is made, not two, and the record carries the message of the
  \<open>OverflowError\<close>.
\<close>

theorem backoff_overflow_skips_request:
  "perform_request_with_retries (example_env (\<lambda>k. Inl timed_out) None None)
     (example_worker (\<lambda>k. Inl timed_out) None) (example_job 1 (2 ^ 1024) 0 None)
   = ([RequestsCall (request_args_of (example_job 1 (2 ^ 1024) 0 None))],
      Inr [(py ''name'', JStr (py ''t1'')),
           (py ''error'', JStr (py ''int too large to convert to float''))])"
proof -
  define E where "E = example_env (\<lambda>k. Inl timed_out) None None"
  define W where "W = example_worker (\<lambda>k. Inl timed_out) None"
  define J :: "json job" where "J = example_job 1 (2 ^ 1024) 0 None"
  define overflow where
    "overflow = Exc OverflowError (py ''int too large to convert to float'')"
  define err where "err = (\<lambda>k::nat. if k = 0 then timed_out else overflow)"
  have fields: "j_retries J = 1" "j_backoff_base_ms J = 2 ^ 1024" "j_delay_between_ms J = 0"
    "j_name J = py ''t1''"
    by (simp_all add: J_def example_job_def)
  have big: "float_overflow (2 ^ 1024 * 2 ^ (Suc 0 - 1))"
    by (simp add: float_overflow_def)
  have s0: "backoff_sleep E J 0 = ([], None)" "pacing_sleep E J = ([], None)"
    by (simp_all add: backoff_sleep_def pacing_sleep_def fields)
  have s1: "backoff_sleep E J (Suc 0) = ([], Some overflow)"
    unfolding overflow_def
    by (simp add: backoff_sleep_def fields time_sleep_ms_overflow [OF big, simplified])
  let ?body = "attempt_body (build_request W J) E W J"
  have sent: "build_request W J 0 = ([RequestsCall (request_args_of J)], Inl timed_out)"
    by (simp add: build_request_def W_def example_worker_def)
  have b0: "?body 0 = ([RequestsCall (request_args_of J)], Inl timed_out)"
    using attempt_body_Inl [where send = "build_request W J" and k = 0 and E = E and J = J,
        OF _ _ sent]
    by (simp add: s0)
  have b1: "?body (Suc 0) = ([], Inl overflow)"
    using attempt_body_backoff_raises [where k = "Suc 0" and E = E and J = J and e = overflow]
    by (simp add: s1)
  have ex: "is_Exception timed_out" "is_Exception overflow"
    by (simp_all add: is_Exception_def timed_out_def overflow_def)
  have fails: "\<forall>k. 0 \<le> k \<and> int k \<le> j_retries J
      \<longrightarrow> snd (?body k) = Inl (err k) \<and> is_Exception (err k)"
  proof (intro allI impI)
    fix k assume "0 \<le> k \<and> int k \<le> j_retries J"
    then have "k = 0 \<or> k = Suc 0" unfolding fields by presburger
    then show "snd (?body k) = Inl (err k) \<and> is_Exception (err k)"
      using b0 b1 ex by (auto simp: err_def)
  qed
  have up: "[0..<nat (1 + 1)] = [0, Suc 0]" by (simp add: upt_rec)
  from retry_loop_all_fail [where body = ?body and err = err, OF fails, of "j_name J" None "[]"]
  have "perform_request_with_retries E W J
        = ([RequestsCall (request_args_of J)],
           Inr (failure_record (j_name J) (Some overflow)))"
    unfolding perform_request_with_retries_def fields up
    by (simp add: b0 b1 err_def)
  then show ?thesis
    unfolding E_def [symmetric] W_def [symmetric] J_def [symmetric]
    by (simp add: failure_record_def fields overflow_def)
qed

subsection \<open>Responses and persistence\<close>

lemma filter_concat_single:
  assumes "\<forall>k \<in> set ks. filter P (g k) = [q]"
  shows "filter P (concat (map g ks)) = replicate (length ks) q"
  using assms by (induction ks) simp_all

lemma save_result_raises:
  assumes "truthy (j_save_dir J)" and "os_makedirs W k (the (j_save_dir J)) = None"
    and "write_meta W k (meta_path E J) = Some e
         \<or> (write_meta W k (meta_path E J) = None \<and> j_save_body J
            \<and> write_body W k (body_path E J) = Some e)"
  shows "snd (save_result E W J k r b) = Some e"
  using assms by (auto simp: save_result_def)

lemma save_result_quiet:
  assumes "\<not> truthy (j_save_dir J)
           \<or> (os_makedirs W k (the (j_save_dir J)) = None
              \<and> write_meta W k (meta_path E J) = None
              \<and> (j_save_body J \<longrightarrow> write_body W k (body_path E J) = None))"
  shows "snd (save_result E W J k r b) = None"
  using assms by (auto simp: save_result_def)

lemma build_and_send_opened:
  assumes "attach_params_to_url E (j_url J) (j_params J) = Inr u"
    and "opener_open W k (url_request_of E J u) = Opened st items body t"
  shows "build_and_send_request E W J k
         = ([OpenerOpen (url_request_of E J u)], Inr (st, dict_of_items items, body, t))"
  using assms by (simp add: build_and_send_request_def)

lemma build_and_send_http_error:
  assumes "attach_params_to_url E (j_url J) (j_params J) = Inr u"
    and "opener_open W k (url_request_of E J u) = HTTPError_raised st hdrs rd t"
  shows "build_and_send_request E W J k
         = ([OpenerOpen (url_request_of E J u)],
            Inr (st, (case hdrs of None \<Rightarrow> [] | Some items \<Rightarrow> dict_of_items items),
                 (case rd of Inl e \<Rightarrow> [] | Inr b \<Rightarrow> b), t))"
  using assms by (simp add: build_and_send_request_def)

lemma build_and_send_response:
  assumes "attach_params_to_url E (j_url J) (j_params J) = Inr u"
    and "is_response (opener_open W k (url_request_of E J u))"
  shows "\<exists>f. build_and_send_request E W J k = ([OpenerOpen (url_request_of E J u)], Inr f)"
  using assms
  by (cases "opener_open W k (url_request_of E J u)") (simp_all add: build_and_send_request_def)

lemma build_and_send_requests:
  "length (filter is_request (fst (build_and_send_request E W J k))) \<le> 1"
  by (simp add: build_and_send_request_def split: sum.splits)

lemma attempt_body_request_filter:
  "filter is_request (fst (attempt_body send E W J k))
   = (if snd (backoff_sleep E J k) = None \<and> snd (pacing_sleep E J) = None
      then filter is_request (fst (send k)) else [])"
proof -
  obtain c1 x1 where b: "backoff_sleep E J k = (c1, x1)" by (cases "backoff_sleep E J k")
  obtain c2 x2 where p: "pacing_sleep E J = (c2, x2)" by (cases "pacing_sleep E J")
  obtain c3 x3 where s: "send k = (c3, x3)" by (cases "send k")
  have n: "filter is_request c1 = []" "filter is_request c2 = []"
    using no_request_in_sleeps(1) [of E J k] no_request_in_sleeps(2) [of E J] b p by simp_all
  have v: "filter is_request (fst (save_result E W J k r bd)) = []" for r bd
    by (rule no_request_in_saves)
  show ?thesis
  proof (cases x3)
    case (Inl e)
    with b p s n show ?thesis
      by (simp add: attempt_body_def split: option.splits)
  next
    case (Inr f)
    obtain c4 x4 where
      sv: "save_result E W J k (success_record E (j_name J) f) (fst (snd (snd f))) = (c4, x4)"
      by (cases "save_result E W J k (success_record E (j_name J) f) (fst (snd (snd f)))")
    with v [of "success_record E (j_name J) f" "fst (snd (snd f))"]
    have "filter is_request c4 = []" by simp
    with Inr b p s n sv show ?thesis
      by (simp add: attempt_body_def split: option.splits)
  qed
qed

lemma attempt_body_raises_iff:
  "(\<exists>e. snd (attempt_body send E W J k) = Inl e)
   \<longleftrightarrow> (\<exists>e. snd (backoff_sleep E J k) = Some e)
       \<or> (\<exists>e. snd (pacing_sleep E J) = Some e)
       \<or> (\<exists>e. snd (send k) = Inl e)
       \<or> (\<exists>f e. snd (send k) = Inr f
            \<and> snd (save_result E W J k (success_record E (j_name J) f) (fst (snd (snd f))))
                = Some e)"
  by (cases "backoff_sleep E J k"; cases "pacing_sleep E J"; cases "send k")
     (auto simp: attempt_body_def split: sum.splits prod.splits option.splits)

lemma retry_loop_request_bound:
  assumes "\<forall>k. length (filter is_request (fst (body k))) \<le> 1"
  shows "length (filter is_request (fst (retry_loop body R name a prev calls)))
         \<le> length (filter is_request calls) + (nat (R + 1) - a)"
  using assms
proof (induction body R name a prev calls rule: retry_loop.induct)
  case (1 body retries name attempt last_exc calls)
  show ?case
  proof (cases "int attempt \<le> retries")
    case False
    then show ?thesis by (simp add: retry_loop_exhausted)
  next
    case True
    obtain made res where b: "body attempt = (made, res)" by (cases "body attempt")
    from "1.prems" have m: "length (filter is_request made) \<le> 1"
      by (metis b fst_conv)
    from True have pos: "1 \<le> nat (retries + 1) - attempt" by simp
    show ?thesis
    proof (cases res)
      case (Inr r)
      have "retry_loop body retries name attempt last_exc calls = (calls @ made, Inr r)"
        using b Inr by (intro retry_loop_Inr [where body = body and a = attempt, OF True]) simp
      with m pos show ?thesis by simp
    next
      case (Inl e)
      with b have b': "body attempt = (made, Inl e)" by simp
      show ?thesis
      proof (cases "is_Exception e")
        case False
        have "retry_loop body retries name attempt last_exc calls = (calls @ made, Inl e)"
          by (rule retry_loop_not_caught [where body = body and a = attempt, OF True b' False])
        with m pos show ?thesis by simp
      next
        case ex: True
        have "retry_loop body retries name attempt last_exc calls
              = retry_loop body retries name (Suc attempt) (Some e) (calls @ made)"
          by (rule retry_loop_Inl [where body = body and a = attempt, OF True b' ex])
        moreover from "1.IH" [OF True b' [symmetric] refl ex] "1.prems"
        have "length (filter is_request
                 (fst (retry_loop body retries name (Suc attempt) (Some e) (calls @ made))))
              \<le> length (filter is_request (calls @ made)) + (nat (retries + 1) - Suc attempt)"
          by simp
        ultimately show ?thesis using m True by simp
      qed
    qed
  qed
qed

lemma retry_loop_persist_fail:
  assumes R: "0 \<le> R"
    and sleeps: "\<forall>k. int k \<le> R
                   \<longrightarrow> snd (backoff_sleep E J k) = None \<and> snd (pacing_sleep E J) = None"
    and sent: "\<forall>k. int k \<le> R \<longrightarrow> (\<exists>f. send k = ([q], Inr f))"
    and q: "is_request q"
    and save: "\<forall>k r b. int k \<le> R
                 \<longrightarrow> snd (save_result E W J k r b) = Some (err k) \<and> is_Exception (err k)"
  shows "snd (retry_loop (attempt_body send E W J) R name 0 None [])
           = Inr (failure_record name (Some (err (nat R))))
         \<and> filter is_request (fst (retry_loop (attempt_body send E W J) R name 0 None []))
           = replicate (nat R + 1) q"
proof -
  let ?body = "attempt_body send E W J"
  have b: "snd (?body k) = Inl (err k) \<and> filter is_request (fst (?body k)) = [q]"
    if k: "int k \<le> R" for k
  proof -
    from sent k obtain f where f: "send k = ([q], Inr f)" by blast
    from save k
    have s: "snd (save_result E W J k (success_record E (j_name J) f) (fst (snd (snd f))))
          = Some (err k)" by blast
    from sleeps k have sl: "snd (backoff_sleep E J k) = None" "snd (pacing_sleep E J) = None"
      by simp_all
    from attempt_body_save_raises [where send = send and k = k, OF sl f s]
    have "snd (?body k) = Inl (err k)" by simp
    moreover have "filter is_request (fst (?body k)) = [q]"
      using sl f q by (simp add: attempt_body_request_filter)
    ultimately show ?thesis by simp
  qed
  then have "\<forall>k. 0 \<le> k \<and> int k \<le> R \<longrightarrow> snd (?body k) = Inl (err k) \<and> is_Exception (err k)"
    using save by simp
  from retry_loop_all_fail [where body = ?body and err = err, OF this]
  have run: "retry_loop ?body R name 0 None []
        = (concat (map (\<lambda>k. fst (?body k)) [0..<nat (R + 1)]),
           Inr (failure_record name (Some (err (nat R)))))"
    using R by simp
  have "filter is_request (concat (map (\<lambda>k. fst (?body k)) [0..<nat (R + 1)]))
        = replicate (length [0..<nat (R + 1)]) q"
    by (rule filter_concat_single) (use b R in auto)
  moreover have "nat (R + 1) = nat R + 1" using R by simp
  ultimately show ?thesis by (simp add: run)
qed

lemma retry_loop_response:
  assumes n: "int n \<le> R"
    and before: "\<forall>k. k < n \<longrightarrow> snd (attempt_body send E W J k) = Inl (err k)
                                 \<and> is_Exception (err k)"
    and sleeps: "snd (backoff_sleep E J n) = None" "snd (pacing_sleep E J) = None"
    and sent: "send n = ([q], Inr f)"
    and q: "is_request q"
    and save: "snd (save_result E W J n (success_record E (j_name J) f) (fst (snd (snd f)))) = None"
  shows "snd (retry_loop (attempt_body send E W J) R name 0 None [])
           = Inr (success_record E (j_name J) f)
         \<and> filter is_request (fst (retry_loop (attempt_body send E W J) R name 0 None []))
           = filter is_request (concat (map (\<lambda>k. fst (attempt_body send E W J k)) [0..<n]))
             @ [q]"
proof -
  let ?body = "attempt_body send E W J"
  note b = attempt_body_saved [where send = send and k = n, OF sleeps sent save]
  have last: "snd (?body n) = Inr (success_record E (j_name J) f)" by (simp add: b)
  have req: "filter is_request (fst (?body n)) = [q]"
    using sleeps sent q by (simp add: attempt_body_request_filter)
  from before have "\<forall>k. 0 \<le> k \<and> k < n \<longrightarrow> snd (?body k) = Inl (err k) \<and> is_Exception (err k)"
    by simp
  from retry_loop_fail_then_return [where body = ?body and err = err and a = 0 and n = n,
      OF this last _ n, of name None "[]"]
  have "retry_loop ?body R name 0 None []
        = (concat (map (\<lambda>k. fst (?body k)) [0..<Suc n]), Inr (success_record E (j_name J) f))"
    by simp
  then show ?thesis by (simp add: req)
qed

text \<open>
  C9, as amended. The \<open>try\<close> of the retry loop covers persistence. With retries
  \<open>R \<ge> 0\<close> and a save directory configured, if on every attempt up to \<open>R\<close> the sleeps
  return, the transport gives a response, and then writing the metadata file raises
  an \<open>Exception\<close> (or it is written, the body is to be saved and writing the body
  file raises one), then the request is made again on every attempt, \<open>R + 1\<close> times
  in all, and the Outcome is the failure record \<open>{name, error}\<close> with the message of
  the last exception of the file system. This holds in http_runner.py (first part)
  and in http_runner_stdlib.py (second part).
\<close>

theorem persistence_failure_retried:
  "(0 \<le> j_retries J \<and> truthy (j_save_dir J)
    \<and> (\<forall>k. int k \<le> j_retries J \<longrightarrow>
          snd (backoff_sleep E J k) = None \<and> snd (pacing_sleep E J) = None
          \<and> (\<exists>resp t. requests_request W k (request_args_of J) = Inr (resp, t))
          \<and> os_makedirs W k (the (j_save_dir J)) = None
          \<and> is_Exception (err k)
          \<and> (write_meta W k (meta_path E J) = Some (err k)
             \<or> (write_meta W k (meta_path E J) = None \<and> j_save_body J
                \<and> write_body W k (body_path E J) = Some (err k))))
    \<longrightarrow> snd (perform_request_with_retries E W J)
          = Inr [(py ''name'', JStr (j_name J)),
                 (py ''error'', JStr (str_exc (err (nat (j_retries J)))))]
        \<and> filter is_request (fst (perform_request_with_retries E W J))
          = replicate (nat (j_retries J) + 1) (RequestsCall (request_args_of J)))
   \<and> (0 \<le> j_retries J' \<and> truthy (j_save_dir J')
      \<and> attach_params_to_url E (j_url J') (j_params J') = Inr u
      \<and> (\<forall>k. int k \<le> j_retries J' \<longrightarrow>
            snd (backoff_sleep E J' k) = None \<and> snd (pacing_sleep E J') = None
            \<and> is_response (opener_open W k (url_request_of E J' u))
            \<and> os_makedirs W k (the (j_save_dir J')) = None
            \<and> is_Exception (err k)
            \<and> (write_meta W k (meta_path E J') = Some (err k)
               \<or> (write_meta W k (meta_path E J') = None \<and> j_save_body J'
                  \<and> write_body W k (body_path E J') = Some (err k))))
      \<longrightarrow> snd (stdlib_perform_request_with_retries E W J')
            = Inr [(py ''name'', JStr (j_name J')),
                   (py ''error'', JStr (str_exc (err (nat (j_retries J')))))]
          \<and> filter is_request (fst (stdlib_perform_request_with_retries E W J'))
            = replicate (nat (j_retries J') + 1) (OpenerOpen (url_request_of E J' u)))"
proof (intro conjI impI)
  assume h: "0 \<le> j_retries J \<and> truthy (j_save_dir J)
    \<and> (\<forall>k. int k \<le> j_retries J \<longrightarrow>
          snd (backoff_sleep E J k) = None \<and> snd (pacing_sleep E J) = None
          \<and> (\<exists>resp t. requests_request W k (request_args_of J) = Inr (resp, t))
          \<and> os_makedirs W k (the (j_save_dir J)) = None
          \<and> is_Exception (err k)
          \<and> (write_meta W k (meta_path E J) = Some (err k)
             \<or> (write_meta W k (meta_path E J) = None \<and> j_save_body J
                \<and> write_body W k (body_path E J) = Some (err k))))"
  have sleeps: "\<forall>k. int k \<le> j_retries J
      \<longrightarrow> snd (backoff_sleep E J k) = None \<and> snd (pacing_sleep E J) = None"
    using h by blast
  have sent: "\<forall>k. int k \<le> j_retries J
      \<longrightarrow> (\<exists>f. build_request W J k = ([RequestsCall (request_args_of J)], Inr f))"
    using h by (fastforce simp: build_request_def)
  have save: "\<forall>k r b. int k \<le> j_retries J
      \<longrightarrow> snd (save_result E W J k r b) = Some (err k) \<and> is_Exception (err k)"
    using h by (blast intro: save_result_raises)
  from h have R: "0 \<le> j_retries J" by simp
  from retry_loop_persist_fail [OF R sleeps sent _ save, of "j_name J"]
  show "snd (perform_request_with_retries E W J)
          = Inr [(py ''name'', JStr (j_name J)),
                 (py ''error'', JStr (str_exc (err (nat (j_retries J)))))]"
    and "filter is_request (fst (perform_request_with_retries E W J))
          = replicate (nat (j_retries J) + 1) (RequestsCall (request_args_of J))"
    by (simp_all add: perform_request_with_retries_def failure_record_def)
next
  assume h: "0 \<le> j_retries J' \<and> truthy (j_save_dir J')
      \<and> attach_params_to_url E (j_url J') (j_params J') = Inr u
      \<and> (\<forall>k. int k \<le> j_retries J' \<longrightarrow>
            snd (backoff_sleep E J' k) = None \<and> snd (pacing_sleep E J') = None
            \<and> is_response (opener_open W k (url_request_of E J' u))
            \<and> os_makedirs W k (the (j_save_dir J')) = None
            \<and> is_Exception (err k)
            \<and> (write_meta W k (meta_path E J') = Some (err k)
               \<or> (write_meta W k (meta_path E J') = None \<and> j_save_body J'
                  \<and> write_body W k (body_path E J') = Some (err k))))"
  have sleeps: "\<forall>k. int k \<le> j_retries J'
      \<longrightarrow> snd (backoff_sleep E J' k) = None \<and> snd (pacing_sleep E J') = None"
    using h by blast
  have sent: "\<forall>k. int k \<le> j_retries J'
      \<longrightarrow> (\<exists>f. build_and_send_request E W J' k = ([OpenerOpen (url_request_of E J' u)], Inr f))"
    using h build_and_send_response [of E J' u W] by blast
  have save: "\<forall>k r b. int k \<le> j_retries J'
      \<longrightarrow> snd (save_result E W J' k r b) = Some (err k) \<and> is_Exception (err k)"
    using h by (blast intro: save_result_raises)
  from h have R: "0 \<le> j_retries J'" by simp
  from retry_loop_persist_fail [OF R sleeps sent _ save, of "j_name J'"]
  show "snd (stdlib_perform_request_with_retries E W J')
            = Inr [(py ''name'', JStr (j_name J')),
                   (py ''error'', JStr (str_exc (err (nat (j_retries J')))))]"
    and "filter is_request (fst (stdlib_perform_request_with_retries E W J'))
            = replicate (nat (j_retries J') + 1) (OpenerOpen (url_request_of E J' u))"
    by (simp_all add: stdlib_perform_request_with_retries_def failure_record_def)
qed

theorem persistence_failure_retried_witness:
  "snd (perform_request_with_retries (example_env (\<lambda>k. Inr 200) (Some read_only) None)
          (example_worker (\<lambda>k. Inr 200) (Some read_only)) (example_job 1 0 0 (Some (py ''out''))))
     = Inr [(py ''name'', JStr (py ''t1'')), (py ''error'', JStr (py ''Read-only file system''))]
   \<and> filter is_request
         (fst (perform_request_with_retries (example_env (\<lambda>k. Inr 200) (Some read_only) None)
            (example_worker (\<lambda>k. Inr 200) (Some read_only))
            (example_job 1 0 0 (Some (py ''out'')))))
     = [RequestsCall (request_args_of (example_job 1 0 0 (Some (py ''out'')))),
        RequestsCall (request_args_of (example_job 1 0 0 (Some (py ''out''))))]
   \<and> snd (stdlib_perform_request_with_retries (example_env (\<lambda>k. Inr 200) (Some read_only) None)
          (example_worker (\<lambda>k. Inr 200) (Some read_only)) (example_job 1 0 0 (Some (py ''out''))))
     = Inr [(py ''name'', JStr (py ''t1'')), (py ''error'', JStr (py ''Read-only file system''))]
   \<and> filter is_request
         (fst (stdlib_perform_request_with_retries
            (example_env (\<lambda>k. Inr 200) (Some read_only) None)
            (example_worker (\<lambda>k. Inr 200) (Some read_only))
            (example_job 1 0 0 (Some (py ''out'')))))
     = [OpenerOpen (url_request_of (example_env (\<lambda>k. Inr 200) (Some read_only) None)
                      (example_job 1 0 0 (Some (py ''out''))) (py ''http://h/'')),
        OpenerOpen (url_request_of (example_env (\<lambda>k. Inr 200) (Some read_only) None)
                      (example_job 1 0 0 (Some (py ''out''))) (py ''http://h/''))]"
proof -
  define E where "E = example_env (\<lambda>k. Inr 200) (Some read_only) None"
  define W where "W = example_worker (\<lambda>k. Inr 200) (Some read_only)"
  define J :: "json job" where "J = example_job 1 0 0 (Some (py ''out''))"
  define J' :: "pybytes job" where "J' = example_job 1 0 0 (Some (py ''out''))"
  have J: "j_retries J = 1" "truthy (j_save_dir J)" "j_name J = py ''t1''"
    by (simp_all add: J_def example_job_def py_def)
  have J': "j_retries J' = 1" "truthy (j_save_dir J')" "j_name J' = py ''t1''"
    "attach_params_to_url E (j_url J') (j_params J') = Inr (py ''http://h/'')"
    by (simp_all add: J'_def example_job_def py_def attach_params_to_url_def)
  have S: "snd (backoff_sleep E J k) = None" "snd (pacing_sleep E J) = None"
    "snd (backoff_sleep E J' k) = None" "snd (pacing_sleep E J') = None" for k
    by (simp_all add: backoff_sleep_def pacing_sleep_def J_def J'_def example_job_def)
  have W: "is_response (opener_open W k q')" "os_makedirs W k p = None"
    "write_meta W k p = Some read_only" for k q' p
    by (simp_all add: W_def example_worker_def)
  have X: "is_Exception read_only" by (simp add: read_only_def is_Exception_def)
  have "requests_request W k q = Inr (\<lparr>status_code = 200, headers = [], content = []\<rparr>, 12.5)"
    for k q
    by (simp add: W_def example_worker_def)
  then have answered: "\<exists>resp t. requests_request W k q = Inr (resp, t)" for k q
    by blast
  have two: "replicate (nat 1 + 1) x = [x, x]" for x :: event
    by (simp add: numeral_2_eq_2)
  have h1: "0 \<le> j_retries J \<and> truthy (j_save_dir J)
    \<and> (\<forall>k. int k \<le> j_retries J \<longrightarrow>
          snd (backoff_sleep E J k) = None \<and> snd (pacing_sleep E J) = None
          \<and> (\<exists>resp t. requests_request W k (request_args_of J) = Inr (resp, t))
          \<and> os_makedirs W k (the (j_save_dir J)) = None
          \<and> is_Exception read_only
          \<and> (write_meta W k (meta_path E J) = Some read_only
             \<or> (write_meta W k (meta_path E J) = None \<and> j_save_body J
                \<and> write_body W k (body_path E J) = Some read_only)))"
    using J W S X answered by simp
  have h2: "0 \<le> j_retries J' \<and> truthy (j_save_dir J')
      \<and> attach_params_to_url E (j_url J') (j_params J') = Inr (py ''http://h/'')
      \<and> (\<forall>k. int k \<le> j_retries J' \<longrightarrow>
            snd (backoff_sleep E J' k) = None \<and> snd (pacing_sleep E J') = None
            \<and> is_response (opener_open W k (url_request_of E J' (py ''http://h/'')))
            \<and> os_makedirs W k (the (j_save_dir J')) = None
            \<and> is_Exception read_only
            \<and> (write_meta W k (meta_path E J') = Some read_only
               \<or> (write_meta W k (meta_path E J') = None \<and> j_save_body J'
                  \<and> write_body W k (body_path E J') = Some read_only)))"
    using J' W S X by simp
  note T = persistence_failure_retried [of J E W "\<lambda>k. read_only" J' "py ''http://h/''"]
  from T [THEN conjunct1, THEN mp, OF h1] T [THEN conjunct2, THEN mp, OF h2]
  show ?thesis
    unfolding E_def [symmetric] W_def [symmetric] J_def [symmetric] J'_def [symmetric]
    by (simp add: J J' two read_only_def)
qed

text \<open>
  C9 as stated fails: every attempt that reaches the transport gets HTTP 200, the
  metadata file cannot be written, retries are 1 and \<open>backoff_base_ms\<close> is \<open>2^1024\<close>.
  The write error of attempt 0 uses one unit of the budget, and attempt 1 ends in
  the backoff sleep, whose delay cannot be converted to a float: the request is
  made once only, and the Outcome carries the message of the \<open>OverflowError\<close>, in
  both files.
\<close>

theorem write_error_then_backoff_overflow:
  "snd (perform_request_with_retries (example_env (\<lambda>k. Inr 200) (Some read_only) None)
          (example_worker (\<lambda>k. Inr 200) (Some read_only))
          (example_job 1 (2 ^ 1024) 0 (Some (py ''out''))))
     = Inr [(py ''name'', JStr (py ''t1'')),
            (py ''error'', JStr (py ''int too large to convert to float''))]
   \<and> filter is_request
         (fst (perform_request_with_retries (example_env (\<lambda>k. Inr 200) (Some read_only) None)
            (example_worker (\<lambda>k. Inr 200) (Some read_only))
            (example_job 1 (2 ^ 1024) 0 (Some (py ''out'')))))
     = [RequestsCall (request_args_of (example_job 1 (2 ^ 1024) 0 (Some (py ''out''))))]
   \<and> snd (stdlib_perform_request_with_retries (example_env (\<lambda>k. Inr 200) (Some read_only) None)
          (example_worker (\<lambda>k. Inr 200) (Some read_only))
          (example_job 1 (2 ^ 1024) 0 (Some (py ''out''))))
     = Inr [(py ''name'', JStr (py ''t1'')),
            (py ''error'', JStr (py ''int too large to convert to float''))]
   \<and> filter is_request
         (fst (stdlib_perform_request_with_retries
            (example_env (\<lambda>k. Inr 200) (Some read_only) None)
            (example_worker (\<lambda>k. Inr 200) (Some read_only))
            (example_job 1 (2 ^ 1024) 0 (Some (py ''out'')))))
     = [OpenerOpen (url_request_of (example_env (\<lambda>k. Inr 200) (Some read_only) None)
                      (example_job 1 (2 ^ 1024) 0 (Some (py ''out''))) (py ''http://h/''))]"
proof -
  define E where "E = example_env (\<lambda>k. Inr 200) (Some read_only) None"
  define W where "W = example_worker (\<lambda>k. Inr 200) (Some read_only)"
  define J :: "json job" where "J = example_job 1 (2 ^ 1024) 0 (Some (py ''out''))"
  define J' :: "pybytes job" where "J' = example_job 1 (2 ^ 1024) 0 (Some (py ''out''))"
  define ov where "ov = Exc OverflowError (py ''int too large to convert to float'')"
  define err where "err = (\<lambda>k :: nat. if k = 0 then read_only else ov)"
  have J: "j_retries J = 1" "truthy (j_save_dir J)" "j_name J = py ''t1''"
    "j_backoff_base_ms J = 2 ^ 1024" "j_delay_between_ms J = 0"
    by (simp_all add: J_def example_job_def py_def)
  have J': "j_retries J' = 1" "truthy (j_save_dir J')" "j_name J' = py ''t1''"
    "j_backoff_base_ms J' = 2 ^ 1024" "j_delay_between_ms J' = 0"
    "attach_params_to_url E (j_url J') (j_params J') = Inr (py ''http://h/'')"
    by (simp_all add: J'_def example_job_def py_def attach_params_to_url_def)
  have big: "float_overflow (2 ^ 1024)" by (simp add: float_overflow_def)
  have W: "is_response (opener_open W k q')" "os_makedirs W k p = None"
    "write_meta W k p = Some read_only" for k q' p
    by (simp_all add: W_def example_worker_def)
  have rq: "build_request W J 0 = ([RequestsCall (request_args_of J)], Inr (200, [], [], 12.5))"
    by (simp add: build_request_def W_def example_worker_def)
  obtain f where
    op: "build_and_send_request E W J' 0
         = ([OpenerOpen (url_request_of E J' (py ''http://h/''))], Inr f)"
    using build_and_send_response [OF J'(6) W(1)] by blast
  have s0: "snd (backoff_sleep E J 0) = None" "snd (pacing_sleep E J) = None"
    "snd (backoff_sleep E J' 0) = None" "snd (pacing_sleep E J') = None"
    by (simp_all add: backoff_sleep_def pacing_sleep_def J J')
  have s1: "backoff_sleep E J (Suc 0) = ([], Some ov)" "backoff_sleep E J' (Suc 0) = ([], Some ov)"
    using time_sleep_ms_overflow [OF big, of E]
    by (simp_all add: backoff_sleep_def J J' ov_def)
  have sv: "snd (save_result E W J 0 r b) = Some read_only"
    "snd (save_result E W J' 0 r b) = Some read_only" for r b
    using J(2) J'(2) W by (blast intro: save_result_raises)+
  have X: "is_Exception read_only" "is_Exception ov" by (simp_all add: read_only_def ov_def is_Exception_def)
  let ?b = "attempt_body (build_request W J) E W J"
  let ?b' = "attempt_body (build_and_send_request E W J') E W J'"
  have b0: "snd (?b 0) = Inl read_only" "snd (?b' 0) = Inl read_only"
    using attempt_body_save_raises [where send = "build_request W J" and k = 0,
        OF s0(1) s0(2) rq sv(1)]
      attempt_body_save_raises [where send = "build_and_send_request E W J'" and k = 0,
        OF s0(3) s0(4) op sv(2)]
    by simp_all
  have b1: "?b (Suc 0) = ([], Inl ov)" "?b' (Suc 0) = ([], Inl ov)"
    by (simp_all add: attempt_body_def s1)
  have f0: "filter is_request (fst (?b 0)) = [RequestsCall (request_args_of J)]"
    "filter is_request (fst (?b' 0)) = [OpenerOpen (url_request_of E J' (py ''http://h/''))]"
    by (simp_all add: attempt_body_request_filter s0 rq op)
  have e: "\<forall>k. 0 \<le> k \<and> int k \<le> 1 \<longrightarrow> snd (?b k) = Inl (err k) \<and> is_Exception (err k)"
    "\<forall>k. 0 \<le> k \<and> int k \<le> 1 \<longrightarrow> snd (?b' k) = Inl (err k) \<and> is_Exception (err k)"
    using b0 b1 X by (auto simp: err_def le_Suc_eq)
  have up: "[0..<2] = [0, Suc 0]" by (simp add: upt_rec numeral_2_eq_2)
  from retry_loop_all_fail [where body = ?b and err = err and R = 1 and a = 0, OF e(1),
      of "py ''t1''" None "[]"]
  have r: "retry_loop ?b 1 (py ''t1'') 0 None []
           = (fst (?b 0) @ fst (?b (Suc 0)), Inr (failure_record (py ''t1'') (Some ov)))"
    by (simp add: up err_def)
  from retry_loop_all_fail [where body = ?b' and err = err and R = 1 and a = 0, OF e(2),
      of "py ''t1''" None "[]"]
  have r': "retry_loop ?b' 1 (py ''t1'') 0 None []
           = (fst (?b' 0) @ fst (?b' (Suc 0)), Inr (failure_record (py ''t1'') (Some ov)))"
    by (simp add: up err_def)
  show ?thesis
    unfolding E_def [symmetric] W_def [symmetric] J_def [symmetric] J'_def [symmetric]
    by (simp add: perform_request_with_retries_def stdlib_perform_request_with_retries_def
        J J' r r' f0 b1 failure_record_def ov_def)
qed

lemma save_result_raises_iff:
  "(\<exists>e. snd (save_result E W J k r b) = Some e)
   \<longleftrightarrow> truthy (j_save_dir J)
       \<and> (os_makedirs W k (the (j_save_dir J)) \<noteq> None
          \<or> write_meta W k (meta_path E J) \<noteq> None
          \<or> (j_save_body J \<and> write_body W k (body_path E J) \<noteq> None))"
  by (auto simp: save_result_def split: option.splits)

lemma build_and_send_raises_iff:
  assumes "attach_params_to_url E (j_url J) (j_params J) = Inr u"
  shows "(\<exists>e. snd (build_and_send_request E W J k) = Inl e)
         \<longleftrightarrow> \<not> is_response (opener_open W k (url_request_of E J u))"
  using assms
  by (cases "opener_open W k (url_request_of E J u)") (simp_all add: build_and_send_request_def)

lemma stdlib_attempt_raises_iff:
  assumes url: "attach_params_to_url E (j_url J) (j_params J) = Inr u"
  shows "(\<exists>e. snd (attempt_body (build_and_send_request E W J) E W J k) = Inl e)
     \<longleftrightarrow> snd (backoff_sleep E J k) \<noteq> None
         \<or> snd (pacing_sleep E J) \<noteq> None
         \<or> \<not> is_response (opener_open W k (url_request_of E J u))
         \<or> (truthy (j_save_dir J)
            \<and> (os_makedirs W k (the (j_save_dir J)) \<noteq> None
               \<or> write_meta W k (meta_path E J) \<noteq> None
               \<or> (j_save_body J \<and> write_body W k (body_path E J) \<noteq> None)))"
proof (cases "\<exists>e. snd (build_and_send_request E W J k) = Inl e")
  case True
  then have "\<not> is_response (opener_open W k (url_request_of E J u))"
    using build_and_send_raises_iff [OF url, of W k] by simp
  moreover have "\<exists>e. snd (attempt_body (build_and_send_request E W J) E W J k) = Inl e"
    using True attempt_body_raises_iff [of "build_and_send_request E W J" E W J k] by blast
  ultimately show ?thesis by simp
next
  case False
  then have resp: "is_response (opener_open W k (url_request_of E J u))"
    using build_and_send_raises_iff [OF url, of W k] by simp
  from False obtain f where f: "snd (build_and_send_request E W J k) = Inr f"
    by (cases "snd (build_and_send_request E W J k)") auto
  have "(\<exists>e. snd (attempt_body (build_and_send_request E W J) E W J k) = Inl e)
        \<longleftrightarrow> (\<exists>e. snd (backoff_sleep E J k) = Some e)
            \<or> (\<exists>e. snd (pacing_sleep E J) = Some e)
            \<or> (\<exists>e. snd (save_result E W J k (success_record E (j_name J) f)
                         (fst (snd (snd f)))) = Some e)"
    using attempt_body_raises_iff [of "build_and_send_request E W J" E W J k] f by simp
  then show ?thesis
    using resp save_result_raises_iff [of E W J k "success_record E (j_name J) f"
        "fst (snd (snd f))"]
    by auto
qed

lemma stdlib_request_bound:
  "length (filter is_request (fst (stdlib_perform_request_with_retries E W J)))
   \<le> nat (j_retries J + 1)"
proof -
  have "\<forall>k. length (filter is_request
               (fst (attempt_body (build_and_send_request E W J) E W J k))) \<le> 1"
    using build_and_send_requests [of E W J] by (simp add: attempt_body_request_filter)
  from retry_loop_request_bound [OF this, of "j_retries J" "j_name J" 0 None "[]"]
  show ?thesis by (simp add: stdlib_perform_request_with_retries_def)
qed

text \<open>
  C2, as amended. In http_runner_stdlib.py, when attempt \<open>n\<close> is within the retries,
  every earlier attempt raised an \<open>Exception\<close>, the sleeps of attempt \<open>n\<close> return and
  the transport gives a response at attempt \<open>n\<close>, with any status, returned by
  \<open>opener.open\<close> or carried by an \<open>HTTPError\<close> (as a 3xx is when redirects are not
  followed, and a 4xx or 5xx), the Outcome is the success record \<open>{name, status,
  elapsed_ms, response_headers}\<close> with that status, the elapsed time rounded to two
  places and the headers of the response, and the request of attempt \<open>n\<close> is the last
  one made (the only one when \<open>n = 0\<close>), provided that persisting the result raises
  nothing: no save directory is configured, or the directory, the metadata file and
  (when asked for) the body file are written. An attempt raises exactly when one of
  its sleeps raises, the transport gives no response, or the directory or a file of
  the result cannot be written; each such attempt uses one unit of the retry budget
  when what it raises is an \<open>Exception\<close>. No more than \<open>retries + 1\<close> requests are
  made.
\<close>

theorem response_is_outcome:
  "(attach_params_to_url E (j_url J) (j_params J) = Inr u
    \<and> int n \<le> j_retries J
    \<and> (\<forall>k. k < n \<longrightarrow> (\<exists>e. snd (attempt_body (build_and_send_request E W J) E W J k) = Inl e
                             \<and> is_Exception e))
    \<and> snd (backoff_sleep E J n) = None \<and> snd (pacing_sleep E J) = None
    \<and> (opener_open W n (url_request_of E J u) = Opened st items body t
         \<and> hs = dict_of_items items
       \<or> opener_open W n (url_request_of E J u) = HTTPError_raised st hdrs rd t
         \<and> hs = (case hdrs of None \<Rightarrow> [] | Some items \<Rightarrow> dict_of_items items))
    \<and> (\<not> truthy (j_save_dir J)
       \<or> (os_makedirs W n (the (j_save_dir J)) = None
          \<and> write_meta W n (meta_path E J) = None
          \<and> (j_save_body J \<longrightarrow> write_body W n (body_path E J) = None)))
    \<longrightarrow> snd (stdlib_perform_request_with_retries E W J)
          = Inr [(py ''name'', JStr (j_name J)), (py ''status'', JInt st),
                 (py ''elapsed_ms'', JFloat (py_round2 E t)),
                 (py ''response_headers'', json_of_dict hs)]
        \<and> filter is_request (fst (stdlib_perform_request_with_retries E W J))
          = filter is_request
              (concat (map (\<lambda>k. fst (attempt_body (build_and_send_request E W J) E W J k))
                         [0..<n]))
            @ [OpenerOpen (url_request_of E J u)])
   \<and> (attach_params_to_url E (j_url J) (j_params J) = Inr u
      \<longrightarrow> ((\<exists>e. snd (attempt_body (build_and_send_request E W J) E W J k) = Inl e)
           \<longleftrightarrow> snd (backoff_sleep E J k) \<noteq> None
               \<or> snd (pacing_sleep E J) \<noteq> None
               \<or> \<not> is_response (opener_open W k (url_request_of E J u))
               \<or> (truthy (j_save_dir J)
                  \<and> (os_makedirs W k (the (j_save_dir J)) \<noteq> None
                     \<or> write_meta W k (meta_path E J) \<noteq> None
                     \<or> (j_save_body J \<and> write_body W k (body_path E J) \<noteq> None)))))
   \<and> length (filter is_request (fst (stdlib_perform_request_with_retries E W J)))
       \<le> nat (j_retries J + 1)"
proof (intro conjI impI)
  let ?body = "attempt_body (build_and_send_request E W J) E W J"
  let ?q = "url_request_of E J u"
  assume h: "attach_params_to_url E (j_url J) (j_params J) = Inr u
    \<and> int n \<le> j_retries J
    \<and> (\<forall>k. k < n \<longrightarrow> (\<exists>e. snd (?body k) = Inl e \<and> is_Exception e))
    \<and> snd (backoff_sleep E J n) = None \<and> snd (pacing_sleep E J) = None
    \<and> (opener_open W n ?q = Opened st items body t \<and> hs = dict_of_items items
       \<or> opener_open W n ?q = HTTPError_raised st hdrs rd t
         \<and> hs = (case hdrs of None \<Rightarrow> [] | Some items \<Rightarrow> dict_of_items items))
    \<and> (\<not> truthy (j_save_dir J)
       \<or> (os_makedirs W n (the (j_save_dir J)) = None
          \<and> write_meta W n (meta_path E J) = None
          \<and> (j_save_body J \<longrightarrow> write_body W n (body_path E J) = None)))"
  then have url: "attach_params_to_url E (j_url J) (j_params J) = Inr u"
    and n: "int n \<le> j_retries J"
    and sl: "snd (backoff_sleep E J n) = None" "snd (pacing_sleep E J) = None"
    by simp_all
  define err where "err = (\<lambda>k. projl (snd (?body k)))"
  from h have before: "\<forall>k. k < n \<longrightarrow> snd (?body k) = Inl (err k) \<and> is_Exception (err k)"
    by (auto simp: err_def)
  from h obtain b where
    sent: "build_and_send_request E W J n = ([OpenerOpen ?q], Inr (st, hs, b, t))"
    using build_and_send_opened [OF url, of W n] build_and_send_http_error [OF url, of W n]
    by blast
  from h have "\<not> truthy (j_save_dir J)
       \<or> (os_makedirs W n (the (j_save_dir J)) = None
          \<and> write_meta W n (meta_path E J) = None
          \<and> (j_save_body J \<longrightarrow> write_body W n (body_path E J) = None))" by blast
  then have save: "snd (save_result E W J n (success_record E (j_name J) (st, hs, b, t))
                     (fst (snd (snd (st, hs, b, t))))) = None"
    by (rule save_result_quiet)
  from retry_loop_response [where send = "build_and_send_request E W J" and err = err,
      OF n before sl sent _ save, of "j_name J"]
  show "snd (stdlib_perform_request_with_retries E W J)
          = Inr [(py ''name'', JStr (j_name J)), (py ''status'', JInt st),
                 (py ''elapsed_ms'', JFloat (py_round2 E t)),
                 (py ''response_headers'', json_of_dict hs)]"
    and "filter is_request (fst (stdlib_perform_request_with_retries E W J))
          = filter is_request (concat (map (\<lambda>k. fst (?body k)) [0..<n])) @ [OpenerOpen ?q]"
    by (simp_all add: stdlib_perform_request_with_retries_def success_record_def)
next
  assume "attach_params_to_url E (j_url J) (j_params J) = Inr u"
  then show "(\<exists>e. snd (attempt_body (build_and_send_request E W J) E W J k) = Inl e)
           \<longleftrightarrow> snd (backoff_sleep E J k) \<noteq> None
               \<or> snd (pacing_sleep E J) \<noteq> None
               \<or> \<not> is_response (opener_open W k (url_request_of E J u))
               \<or> (truthy (j_save_dir J)
                  \<and> (os_makedirs W k (the (j_save_dir J)) \<noteq> None
                     \<or> write_meta W k (meta_path E J) \<noteq> None
                     \<or> (j_save_body J \<and> write_body W k (body_path E J) \<noteq> None)))"
    by (rule stdlib_attempt_raises_iff)
next
  show "length (filter is_request (fst (stdlib_perform_request_with_retries E W J)))
       \<le> nat (j_retries J + 1)"
    by (rule stdlib_request_bound)
qed

theorem response_is_outcome_witness:
  "snd (stdlib_perform_request_with_retries (example_env (\<lambda>k. Inr 500) None None)
          (example_worker (\<lambda>k. Inr 500) None) (example_job 2 200 0 None))
     = Inr [(py ''name'', JStr (py ''t1'')), (py ''status'', JInt 500),
            (py ''elapsed_ms'', JFloat 12.5), (py ''response_headers'', JDict [])]
   \<and> filter is_request
         (fst (stdlib_perform_request_with_retries (example_env (\<lambda>k. Inr 500) None None)
            (example_worker (\<lambda>k. Inr 500) None) (example_job 2 200 0 None)))
     = [OpenerOpen (url_request_of (example_env (\<lambda>k. Inr 500) None None)
                      (example_job 2 200 0 None) (py ''http://h/''))]"
proof -
  define E where "E = example_env (\<lambda>k. Inr 500) None None"
  define W where "W = example_worker (\<lambda>k. Inr 500) None"
  define J :: "pybytes job" where "J = example_job 2 200 0 None"
  have J: "int 0 \<le> j_retries J" "\<not> truthy (j_save_dir J)" "j_name J = py ''t1''"
    "attach_params_to_url E (j_url J) (j_params J) = Inr (py ''http://h/'')"
    by (simp_all add: J_def example_job_def py_def attach_params_to_url_def)
  have S: "snd (backoff_sleep E J 0) = None" "snd (pacing_sleep E J) = None"
    by (simp_all add: backoff_sleep_def pacing_sleep_def J_def example_job_def)
  have W: "opener_open W 0 q = HTTPError_raised 500 (Some []) (Inr []) 12.5" for q
    by (simp add: W_def example_worker_def)
  have E: "py_round2 E x = x" for x by (simp add: E_def example_env_def)
  have h: "attach_params_to_url E (j_url J) (j_params J) = Inr (py ''http://h/'')
    \<and> int 0 \<le> j_retries J
    \<and> (\<forall>k. k < 0 \<longrightarrow> (\<exists>e. snd (attempt_body (build_and_send_request E W J) E W J k) = Inl e
                             \<and> is_Exception e))
    \<and> snd (backoff_sleep E J 0) = None \<and> snd (pacing_sleep E J) = None
    \<and> (opener_open W 0 (url_request_of E J (py ''http://h/'')) = Opened 500 [] [] 12.5
         \<and> [] = dict_of_items []
       \<or> opener_open W 0 (url_request_of E J (py ''http://h/''))
           = HTTPError_raised 500 (Some []) (Inr []) 12.5
         \<and> [] = (case Some [] of None \<Rightarrow> [] | Some items \<Rightarrow> dict_of_items items))
    \<and> (\<not> truthy (j_save_dir J)
       \<or> (os_makedirs W 0 (the (j_save_dir J)) = None
          \<and> write_meta W 0 (meta_path E J) = None
          \<and> (j_save_body J \<longrightarrow> write_body W 0 (body_path E J) = None)))"
    using J S W by (simp add: dict_of_items_def)
  note T = response_is_outcome [of E J "py ''http://h/''" 0 W 500 "[]" "[]" "12.5" "[]"
      "Some []" "Inr []"]
  from T [THEN conjunct1, THEN mp, OF h]
  show ?thesis
    unfolding E_def [symmetric] W_def [symmetric] J_def [symmetric]
    by (simp add: J E json_of_dict_def)
qed

text \<open>
  C2 as stated fails: the transport answers every attempt with HTTP 500, the
  metadata file cannot be written, retries are 2. Three requests are made and the
  Outcome is a failure record.
\<close>

theorem response_lost_to_disk_error:
  "snd (stdlib_perform_request_with_retries (example_env (\<lambda>k. Inr 500) (Some read_only) None)
          (example_worker (\<lambda>k. Inr 500) (Some read_only)) (example_job 2 200 0 (Some (py ''out''))))
     = Inr [(py ''name'', JStr (py ''t1'')), (py ''error'', JStr (py ''Read-only file system''))]
   \<and> length (filter is_request
         (fst (stdlib_perform_request_with_retries
            (example_env (\<lambda>k. Inr 500) (Some read_only) None)
            (example_worker (\<lambda>k. Inr 500) (Some read_only))
            (example_job 2 200 0 (Some (py ''out'')))))) = 3"
proof -
  define E where "E = example_env (\<lambda>k. Inr 500) (Some read_only) None"
  define W where "W = example_worker (\<lambda>k. Inr 500) (Some read_only)"
  define J :: "pybytes job" where "J = example_job 2 200 0 (Some (py ''out''))"
  have J: "0 \<le> j_retries J" "truthy (j_save_dir J)" "j_name J = py ''t1''" "j_retries J = 2"
    "attach_params_to_url E (j_url J) (j_params J) = Inr (py ''http://h/'')"
    by (simp_all add: J_def example_job_def py_def attach_params_to_url_def)
  have fields: "j_backoff_base_ms J = 200" "j_delay_between_ms J = 0"
    by (simp_all add: J_def example_job_def)
  have small: "\<not> float_overflow 200" "\<not> float_overflow 400"
    by (simp_all add: float_overflow_def)
  have b: "backoff_sleep E J 0 = ([], None)" "backoff_sleep E J 1 = ([Sleep 200], None)"
    "backoff_sleep E J 2 = ([Sleep 400], None)" "pacing_sleep E J = ([], None)"
    by (simp_all add: backoff_sleep_def pacing_sleep_def fields E_def
          example_sleeps_return small)
  have sleeps: "\<forall>k. int k \<le> j_retries J
      \<longrightarrow> snd (backoff_sleep E J k) = None \<and> snd (pacing_sleep E J) = None"
  proof (intro allI impI)
    fix k assume "int k \<le> j_retries J"
    then have "k = 0 \<or> k = 1 \<or> k = 2" unfolding J(4) by presburger
    then show "snd (backoff_sleep E J k) = None \<and> snd (pacing_sleep E J) = None"
      using b by auto
  qed
  have W: "is_response (opener_open W k q)" "os_makedirs W k p = None"
    "write_meta W k p = Some read_only" for k q p
    by (simp_all add: W_def example_worker_def)
  have sent: "\<forall>k. int k \<le> j_retries J
      \<longrightarrow> (\<exists>f. build_and_send_request E W J k
                = ([OpenerOpen (url_request_of E J (py ''http://h/''))], Inr f))"
    using build_and_send_response [OF J(5) W(1)] by blast
  have save: "\<forall>k r b. int k \<le> j_retries J
      \<longrightarrow> snd (save_result E W J k r b) = Some ((\<lambda>k. read_only) k)
          \<and> is_Exception ((\<lambda>k. read_only) k)"
    using J(2) W by (auto intro: save_result_raises simp: read_only_def is_Exception_def)
  from retry_loop_persist_fail [OF J(1) sleeps sent _ save, of "j_name J"]
  show ?thesis
    unfolding E_def [symmetric] W_def [symmetric] J_def [symmetric]
    by (simp add: stdlib_perform_request_with_retries_def failure_record_def J read_only_def)
qed

subsection \<open>Validation before the run\<close>

lemma parse_key_value_pairs_loop_ValueError:
  "parse_key_value_pairs_loop sep ps acc = Inl e \<Longrightarrow> exc_kind_of e = ValueError"
  by (induction ps arbitrary: acc)
     (auto simp: invalid_pair_format_def invalid_pair_key_def unpack_error_def split1_def
           split: option.splits if_splits sum.splits list.splits)

lemma parse_header_pairs_loop_ValueError:
  "parse_header_pairs_loop (map Some xs) acc = Inl e \<Longrightarrow> exc_kind_of e = ValueError"
  by (induction xs arbitrary: acc)
     (auto simp: invalid_header_format_def invalid_header_name_def unpack_error_def split1_def
           split: option.splits if_splits sum.splits list.splits)

lemma parse_key_value_pairs_ValueError:
  "parse_key_value_pairs ps sep = Inl e \<Longrightarrow> exc_kind_of e = ValueError"
  by (auto simp: parse_key_value_pairs_def parse_key_value_pairs_loop_ValueError
           split: option.splits if_splits)

lemma parse_header_pairs_ValueError:
  "parse_header_pairs (or_empty xs) = Inl e \<Longrightarrow> exc_kind_of e = ValueError"
  by (auto simp: parse_header_pairs_def or_empty_def parse_header_pairs_loop_ValueError
           split: option.splits if_splits)

lemma both_sources_raise:
  assumes "a_json A \<noteq> None" and "a_data A \<noteq> None"
  shows "parse_body E A = Inl both_body_sources" "stdlib_parse_body E A = Inl both_body_sources"
  using assms by (simp_all add: parse_body_def stdlib_parse_body_def)

lemma pre_run_body_error:
  assumes "bp E A = Inl b" and "exc_kind_of b = ValueError"
  shows "\<exists>e. exc_kind_of e = ValueError
             \<and> pre_run parse_key_value_pairs parse_header_pairs bp E A = Inl e
             \<and> (\<not> isl (parse_key_value_pairs (or_empty (a_param A)) (py ''=''))
                \<and> \<not> isl (parse_key_value_pairs (or_empty (a_cookie A)) (py ''=''))
                \<and> \<not> isl (parse_header_pairs (or_empty (a_header A))) \<longrightarrow> e = b)"
  using assms
  by (auto simp: pre_run_def parse_key_value_pairs_ValueError parse_header_pairs_ValueError
           split: sum.splits)

lemma run_with_pre_run_error:
  "pre_run pp hp bp E A = Inl e \<Longrightarrow> run_with pp hp bp perform E A = (Inl e, [], [])"
  by (simp add: run_with_def)

lemma stdlib_pre_run_eq:
  "pre_run stdlib_parse_key_value_pairs stdlib_parse_header_pairs bp
   = pre_run parse_key_value_pairs parse_header_pairs bp"
  by (simp add: stdlib_parse_key_value_pairs_eq stdlib_parse_header_pairs_eq)

text \<open>
  C4. If both \<open>--json\<close> and \<open>--data\<close> are given, \<open>parse_body\<close> of either file raises
  the \<open>ValueError\<close> "Provide either --json or --data, not both", and
  \<open>run_concurrent_requests\<close> of either file raises a \<open>ValueError\<close> with no worker
  started and no call made on the outside world: no request is ever sent. The
  error raised is that of the body sources whenever the params, cookies and headers
  parse (they are parsed first, and their own \<open>ValueError\<close> comes first otherwise).
\<close>

theorem both_body_sources_rejected:
  assumes "a_json A \<noteq> None" and "a_data A \<noteq> None"
  shows "parse_body E A = Inl both_body_sources
       \<and> stdlib_parse_body E A = Inl both_body_sources
       \<and> str_exc both_body_sources = py ''Provide either --json or --data, not both''
       \<and> (\<exists>e. exc_kind_of e = ValueError
              \<and> run_concurrent_requests E A = (Inl e, [], [])
              \<and> stdlib_run_concurrent_requests E A = (Inl e, [], []))
       \<and> (\<not> isl (parse_key_value_pairs (or_empty (a_param A)) (py ''=''))
          \<and> \<not> isl (parse_key_value_pairs (or_empty (a_cookie A)) (py ''=''))
          \<and> \<not> isl (parse_header_pairs (or_empty (a_header A)))
          \<longrightarrow> run_concurrent_requests E A = (Inl both_body_sources, [], [])
              \<and> stdlib_run_concurrent_requests E A = (Inl both_body_sources, [], []))"
proof -
  note b = both_sources_raise [OF assms, of E]
  have k: "exc_kind_of both_body_sources = ValueError" by (simp add: both_body_sources_def)
  from pre_run_body_error [where bp = parse_body, OF b(1) k] obtain e where
    e: "exc_kind_of e = ValueError"
       "pre_run parse_key_value_pairs parse_header_pairs parse_body E A = Inl e"
       "\<not> isl (parse_key_value_pairs (or_empty (a_param A)) (py ''=''))
        \<and> \<not> isl (parse_key_value_pairs (or_empty (a_cookie A)) (py ''=''))
        \<and> \<not> isl (parse_header_pairs (or_empty (a_header A))) \<longrightarrow> e = both_body_sources"
    by blast
  from pre_run_body_error [where bp = stdlib_parse_body, OF b(2) k] obtain e' where
    e': "pre_run parse_key_value_pairs parse_header_pairs stdlib_parse_body E A = Inl e'"
       "\<not> isl (parse_key_value_pairs (or_empty (a_param A)) (py ''=''))
        \<and> \<not> isl (parse_key_value_pairs (or_empty (a_cookie A)) (py ''=''))
        \<and> \<not> isl (parse_header_pairs (or_empty (a_header A))) \<longrightarrow> e' = both_body_sources"
    by blast
  have same: "e' = e"
    using e(2) e'(1) b by (auto simp: pre_run_def split: sum.splits)
  have r1: "run_concurrent_requests E A = (Inl e, [], [])"
    unfolding run_concurrent_requests_def by (rule run_with_pre_run_error [OF e(2)])
  have r2: "stdlib_run_concurrent_requests E A = (Inl e, [], [])"
    unfolding stdlib_run_concurrent_requests_def
    by (rule run_with_pre_run_error) (simp add: stdlib_pre_run_eq e'(1) same)
  have m: "str_exc both_body_sources = py ''Provide either --json or --data, not both''"
    by (simp add: both_body_sources_def)
  from b m e(1) e(3) r1 r2 show ?thesis by auto
qed

theorem both_body_sources_rejected_witness:
  "run_concurrent_requests (example_env (\<lambda>k. Inr 200) None None)
     (example_args \<lparr> a_json := Some (py ''{}''), a_data := Some (py ''x'') \<rparr>)
     = (Inl (Exc ValueError (py ''Provide either --json or --data, not both'')), [], [])
   \<and> stdlib_run_concurrent_requests (example_env (\<lambda>k. Inr 200) None None)
     (example_args \<lparr> a_json := Some (py ''{}''), a_data := Some (py ''x'') \<rparr>)
     = (Inl (Exc ValueError (py ''Provide either --json or --data, not both'')), [], [])"
proof -
  define A where "A = example_args \<lparr> a_json := Some (py ''{}''), a_data := Some (py ''x'') \<rparr>"
  have A: "a_json A \<noteq> None" "a_data A \<noteq> None"
    "\<not> isl (parse_key_value_pairs (or_empty (a_param A)) (py ''=''))"
    "\<not> isl (parse_key_value_pairs (or_empty (a_cookie A)) (py ''=''))"
    "\<not> isl (parse_header_pairs (or_empty (a_header A)))"
    by (simp_all add: A_def example_args_def or_empty_def parse_key_value_pairs_def
          parse_header_pairs_def)
  from both_body_sources_rejected [OF A(1,2), of "example_env (\<lambda>k. Inr 200) None None"] A(3-5)
  show ?thesis
    unfolding A_def [symmetric] by (simp add: both_body_sources_def)
qed

subsection \<open>Receiving the results\<close>

lemma shape_of_success_record: "shape_of (success_record E n f) = success_shape"
  by (cases f) (simp add: shape_of_def success_record_def success_shape_def json_of_dict_def)

lemma shape_of_failure_record: "shape_of (failure_record n x) = failure_shape"
  by (simp add: shape_of_def failure_record_def failure_shape_def)

lemma shapes_differ: "success_shape \<noteq> failure_shape"
  by (simp add: success_shape_def failure_shape_def)

lemma attempt_body_shape:
  "snd (attempt_body send E W J k) = Inr r \<Longrightarrow> shape_of r = success_shape"
  by (cases "backoff_sleep E J k"; cases "pacing_sleep E J"; cases "send k")
     (auto simp: attempt_body_def shape_of_success_record
           split: sum.splits prod.splits option.splits)

lemma retry_loop_shape:
  assumes "\<forall>k r. snd (body k) = Inr r \<longrightarrow> shape_of r = success_shape"
    and "snd (retry_loop body R name a prev calls) = Inr rec"
  shows "shape_of rec = success_shape \<or> shape_of rec = failure_shape"
  using assms
proof (induction body R name a prev calls rule: retry_loop.induct)
  case (1 body retries name attempt last_exc calls)
  show ?case
  proof (cases "int attempt \<le> retries")
    case False
    with "1.prems"(2) show ?thesis
      using shape_of_failure_record [of name last_exc] by (auto simp: retry_loop_exhausted)
  next
    case True
    obtain made res where b: "body attempt = (made, res)" by (cases "body attempt")
    show ?thesis
    proof (cases res)
      case (Inr r)
      with b "1.prems"(1) have "shape_of r = success_shape" by (metis snd_conv)
      moreover have "retry_loop body retries name attempt last_exc calls = (calls @ made, Inr r)"
        using b Inr by (intro retry_loop_Inr [where body = body and a = attempt, OF True]) simp
      ultimately show ?thesis using "1.prems"(2) by simp
    next
      case (Inl e)
      with b have b': "body attempt = (made, Inl e)" by simp
      show ?thesis
      proof (cases "is_Exception e")
        case False
        have "retry_loop body retries name attempt last_exc calls = (calls @ made, Inl e)"
          by (rule retry_loop_not_caught [where body = body and a = attempt, OF True b' False])
        with "1.prems"(2) show ?thesis by simp
      next
        case ex: True
        have "retry_loop body retries name attempt last_exc calls
              = retry_loop body retries name (Suc attempt) (Some e) (calls @ made)"
          by (rule retry_loop_Inl [where body = body and a = attempt, OF True b' ex])
        with "1.IH" [OF True b' [symmetric] refl ex] "1.prems" show ?thesis by simp
      qed
    qed
  qed
qed

lemma perform_shape:
  "snd (perform_request_with_retries E W J) = Inr rec
   \<Longrightarrow> shape_of rec = success_shape \<or> shape_of rec = failure_shape"
  unfolding perform_request_with_retries_def
  by (rule retry_loop_shape [rotated]) (blast intro: attempt_body_shape)+

lemma stdlib_perform_shape:
  "snd (stdlib_perform_request_with_retries E W J) = Inr rec
   \<Longrightarrow> shape_of rec = success_shape \<or> shape_of rec = failure_shape"
  unfolding stdlib_perform_request_with_retries_def
  by (rule retry_loop_shape [rotated]) (blast intro: attempt_body_shape)+

lemma console_line_shaped:
  assumes "shape_of r = success_shape \<or> shape_of r = failure_shape"
  shows "\<exists>line. console_line E name r = Inr line"
proof -
  from assms have "map fst r = [py ''name'', py ''status'', py ''elapsed_ms'',
                                py ''response_headers'']
                   \<or> map fst r = [py ''name'', py ''error'']"
  proof
    assume "shape_of r = success_shape"
    then have "map fst (shape_of r) = map fst success_shape" by simp
    then show ?thesis by (simp add: shape_of_def success_shape_def case_prod_unfold comp_def)
  next
    assume "shape_of r = failure_shape"
    then have "map fst (shape_of r) = map fst failure_shape" by simp
    then show ?thesis by (simp add: shape_of_def failure_shape_def case_prod_unfold comp_def)
  qed
  then show ?thesis
  proof
    assume "map fst r = [py ''name'', py ''status'', py ''elapsed_ms'', py ''response_headers'']"
    then obtain v1 v2 v3 v4 where
      "r = [(py ''name'', v1), (py ''status'', v2), (py ''elapsed_ms'', v3),
            (py ''response_headers'', v4)]"
      by (auto simp: map_eq_Cons_conv)
    then show ?thesis by (simp add: console_line_def py_def)
  next
    assume "map fst r = [py ''name'', py ''error'']"
    then obtain v1 v2 where "r = [(py ''name'', v1), (py ''error'', v2)]"
      by (auto simp: map_eq_Cons_conv)
    then show ?thesis by (simp add: console_line_def py_def)
  qed
qed

lemma as_completed_perm:
  "length (as_completed E n) = n" "set (as_completed E n) = {0..<n}"
proof -
  have "length (completion_order E n) = n \<and> set (completion_order E n) = {0..<n}"
    if s: "sort (completion_order E n) = [0..<n]"
  proof -
    have "length (sort (completion_order E n)) = n" "set (sort (completion_order E n)) = {0..<n}"
      by (simp_all only: s) simp_all
    then show ?thesis by simp
  qed
  then show "length (as_completed E n) = n" "set (as_completed E n) = {0..<n}"
    by (auto simp: as_completed_def)
qed

lemma future_result_Inr:
  "future_result name res = Inr result
   \<Longrightarrow> result = (case res of Inr rec \<Rightarrow> rec | Inl e \<Rightarrow> failure_record name (Some e))
       \<and> (\<forall>e. res = Inl e \<longrightarrow> is_Exception e)"
  by (auto simp: future_result_def split: sum.splits if_splits)

lemma receive_result:
  "receive E futs n results calls = (Inr rs, cs)
   \<Longrightarrow> rs = results @ map (\<lambda>(name, res). case res of Inr rec \<Rightarrow> rec
                                         | Inl e \<Rightarrow> failure_record name (Some e)) futs
       \<and> (\<exists>lines. length lines = length futs \<and> cs = calls @ map Print lines)
       \<and> (\<forall>(name, res) \<in> set futs. \<forall>e. res = Inl e \<longrightarrow> is_Exception e)"
proof (induction futs arbitrary: n results calls)
  case Nil
  then show ?case by simp
next
  case (Cons a futs)
  obtain name res where a: "a = (name, res)" by (cases a)
  from Cons.prems a obtain result line where
    f: "future_result name res = Inr result"
    and rest: "receive E futs (n + 1) (results @ [result]) (calls @ [Print line]) = (Inr rs, cs)"
    by (auto split: if_splits sum.splits option.splits)
  from Cons.IH [OF rest] obtain lines where
    rs: "rs = (results @ [result]) @ map (\<lambda>(name, res). case res of Inr rec \<Rightarrow> rec
                                         | Inl e \<Rightarrow> failure_record name (Some e)) futs"
    and lines: "length lines = length futs" "cs = (calls @ [Print line]) @ map Print lines"
    and ex: "\<forall>(name, res) \<in> set futs. \<forall>e. res = Inl e \<longrightarrow> is_Exception e"
    by blast
  from lines have "length (line # lines) = length (a # futs)
                   \<and> cs = calls @ map Print (line # lines)" by simp
  then have "\<exists>lines. length lines = length (a # futs) \<and> cs = calls @ map Print lines" by blast
  with rs ex future_result_Inr [OF f] a show ?case by simp
qed

lemma receive_returns:
  assumes prints: "\<forall>line. console_print E line = None"
    and ni: "\<forall>k. interrupt_after E = Some k \<longrightarrow> k < n \<or> n + length futs \<le> k"
    and ok: "\<forall>(name, res) \<in> set futs.
               (\<forall>e. res = Inl e \<longrightarrow> is_Exception e)
               \<and> (\<forall>r. res = Inr r \<longrightarrow> shape_of r = success_shape \<or> shape_of r = failure_shape)"
  shows "\<exists>rs cs. receive E futs n results calls = (Inr rs, cs)"
  using ni ok
proof (induction futs arbitrary: n results calls)
  case Nil
  show ?case by simp
next
  case (Cons a futs)
  obtain name res where a: "a = (name, res)" by (cases a)
  from Cons.prems(1) have now: "interrupt_after E \<noteq> Some n" by fastforce
  from Cons.prems(1) have later: "\<forall>k. interrupt_after E = Some k
      \<longrightarrow> k < n + 1 \<or> n + 1 + length futs \<le> k" by fastforce
  from Cons.prems(2) a obtain result where f: "future_result name res = Inr result"
    and sh: "shape_of result = success_shape \<or> shape_of result = failure_shape"
    by (cases res) (auto simp: future_result_def shape_of_failure_record)
  from console_line_shaped [OF sh] obtain line where l: "console_line E name result = Inr line"
    by blast
  from Cons.prems(2) have "\<forall>(name, res) \<in> set futs.
               (\<forall>e. res = Inl e \<longrightarrow> is_Exception e)
               \<and> (\<forall>r. res = Inr r \<longrightarrow> shape_of r = success_shape \<or> shape_of r = failure_shape)"
    by simp
  from Cons.IH [OF later this, of "results @ [result]" "calls @ [Print line]"]
  show ?case using a now f l prints by simp
qed

lemma receive_interrupt:
  assumes prints: "\<forall>line. console_print E line = None"
    and k: "interrupt_after E = Some k" "n \<le> k" "k < n + length futs"
    and ok: "\<forall>(name, res) \<in> set futs.
               \<forall>r. res = Inr r \<longrightarrow> shape_of r = success_shape \<or> shape_of r = failure_shape"
  shows "\<exists>e cs. receive E futs n results calls = (Inl e, cs)
                \<and> exc_kind_of e = KeyboardInterrupt"
  using k(2,3) ok
proof (induction futs arbitrary: n results calls)
  case Nil
  then show ?case by simp
next
  case (Cons a futs)
  obtain name res where a: "a = (name, res)" by (cases a)
  show ?case
  proof (cases "k = n")
    case True
    with k(1) a show ?thesis by simp
  next
    case False
    with k(1) have now: "interrupt_after E \<noteq> Some n" by simp
    from False Cons.prems have later: "n + 1 \<le> k" "k < n + 1 + length futs" by simp_all
    from Cons.prems(3) have rest: "\<forall>(name, res) \<in> set futs.
               \<forall>r. res = Inr r \<longrightarrow> shape_of r = success_shape \<or> shape_of r = failure_shape"
      by simp
    show ?thesis
    proof (cases "future_result name res")
      case (Inl e)
      then have "exc_kind_of e = KeyboardInterrupt"
        by (auto simp: future_result_def is_Exception_def split: sum.splits if_splits)
      with Inl a now show ?thesis by simp
    next
      case (Inr result)
      with Cons.prems(3) a
      have sh: "shape_of result = success_shape \<or> shape_of result = failure_shape"
        by (cases res) (auto simp: future_result_def shape_of_failure_record split: if_splits)
      from console_line_shaped [OF sh] obtain line where
        l: "console_line E name result = Inr line" by blast
      from Cons.IH [OF later rest, of "results @ [result]" "calls @ [Print line]"]
      show ?thesis using a now Inr l prints by simp
    qed
  qed
qed

lemma collect_results_fst:
  "fst (collect_results E A fin)
   = (case fst (receive E (map (\<lambda>i. (fst (fin ! i), snd (snd (fin ! i))))
                             (as_completed E (length fin))) 0 [] []) of
        Inl e \<Rightarrow> Inl e
      | Inr results \<Rightarrow>
          if truthy (a_output A)
          then (case write_output E (the (a_output A)) of
                  Some e \<Rightarrow> Inl e
                | None \<Rightarrow> Inr results)
          else Inr results)"
  by (simp add: collect_results_def split: prod.splits sum.splits option.splits)

lemma futures_of_jobs:
  "map (\<lambda>i. (fst (map (\<lambda>i. (j_name (jobs ! i), perform E (worker E i) (jobs ! i)))
                     [0..<length jobs] ! i),
             snd (snd (map (\<lambda>i. (j_name (jobs ! i), perform E (worker E i) (jobs ! i)))
                          [0..<length jobs] ! i))))
     (as_completed E (length (map (\<lambda>i. (j_name (jobs ! i), perform E (worker E i) (jobs ! i)))
                                [0..<length jobs])))
   = map (\<lambda>i. (j_name (jobs ! i), snd (perform E (worker E i) (jobs ! i))))
       (as_completed E (length jobs))"
  by (rule map_cong) (simp_all add: as_completed_perm)

lemma run_with_jobs:
  "pre_run pp hp bp E A = Inr jobs
   \<Longrightarrow> run_with pp hp bp perform E A
       = collect_results E A
           (map (\<lambda>i. (j_name (jobs ! i), perform E (worker E i) (jobs ! i))) [0..<length jobs])"
  by (simp add: run_with_def)

lemma run_with_fst:
  assumes "pre_run pp hp bp E A = Inr jobs"
  shows "fst (run_with pp hp bp perform E A)
   = (case fst (receive E (map (\<lambda>i. (j_name (jobs ! i), snd (perform E (worker E i) (jobs ! i))))
                             (as_completed E (length jobs))) 0 [] []) of
        Inl e \<Rightarrow> Inl e
      | Inr results \<Rightarrow>
          if truthy (a_output A)
          then (case write_output E (the (a_output A)) of
                  Some e \<Rightarrow> Inl e
                | None \<Rightarrow> Inr results)
          else Inr results)"
  unfolding run_with_jobs [OF assms] collect_results_fst futures_of_jobs ..

lemma main_with_codes:
  assumes pa: "parse_args E argv = Inr A"
    and prints: "\<forall>line. console_print E line = None"
    and shaped: "\<forall>W J r. snd (perform E W J) = Inr r
                   \<longrightarrow> shape_of r = success_shape \<or> shape_of r = failure_shape"
  shows "(pre_run pp hp bp E A = Inr jobs \<and> \<not> interrupted E (length jobs)
          \<and> (\<forall>i e. i < length jobs \<and> snd (perform E (worker E i) (jobs ! i)) = Inl e
                \<longrightarrow> is_Exception e)
          \<and> (truthy (a_output A) \<longrightarrow> write_output E (the (a_output A)) = None)
          \<longrightarrow> main_with (run_with pp hp bp perform) E argv = Returned 0
              \<and> (\<exists>results. fst (run_with pp hp bp perform E A) = Inr results
                    \<and> length results = length jobs))
       \<and> (pre_run pp hp bp E A = Inr jobs \<and> \<not> interrupted E (length jobs)
          \<and> (\<forall>i e. i < length jobs \<and> snd (perform E (worker E i) (jobs ! i)) = Inl e
                \<longrightarrow> is_Exception e)
          \<and> truthy (a_output A) \<and> write_output E (the (a_output A)) = Some x
          \<and> is_Exception x
          \<longrightarrow> main_with (run_with pp hp bp perform) E argv = Returned 1)
       \<and> (pre_run pp hp bp E A = Inl e \<and> is_Exception e
          \<longrightarrow> main_with (run_with pp hp bp perform) E argv = Returned 1)
       \<and> (pre_run pp hp bp E A = Inr jobs \<and> interrupted E (length jobs)
          \<longrightarrow> main_with (run_with pp hp bp perform) E argv = Returned 130)"
proof -
  let ?futs = "map (\<lambda>i. (j_name (jobs ! i), snd (perform E (worker E i) (jobs ! i))))
                 (as_completed E (length jobs))"
  have len: "length ?futs = length jobs" by (simp add: as_completed_perm)
  have sh: "\<forall>(name, res) \<in> set ?futs.
              \<forall>r. res = Inr r \<longrightarrow> shape_of r = success_shape \<or> shape_of r = failure_shape"
    using shaped by auto
  have received: "\<exists>rs. fst (receive E ?futs 0 [] []) = Inr rs \<and> length rs = length jobs"
    if ni: "\<not> interrupted E (length jobs)"
      and ex: "\<forall>i e. i < length jobs \<and> snd (perform E (worker E i) (jobs ! i)) = Inl e
                 \<longrightarrow> is_Exception e"
  proof -
    from ni have n: "\<forall>k. interrupt_after E = Some k \<longrightarrow> k < 0 \<or> 0 + length ?futs \<le> k"
      by (auto simp: interrupted_def as_completed_perm)
    from ex have "\<forall>(name, res) \<in> set ?futs. \<forall>e. res = Inl e \<longrightarrow> is_Exception e"
      by (auto simp: as_completed_perm)
    with sh have ok: "\<forall>(name, res) \<in> set ?futs.
               (\<forall>e. res = Inl e \<longrightarrow> is_Exception e)
               \<and> (\<forall>r. res = Inr r \<longrightarrow> shape_of r = success_shape \<or> shape_of r = failure_shape)"
      by fast
    from receive_returns [OF prints n ok, of "[]" "[]"] obtain rs cs where
      r: "receive E ?futs 0 [] [] = (Inr rs, cs)" by blast
    from receive_result [OF r] have "length rs = length jobs" by (simp add: as_completed_perm)
    with r show ?thesis by simp
  qed
  show ?thesis
  proof (intro conjI impI)
    assume h: "pre_run pp hp bp E A = Inr jobs \<and> \<not> interrupted E (length jobs)
          \<and> (\<forall>i e. i < length jobs \<and> snd (perform E (worker E i) (jobs ! i)) = Inl e
                \<longrightarrow> is_Exception e)
          \<and> (truthy (a_output A) \<longrightarrow> write_output E (the (a_output A)) = None)"
    then obtain rs where rs: "fst (receive E ?futs 0 [] []) = Inr rs" "length rs = length jobs"
      using received by blast
    from h have j: "pre_run pp hp bp E A = Inr jobs"
      and w: "truthy (a_output A) \<longrightarrow> write_output E (the (a_output A)) = None" by simp_all
    have "fst (run_with pp hp bp perform E A) = Inr rs"
      unfolding run_with_fst [OF j] using rs(1) w by simp
    with rs(2) pa show "main_with (run_with pp hp bp perform) E argv = Returned 0"
      and "\<exists>results. fst (run_with pp hp bp perform E A) = Inr results
                    \<and> length results = length jobs"
      by (simp_all add: main_with_def)
  next
    assume h: "pre_run pp hp bp E A = Inr jobs \<and> \<not> interrupted E (length jobs)
          \<and> (\<forall>i e. i < length jobs \<and> snd (perform E (worker E i) (jobs ! i)) = Inl e
                \<longrightarrow> is_Exception e)
          \<and> truthy (a_output A) \<and> write_output E (the (a_output A)) = Some x
          \<and> is_Exception x"
    then obtain rs where rs: "fst (receive E ?futs 0 [] []) = Inr rs"
      using received by blast
    from h have j: "pre_run pp hp bp E A = Inr jobs"
      and w: "truthy (a_output A)" "write_output E (the (a_output A)) = Some x"
      and x: "is_Exception x" by simp_all
    have "fst (run_with pp hp bp perform E A) = Inl x"
      unfolding run_with_fst [OF j] using rs w by simp
    with pa x prints show "main_with (run_with pp hp bp perform) E argv = Returned 1"
      by (simp add: main_with_def is_Exception_def)
  next
    assume "pre_run pp hp bp E A = Inl e \<and> is_Exception e"
    then show "main_with (run_with pp hp bp perform) E argv = Returned 1"
      using pa prints by (simp add: main_with_def run_with_def is_Exception_def)
  next
    assume h: "pre_run pp hp bp E A = Inr jobs \<and> interrupted E (length jobs)"
    then obtain k where k: "interrupt_after E = Some k" "0 \<le> k" "k < 0 + length ?futs"
      by (auto simp: interrupted_def as_completed_perm split: option.splits)
    from receive_interrupt [OF prints k sh, of "[]" "[]"] obtain e cs where
      e: "receive E ?futs 0 [] [] = (Inl e, cs)" "exc_kind_of e = KeyboardInterrupt" by blast
    from h have j: "pre_run pp hp bp E A = Inr jobs" by simp
    have "fst (run_with pp hp bp perform E A) = Inl e"
      unfolding run_with_fst [OF j] using e(1) by simp
    with pa e(2) prints show "main_with (run_with pp hp bp perform) E argv = Returned 130"
      by (simp add: main_with_def)
  qed
qed

subsection \<open>Exit codes\<close>

lemma pre_run_example:
  assumes "a_param A = None" "a_cookie A = None" "a_header A = None" "bp E A = Inr (d, j)"
    "a_session_file A = None" "a_name A = None" "0 < a_concurrency A"
  shows "pre_run parse_key_value_pairs parse_header_pairs bp E A
         = Inr [job_of A [] [] [] d j (py ''request'', None)]"
  using assms
  by (simp add: pre_run_def or_empty_def parse_key_value_pairs_def parse_header_pairs_def
        names_and_sessions_def)

lemma sleeps_return_small:
  assumes "\<forall>ms. time_sleep E ms = None" and "j_retries J \<le> 2"
    and "j_backoff_base_ms J \<le> 1000" and "j_delay_between_ms J \<le> 1000"
  shows "\<forall>k. int k \<le> j_retries J
           \<longrightarrow> snd (backoff_sleep E J k) = None \<and> snd (pacing_sleep E J) = None"
proof (intro allI impI)
  fix k assume "int k \<le> j_retries J"
  with assms(2) have "k = 0 \<or> k = 1 \<or> k = 2" by presburger
  moreover have "snd (time_sleep_ms E ms) = None" if "\<bar>ms\<bar> \<le> 2000" for ms
    using that assms(1) by (simp add: time_sleep_ms_def float_overflow_def)
  ultimately show "snd (backoff_sleep E J k) = None \<and> snd (pacing_sleep E J) = None"
    using assms(3,4) by (auto simp: backoff_sleep_def pacing_sleep_def)
qed

lemma perform_first_response:
  assumes "0 \<le> j_retries J"
    and "requests_request W 0 (request_args_of J) = Inr (resp, t)"
    and "\<not> truthy (j_save_dir J)"
    and "j_delay_between_ms J \<le> 0"
  shows "perform_request_with_retries E W J
         = ([RequestsCall (request_args_of J)],
            Inr (success_record E (j_name J) (status_code resp, headers resp, content resp, t)))"
proof -
  let ?f = "(status_code resp, headers resp, content resp, t)"
  have sent: "build_request W J 0 = ([RequestsCall (request_args_of J)], Inr ?f)"
    using assms(2) by (simp add: build_request_def)
  have save: "save_result E W J 0 (success_record E (j_name J) ?f) (fst (snd (snd ?f)))
              = ([], None)"
    using assms(3) by (simp add: save_result_no_dir)
  have sl: "backoff_sleep E J 0 = ([], None)" "pacing_sleep E J = ([], None)"
    using assms(4) by (simp_all add: backoff_sleep_def pacing_sleep_def)
  have b: "attempt_body (build_request W J) E W J 0
           = ([RequestsCall (request_args_of J)], Inr (success_record E (j_name J) ?f))"
    using assms(3) by (simp add: attempt_body_def sl sent save_result_no_dir)
  have "int 0 \<le> j_retries J" using assms(1) by simp
  from retry_loop_Inr [where body = "attempt_body (build_request W J) E W J" and a = 0,
      OF this b, of "j_name J" None "[]"]
  show ?thesis by (simp add: perform_request_with_retries_def)
qed

lemma stdlib_perform_all_fail:
  assumes R: "0 \<le> j_retries J"
    and url: "attach_params_to_url E (j_url J) (j_params J) = Inr u"
    and fail: "\<forall>k. int k \<le> j_retries J
                 \<longrightarrow> opener_open W k (url_request_of E J u) = Other_raised (err k)
                     \<and> is_Exception (err k)"
    and sleeps: "\<forall>k. int k \<le> j_retries J
                 \<longrightarrow> snd (backoff_sleep E J k) = None \<and> snd (pacing_sleep E J) = None"
  shows "snd (stdlib_perform_request_with_retries E W J)
         = Inr (failure_record (j_name J) (Some (err (nat (j_retries J)))))"
proof -
  let ?body = "attempt_body (build_and_send_request E W J) E W J"
  have "snd (?body k) = Inl (err k)" if "int k \<le> j_retries J" for k
  proof -
    from fail that url
    have "build_and_send_request E W J k = ([OpenerOpen (url_request_of E J u)], Inl (err k))"
      by (simp add: build_and_send_request_def)
    then have sent: "build_and_send_request E W J k
        = ([OpenerOpen (url_request_of E J u)], Inl (err k))" .
    from sleeps that have s: "snd (backoff_sleep E J k) = None" "snd (pacing_sleep E J) = None"
      by simp_all
    from attempt_body_Inl [where send = "build_and_send_request E W J" and k = k, OF s sent]
    show ?thesis by simp
  qed
  then have "\<forall>k. 0 \<le> k \<and> int k \<le> j_retries J
               \<longrightarrow> snd (?body k) = Inl (err k) \<and> is_Exception (err k)"
    using fail by simp
  from retry_loop_all_fail [where body = ?body and err = err, OF this, of "j_name J" None "[]"]
  show ?thesis using R by (simp add: stdlib_perform_request_with_retries_def)
qed


text \<open>
  C8, as amended. Let \<open>parse_args\<close> return the arguments \<open>A\<close> and let every \<open>print\<close>
  return. In both files: if everything before the first submit succeeds, no
  interrupt arrives while results are awaited, no worker raises anything but an
  \<open>Exception\<close> and the aggregate file (when configured) is written, \<open>main\<close> returns 0,
  whatever the transport, the file system of the workers and hence the Outcomes
  are, one Outcome per target; if, in the same run, the aggregate file is
  configured and writing it raises an \<open>Exception\<close>, \<open>main\<close> returns 1, though every
  Outcome was received; if a step before the first submit raises an \<open>Exception\<close>
  (a malformed pair or header, both body sources, invalid JSON, a missing session
  file, no workers), \<open>main\<close> returns 1, in particular when both body sources are
  given; if an interrupt arrives while results are awaited, \<open>main\<close> returns 130,
  which is neither 0 nor 1.
\<close>

theorem exit_codes:
  assumes "parse_args E argv = Inr A" and "\<forall>line. console_print E line = None"
  shows "(pre_run parse_key_value_pairs parse_header_pairs parse_body E A = Inr jobs
          \<and> \<not> interrupted E (length jobs)
          \<and> (\<forall>i e. i < length jobs
                \<and> snd (perform_request_with_retries E (worker E i) (jobs ! i)) = Inl e
                \<longrightarrow> is_Exception e)
          \<and> (truthy (a_output A) \<longrightarrow> write_output E (the (a_output A)) = None)
          \<longrightarrow> main E argv = Returned 0
              \<and> (\<exists>results. fst (run_concurrent_requests E A) = Inr results
                    \<and> length results = length jobs))
       \<and> (pre_run parse_key_value_pairs parse_header_pairs parse_body E A = Inr jobs
          \<and> \<not> interrupted E (length jobs)
          \<and> (\<forall>i e. i < length jobs
                \<and> snd (perform_request_with_retries E (worker E i) (jobs ! i)) = Inl e
                \<longrightarrow> is_Exception e)
          \<and> truthy (a_output A) \<and> write_output E (the (a_output A)) = Some x
          \<and> is_Exception x
          \<longrightarrow> main E argv = Returned 1)
       \<and> (pre_run parse_key_value_pairs parse_header_pairs parse_body E A = Inl e
          \<and> is_Exception e
          \<longrightarrow> main E argv = Returned 1)
       \<and> (pre_run parse_key_value_pairs parse_header_pairs parse_body E A = Inr jobs
          \<and> interrupted E (length jobs)
          \<longrightarrow> main E argv = Returned 130)
       \<and> (pre_run stdlib_parse_key_value_pairs stdlib_parse_header_pairs stdlib_parse_body E A
            = Inr jobs'
          \<and> \<not> interrupted E (length jobs')
          \<and> (\<forall>i e. i < length jobs'
                \<and> snd (stdlib_perform_request_with_retries E (worker E i) (jobs' ! i)) = Inl e
                \<longrightarrow> is_Exception e)
          \<and> (truthy (a_output A) \<longrightarrow> write_output E (the (a_output A)) = None)
          \<longrightarrow> stdlib_main E argv = Returned 0
              \<and> (\<exists>results. fst (stdlib_run_concurrent_requests E A) = Inr results
                    \<and> length results = length jobs'))
       \<and> (pre_run stdlib_parse_key_value_pairs stdlib_parse_header_pairs stdlib_parse_body E A
            = Inr jobs'
          \<and> \<not> interrupted E (length jobs')
          \<and> (\<forall>i e. i < length jobs'
                \<and> snd (stdlib_perform_request_with_retries E (worker E i) (jobs' ! i)) = Inl e
                \<longrightarrow> is_Exception e)
          \<and> truthy (a_output A) \<and> write_output E (the (a_output A)) = Some x
          \<and> is_Exception x
          \<longrightarrow> stdlib_main E argv = Returned 1)
       \<and> (pre_run stdlib_parse_key_value_pairs stdlib_parse_header_pairs stdlib_parse_body E A
            = Inl e'
          \<and> is_Exception e'
          \<longrightarrow> stdlib_main E argv = Returned 1)
       \<and> (pre_run stdlib_parse_key_value_pairs stdlib_parse_header_pairs stdlib_parse_body E A
            = Inr jobs'
          \<and> interrupted E (length jobs')
          \<longrightarrow> stdlib_main E argv = Returned 130)
       \<and> (a_json A \<noteq> None \<and> a_data A \<noteq> None
          \<longrightarrow> main E argv = Returned 1 \<and> stdlib_main E argv = Returned 1)"
proof -
  have sh: "\<forall>W J r. snd (perform_request_with_retries E W J) = Inr r
              \<longrightarrow> shape_of r = success_shape \<or> shape_of r = failure_shape"
    "\<forall>W J r. snd (stdlib_perform_request_with_retries E W J) = Inr r
              \<longrightarrow> shape_of r = success_shape \<or> shape_of r = failure_shape"
    using perform_shape stdlib_perform_shape by blast+
  note m = main_with_codes [where perform = perform_request_with_retries
      and pp = parse_key_value_pairs
      and hp = parse_header_pairs and bp = parse_body and jobs = jobs and e = e and x = x,
      OF assms sh(1), folded run_concurrent_requests_def main_def]
  note s = main_with_codes [where perform = stdlib_perform_request_with_retries
      and pp = stdlib_parse_key_value_pairs
      and hp = stdlib_parse_header_pairs and bp = stdlib_parse_body and jobs = jobs' and e = e'
      and x = x,
      OF assms sh(2), folded stdlib_run_concurrent_requests_def stdlib_main_def]
  have both: "main E argv = Returned 1 \<and> stdlib_main E argv = Returned 1"
    if b: "a_json A \<noteq> None \<and> a_data A \<noteq> None"
  proof -
    have k: "exc_kind_of both_body_sources = ValueError" by (simp add: both_body_sources_def)
    from b have bs: "parse_body E A = Inl both_body_sources"
      "stdlib_parse_body E A = Inl both_body_sources"
      by (simp_all add: both_sources_raise)
    from pre_run_body_error [where bp = parse_body, OF bs(1) k] obtain x where
      x: "exc_kind_of x = ValueError"
         "pre_run parse_key_value_pairs parse_header_pairs parse_body E A = Inl x" by blast
    from pre_run_body_error [where bp = stdlib_parse_body, OF bs(2) k] obtain y where
      y: "exc_kind_of y = ValueError"
         "pre_run parse_key_value_pairs parse_header_pairs stdlib_parse_body E A = Inl y" by blast
    from x have "main E argv = Returned 1"
      using assms by (simp add: main_def main_with_def run_concurrent_requests_def run_with_def)
    moreover from y have "stdlib_main E argv = Returned 1"
      using assms
      by (simp add: stdlib_main_def main_with_def stdlib_run_concurrent_requests_def run_with_def
            stdlib_pre_run_eq)
    ultimately show ?thesis by simp
  qed
  from m s both show ?thesis by blast
qed


theorem exit_codes_witness:
  "main (example_env (\<lambda>k. Inl timed_out) None None \<lparr> parse_args := \<lambda>argv. Inr example_args \<rparr>)
     None = Returned 0
   \<and> fst (run_concurrent_requests
            (example_env (\<lambda>k. Inl timed_out) None None
               \<lparr> parse_args := \<lambda>argv. Inr example_args \<rparr>) example_args)
     = Inr [[(py ''name'', JStr (py ''request'')), (py ''error'', JStr (py ''timed out''))]]
   \<and> stdlib_main
       (example_env (\<lambda>k. Inl timed_out) None None \<lparr> parse_args := \<lambda>argv. Inr example_args \<rparr>)
       None = Returned 0
   \<and> main (example_env (\<lambda>k. Inr 200) None None
            \<lparr> parse_args := \<lambda>argv. Inr (example_args \<lparr> a_json := Some (py ''{}''),
                                                         a_data := Some (py ''x'') \<rparr>) \<rparr>)
       None = Returned 1
   \<and> main (example_env (\<lambda>k. Inr 200) None (Some 0) \<lparr> parse_args := \<lambda>argv. Inr example_args \<rparr>)
       None = Returned 130"
proof -
  define E1 where "E1 = example_env (\<lambda>k. Inl timed_out) None None
                          \<lparr> parse_args := \<lambda>argv. Inr example_args \<rparr>"
  define E2 where "E2 = example_env (\<lambda>k. Inr 200) None None
            \<lparr> parse_args := \<lambda>argv. Inr (example_args \<lparr> a_json := Some (py ''{}''),
                                                         a_data := Some (py ''x'') \<rparr>) \<rparr>"
  define E3 where
    "E3 = example_env (\<lambda>k. Inr 200) None (Some 0) \<lparr> parse_args := \<lambda>argv. Inr example_args \<rparr>"
  define J :: "json job" where "J = job_of example_args [] [] [] None None (py ''request'', None)"
  define J' :: "pybytes job" where
    "J' = job_of example_args [] [] [] None None (py ''request'', None)"
  define rec where
    "rec = [(py ''name'', JStr (py ''request'')), (py ''error'', JStr (py ''timed out''))]"
  have A: "a_param example_args = None" "a_cookie example_args = None"
    "a_header example_args = None" "a_session_file example_args = None"
    "a_name example_args = None" "0 < a_concurrency example_args"
    "\<not> truthy (a_output example_args)"
    by (simp_all add: example_args_def)
  have pb: "parse_body E example_args = Inr (None, None)"
    "stdlib_parse_body E example_args = Inr (None, None)" for E
    by (simp_all add: parse_body_def stdlib_parse_body_def example_args_def)
  have pre: "pre_run parse_key_value_pairs parse_header_pairs parse_body E example_args = Inr [J]"
    "pre_run stdlib_parse_key_value_pairs stdlib_parse_header_pairs stdlib_parse_body E
       example_args = Inr [J']" for E
    unfolding J_def J'_def stdlib_pre_run_eq
    by (rule pre_run_example [OF A(1-3) _ A(4-6)], rule pb)+
  have prints: "\<forall>line. console_print E1 line = None" "\<forall>line. console_print E2 line = None"
    "\<forall>line. console_print E3 line = None"
    by (simp_all add: E1_def E2_def E3_def example_env_def)
  have ni: "\<not> interrupted E1 (length [J])" "\<not> interrupted E1 (length [J'])"
    by (simp_all add: interrupted_def E1_def example_env_def)
  have i3: "interrupted E3 (length [J])"
    by (simp add: interrupted_def E3_def example_env_def)
  have pa: "parse_args E1 None = Inr example_args" "parse_args E3 None = Inr example_args"
    "parse_args E2 None = Inr (example_args \<lparr> a_json := Some (py ''{}''),
                                               a_data := Some (py ''x'') \<rparr>)"
    by (simp_all add: E1_def E2_def E3_def)
  have J: "0 \<le> j_retries J" "j_retries J \<le> 2" "j_name J = py ''request''"
    "j_backoff_base_ms J \<le> 1000" "j_delay_between_ms J \<le> 1000" "j_retries J = 2"
    by (simp_all add: J_def job_of_def example_args_def)
  have J': "0 \<le> j_retries J'" "j_retries J' \<le> 2" "j_name J' = py ''request''"
    "j_backoff_base_ms J' \<le> 1000" "j_delay_between_ms J' \<le> 1000" "j_retries J' = 2"
    "attach_params_to_url E1 (j_url J') (j_params J') = Inr (py ''http://h/'')"
    by (simp_all add: J'_def job_of_def example_args_def attach_params_to_url_def)
  have ts: "\<forall>ms. time_sleep E1 ms = None" by (simp add: E1_def example_env_def)
  note sl = sleeps_return_small [OF ts J(2,4,5)] sleeps_return_small [OF ts J'(2,4,5)]
  have ex: "is_Exception timed_out" by (simp add: timed_out_def is_Exception_def)
  have fail: "\<forall>k. int k \<le> j_retries J
      \<longrightarrow> requests_request (worker E1 i) k (request_args_of J) = Inl timed_out
          \<and> is_Exception timed_out" for i
    using ex by (simp add: E1_def example_env_def example_worker_def)
  have fail': "\<forall>k. int k \<le> j_retries J'
      \<longrightarrow> opener_open (worker E1 i) k (url_request_of E1 J' (py ''http://h/''))
            = Other_raised timed_out \<and> is_Exception timed_out" for i
    using ex by (simp add: E1_def example_env_def example_worker_def)
  have out: "snd (perform_request_with_retries E1 (worker E1 i) J) = Inr rec" for i
    by (simp add: perform_all_fail [OF J(1) fail sl(1)] failure_record_def J(3) timed_out_def
          rec_def)
  have out': "snd (stdlib_perform_request_with_retries E1 (worker E1 i) J') = Inr rec" for i
    by (simp add: stdlib_perform_all_fail [OF J'(1) J'(7) fail' sl(2)] failure_record_def J'(3)
          timed_out_def rec_def)
  have w1: "\<forall>i e. i < length [J]
                \<and> snd (perform_request_with_retries E1 (worker E1 i) ([J] ! i)) = Inl e
                \<longrightarrow> is_Exception e"
    using out by simp
  have w1': "\<forall>i e. i < length [J']
                \<and> snd (stdlib_perform_request_with_retries E1 (worker E1 i) ([J'] ! i)) = Inl e
                \<longrightarrow> is_Exception e"
    using out' by simp
  note T1 = exit_codes [OF pa(1) prints(1), where jobs = "[J]" and jobs' = "[J']"]
  note T2 = exit_codes [OF pa(3) prints(2)]
  note T3 = exit_codes [OF pa(2) prints(3), where jobs = "[J]"]
  have m1: "main E1 None = Returned 0" "stdlib_main E1 None = Returned 0"
    using T1 pre ni A(7) w1 w1' by simp_all
  have m2: "main E2 None = Returned 1" using T2 by simp
  have m3: "main E3 None = Returned 130" using T3 pre i3 by simp
  have ac: "as_completed E1 (Suc 0) = [0]"
    by (simp add: as_completed_def E1_def example_env_def)
  have line: "console_line E1 (py ''request'') rec
              = Inr (py ''[!] request: ERROR -> timed out'')"
    by (simp add: console_line_def rec_def format_value_def py_def)
  have "fst (run_concurrent_requests E1 example_args) = Inr [rec]"
    unfolding run_concurrent_requests_def run_with_fst [OF pre(1)]
    using A(7) prints(1)
    by (simp add: ac out J(3) future_result_def line)
       (simp add: E1_def example_env_def)
  with m1 m2 m3 show ?thesis
    unfolding E1_def [symmetric] E2_def [symmetric] E3_def [symmetric] rec_def
    by simp
qed

text \<open>
  C8 as stated fails: the one target is answered with HTTP 200 on its first attempt,
  its Outcome is received and printed, and the aggregate file cannot be written.
  The run has completed, and \<open>main\<close> returns 1, the code of a validation failure.
\<close>

theorem completed_run_exit_1:
  "main (example_env (\<lambda>k. Inr 200) None None
           \<lparr> parse_args := \<lambda>argv. Inr (example_args \<lparr> a_output := Some (py ''out.jsonl'') \<rparr>),
             write_output := \<lambda>p. Some read_only \<rparr>) None = Returned 1
   \<and> (\<exists>line. run_concurrent_requests
         (example_env (\<lambda>k. Inr 200) None None
            \<lparr> parse_args := \<lambda>argv. Inr (example_args \<lparr> a_output := Some (py ''out.jsonl'') \<rparr>),
              write_output := \<lambda>p. Some read_only \<rparr>)
         (example_args \<lparr> a_output := Some (py ''out.jsonl'') \<rparr>)
       = (Inl read_only,
          [[RequestsCall (request_args_of
              (job_of (example_args \<lparr> a_output := Some (py ''out.jsonl'') \<rparr>) [] [] [] None None
                 (py ''request'', None)))]],
          [Print line,
           WriteText (py ''out.jsonl'')
             (jsonl (example_env (\<lambda>k. Inr 200) None None
                       \<lparr> parse_args := \<lambda>argv. Inr (example_args
                                                     \<lparr> a_output := Some (py ''out.jsonl'') \<rparr>),
                         write_output := \<lambda>p. Some read_only \<rparr>)
                [[(py ''name'', JStr (py ''request'')), (py ''status'', JInt 200),
                  (py ''elapsed_ms'', JFloat 12.5), (py ''response_headers'', JDict [])]])]))"
proof -
  define A where "A = example_args \<lparr> a_output := Some (py ''out.jsonl'') \<rparr>"
  define E where "E = example_env (\<lambda>k. Inr 200) None None
           \<lparr> parse_args := \<lambda>argv. Inr A, write_output := \<lambda>p. Some read_only \<rparr>"
  define J :: "json job" where "J = job_of A [] [] [] None None (py ''request'', None)"
  define rec where
    "rec = [(py ''name'', JStr (py ''request'')), (py ''status'', JInt 200),
            (py ''elapsed_ms'', JFloat 12.5), (py ''response_headers'', JDict [])]"
  have A: "a_param A = None" "a_cookie A = None" "a_header A = None" "a_session_file A = None"
    "a_name A = None" "0 < a_concurrency A" "truthy (a_output A)"
    "the (a_output A) = py ''out.jsonl''"
    by (simp_all add: A_def example_args_def py_def)
  have pb: "parse_body E A = Inr (None, None)"
    by (simp add: parse_body_def A_def example_args_def)
  have pre: "pre_run parse_key_value_pairs parse_header_pairs parse_body E A = Inr [J]"
    unfolding J_def
    by (rule pre_run_example [where bp = parse_body and E = E, OF A(1-3) pb A(4-6)])
  have J: "0 \<le> j_retries J" "\<not> truthy (j_save_dir J)" "j_delay_between_ms J \<le> 0"
    "j_name J = py ''request''"
    by (simp_all add: J_def job_of_def A_def example_args_def)
  have W: "requests_request (worker E i) 0 q
           = Inr (\<lparr>status_code = 200, headers = [], content = []\<rparr>, 12.5)" for i q
    by (simp add: E_def example_env_def example_worker_def)
  have rnd: "py_round2 E x = x" for x by (simp add: E_def example_env_def)
  have out: "perform_request_with_retries E (worker E i) J
             = ([RequestsCall (request_args_of J)], Inr rec)" for i
    unfolding perform_first_response [OF J(1) W J(2,3)]
    by (simp add: success_record_def J(4) rec_def json_of_dict_def rnd)
  have "shape_of rec = success_shape"
    by (simp add: rec_def shape_of_def success_shape_def)
  from console_line_shaped [of rec E "py ''request''"] this obtain line where
    line: "console_line E (py ''request'') rec = Inr line" by blast
  have ac: "as_completed E (Suc 0) = [0]"
    by (simp add: as_completed_def E_def example_env_def)
  have Ef: "interrupt_after E = None" "console_print E l = None"
    "write_output E p = Some read_only" "parse_args E None = Inr A" for l p
    by (simp_all add: E_def example_env_def)
  have run: "run_concurrent_requests E A
        = (Inl read_only, [[RequestsCall (request_args_of J)]],
           [Print line, WriteText (py ''out.jsonl'') (jsonl E [rec])])"
    unfolding run_concurrent_requests_def run_with_jobs [OF pre]
    by (simp add: collect_results_def ac out J(4) future_result_def line Ef A(7,8))
  then have "main E None = Returned 1"
    by (simp add: main_def main_with_def Ef read_only_def)
  with run show ?thesis
    unfolding E_def [symmetric] A_def [symmetric] J_def [symmetric] rec_def [symmetric]
    by blast
qed

subsection \<open>The aggregate file\<close>

lemma file_lines_line:
  "10 \<notin> set s \<Longrightarrow> file_lines cur (s @ 10 # rest) = (cur @ s) # file_lines [] rest"
  by (induction s arbitrary: cur) simp_all

lemma file_lines_jsonl:
  assumes "\<forall>v. 10 \<notin> set (json_dumps E v)"
  shows "file_lines [] (jsonl E results) = map (\<lambda>item. json_dumps E (JDict item)) results"
proof (induction results)
  case Nil
  show ?case by (simp add: jsonl_def)
next
  case (Cons item results)
  have "jsonl E (item # results) = json_dumps E (JDict item) @ 10 # jsonl E results"
    by (simp add: jsonl_def)
  with assms Cons show ?case by (simp add: file_lines_line)
qed

lemma collect_results_Inr:
  assumes "collect_results E A fin = (Inr results, traces, main_calls)"
  shows "\<exists>cs. receive E (map (\<lambda>i. (fst (fin ! i), snd (snd (fin ! i))))
                          (as_completed E (length fin))) 0 [] [] = (Inr results, cs)
              \<and> main_calls = cs @ (if truthy (a_output A)
                                   then [WriteText (the (a_output A)) (jsonl E results)]
                                   else [])"
  using assms
  by (auto simp: collect_results_def split: prod.splits sum.splits option.splits if_splits)

text \<open>
  C6. In http_runner.py, if an aggregate output path is configured and the run
  returns its results (\<open>N\<close> of them), the main thread has printed one line per
  result and then written that file once, with one \<open>json.dumps\<close> text and a line
  feed per result, in the order of the results; as \<open>json.dumps\<close> emits no line feed,
  the file has exactly \<open>N\<close> lines, the \<open>i\<close>-th being the JSON text of the \<open>i\<close>-th
  result. The results are the Outcomes of the targets, one per target, in the order
  in which the futures completed: what the worker returned, or the failure record
  of what it raised. Each has exactly one of the two shapes: the keys \<open>name\<close>,
  \<open>status\<close>, \<open>elapsed_ms\<close>, \<open>response_headers\<close> with a string, an integer, a number
  and an object, or the keys \<open>name\<close>, \<open>error\<close> with two strings.
\<close>

theorem aggregate_file:
  assumes run: "run_concurrent_requests E A = (Inr results, traces, main_calls)"
    and out: "truthy (a_output A)"
    and nl: "\<forall>v. 10 \<notin> set (json_dumps E v)"
  shows "(\<exists>lines. length lines = length results
            \<and> main_calls = map Print lines @ [WriteText (the (a_output A)) (jsonl E results)])
       \<and> file_lines [] (jsonl E results) = map (\<lambda>item. json_dumps E (JDict item)) results
       \<and> length (file_lines [] (jsonl E results)) = length results
       \<and> (\<forall>item \<in> set results. shape_of item = success_shape \<or> shape_of item = failure_shape)
       \<and> success_shape \<noteq> failure_shape
       \<and> (\<exists>jobs. pre_run parse_key_value_pairs parse_header_pairs parse_body E A = Inr jobs
             \<and> length results = length jobs
             \<and> results
               = map (\<lambda>i. case snd (perform_request_with_retries E (worker E i) (jobs ! i)) of
                             Inr rec \<Rightarrow> rec
                           | Inl e \<Rightarrow> failure_record (j_name (jobs ! i)) (Some e))
                   (as_completed E (length jobs)))"
proof -
  from run obtain jobs where
    jobs: "pre_run parse_key_value_pairs parse_header_pairs parse_body E A = Inr jobs"
    by (cases "pre_run parse_key_value_pairs parse_header_pairs parse_body E A")
       (simp_all add: run_concurrent_requests_def run_with_def)
  let ?fin = "map (\<lambda>i. (j_name (jobs ! i),
                        perform_request_with_retries E (worker E i) (jobs ! i)))
                [0..<length jobs]"
  let ?futs = "map (\<lambda>i. (j_name (jobs ! i),
                         snd (perform_request_with_retries E (worker E i) (jobs ! i))))
                 (as_completed E (length jobs))"
  have c: "collect_results E A ?fin = (Inr results, traces, main_calls)"
    using run jobs by (simp add: run_concurrent_requests_def run_with_jobs)
  from collect_results_Inr [OF c] out obtain cs where
    r: "receive E ?futs 0 [] [] = (Inr results, cs)"
    and calls: "main_calls = cs @ [WriteText (the (a_output A)) (jsonl E results)]"
    unfolding futures_of_jobs by auto
  from receive_result [OF r] obtain lines where
    res: "results = map (\<lambda>(name, res). case res of Inr rec \<Rightarrow> rec
                                         | Inl e \<Rightarrow> failure_record name (Some e)) ?futs"
    and lines: "length lines = length ?futs" "cs = map Print lines"
    by auto
  from res have res': "results
      = map (\<lambda>i. case snd (perform_request_with_retries E (worker E i) (jobs ! i)) of
                    Inr rec \<Rightarrow> rec
                  | Inl e \<Rightarrow> failure_record (j_name (jobs ! i)) (Some e))
          (as_completed E (length jobs))"
    by (simp add: comp_def)
  have len: "length results = length jobs"
    unfolding res' by (simp add: as_completed_perm)
  have shapes: "\<forall>item \<in> set results. shape_of item = success_shape \<or> shape_of item = failure_shape"
    unfolding res'
    by (auto simp: shape_of_failure_record split: sum.splits dest: perform_shape)
  from lines len have "\<exists>lines. length lines = length results
            \<and> main_calls = map Print lines @ [WriteText (the (a_output A)) (jsonl E results)]"
    using calls by (auto simp: as_completed_perm)
  moreover note lines' = file_lines_jsonl [OF nl, of results]
  ultimately show ?thesis
    using len shapes shapes_differ jobs res' lines' by auto
qed

theorem aggregate_file_witness:
  "fst (run_concurrent_requests (example_env (\<lambda>k. Inr 200) None None)
          (example_args \<lparr> a_session_file := Some (py ''sessions.txt''),
                          a_output := Some (py ''out.jsonl'') \<rparr>))
     = Inr [[(py ''name'', JStr (py ''s2'')), (py ''status'', JInt 200),
             (py ''elapsed_ms'', JFloat 12.5), (py ''response_headers'', JDict [])],
            [(py ''name'', JStr (py ''s1'')), (py ''status'', JInt 200),
             (py ''elapsed_ms'', JFloat 12.5), (py ''response_headers'', JDict [])]]
   \<and> (\<exists>lines. length lines = 2
         \<and> snd (snd (run_concurrent_requests (example_env (\<lambda>k. Inr 200) None None)
              (example_args \<lparr> a_session_file := Some (py ''sessions.txt''),
                              a_output := Some (py ''out.jsonl'') \<rparr>)))
           = map Print lines
             @ [WriteText (py ''out.jsonl'') (py ''{}'' @ [10] @ py ''{}'' @ [10])])
   \<and> file_lines [] (py ''{}'' @ [10] @ py ''{}'' @ [10]) = [py ''{}'', py ''{}'']"
proof -
  define E where "E = example_env (\<lambda>k. Inr 200) None None"
  define A where "A = example_args \<lparr> a_session_file := Some (py ''sessions.txt''),
                          a_output := Some (py ''out.jsonl'') \<rparr>"
  define J :: "pystr \<Rightarrow> json job"
    where "J = (\<lambda>s. job_of A [] [] [] None None (s, Some s))"
  define r where "r = (\<lambda>s. [(py ''name'', JStr s), (py ''status'', JInt 200),
             (py ''elapsed_ms'', JFloat 12.5), (py ''response_headers'', JDict [])])"
  have names: "names_and_sessions E A = Inr [(py ''s1'', Some (py ''s1'')), (py ''s2'', Some (py ''s2''))]"
    by (simp add: names_and_sessions_def A_def example_args_def E_def example_env_def
          strip_def isspace_def py_def)
  have pre: "pre_run parse_key_value_pairs parse_header_pairs parse_body E A
             = Inr [J (py ''s1''), J (py ''s2'')]"
  proof -
    have Af: "a_param A = None" "a_cookie A = None" "a_header A = None" "a_json A = None"
      "a_data A = None" "\<not> a_concurrency A \<le> 0"
      by (simp_all add: A_def example_args_def)
    have pb: "parse_body E A = Inr (None, None)" by (simp add: parse_body_def Af)
    show ?thesis
      by (simp add: pre_run_def names J_def Af pb or_empty_def parse_key_value_pairs_def
            parse_header_pairs_def)
  qed
  have J: "0 \<le> j_retries (J s)" "\<not> truthy (j_save_dir (J s))" "j_name (J s) = s"
    "j_delay_between_ms (J s) \<le> 0" for s
    by (simp_all add: J_def job_of_def A_def example_args_def)
  have W: "requests_request (worker E i) 0 q
           = Inr (\<lparr>status_code = 200, headers = [], content = []\<rparr>, 12.5)" for i q
    by (simp add: E_def example_env_def example_worker_def)
  have outcome: "snd (perform_request_with_retries E (worker E i) (J s)) = Inr (r s)" for i s
  proof -
    have rnd: "py_round2 E x = x" for x by (simp add: E_def example_env_def)
    show ?thesis
      unfolding perform_first_response [OF J(1) W J(2,4)]
      by (simp add: success_record_def J(3) r_def json_of_dict_def rnd)
  qed
  have ac: "as_completed E (Suc (Suc 0)) = [Suc 0, 0]"
    by (simp add: as_completed_def E_def example_env_def upt_rec)
  have sh: "shape_of (r s) = success_shape" for s
    by (simp add: r_def shape_of_def success_shape_def)
  obtain l1 l2 where l: "console_line E (py ''s2'') (r (py ''s2'')) = Inr l2"
    "console_line E (py ''s1'') (r (py ''s1'')) = Inr l1"
    using console_line_shaped [of "r (py ''s2'')" E "py ''s2''"]
      console_line_shaped [of "r (py ''s1'')" E "py ''s1''"] sh by blast
  have Ef: "interrupt_after E = None" "console_print E ln = None" "write_output E p = None"
    for ln p
    by (simp_all add: E_def example_env_def)
  have out: "truthy (a_output A)" "the (a_output A) = py ''out.jsonl''"
    by (simp_all add: A_def py_def)
  have res: "fst (run_concurrent_requests E A) = Inr [r (py ''s2''), r (py ''s1'')]"
    unfolding run_concurrent_requests_def run_with_fst [OF pre]
    by (simp add: ac outcome J(3) future_result_def l Ef out(1) numeral_2_eq_2)
  then have run: "run_concurrent_requests E A
      = (Inr [r (py ''s2''), r (py ''s1'')], fst (snd (run_concurrent_requests E A)),
         snd (snd (run_concurrent_requests E A)))"
    by (metis prod.collapse)
  have nl: "\<forall>v. 10 \<notin> set (json_dumps E v)"
    by (simp add: E_def example_env_def py_def)
  have written: "jsonl E [r (py ''s2''), r (py ''s1'')] = py ''{}'' @ [10] @ py ''{}'' @ [10]"
    by (simp add: jsonl_def E_def example_env_def)
  from aggregate_file [OF run out(1) nl] obtain lines where
    "length lines = length [r (py ''s2''), r (py ''s1'')]"
    "snd (snd (run_concurrent_requests E A))
     = map Print lines
       @ [WriteText (the (a_output A)) (jsonl E [r (py ''s2''), r (py ''s1'')])]"
    by blast
  then have "length lines = 2"
    "snd (snd (run_concurrent_requests E A))
     = map Print lines @ [WriteText (py ''out.jsonl'') (py ''{}'' @ [10] @ py ''{}'' @ [10])]"
    unfolding written out(2) by simp_all
  then have calls: "\<exists>lines. length lines = 2
      \<and> snd (snd (run_concurrent_requests E A))
        = map Print lines @ [WriteText (py ''out.jsonl'') (py ''{}'' @ [10] @ py ''{}'' @ [10])]"
    by blast
  have fl: "file_lines [] (py ''{}'' @ [10] @ py ''{}'' @ [10]) = [py ''{}'', py ''{}'']"
    by (simp add: py_def)
  from res calls fl show ?thesis
    unfolding E_def [symmetric] A_def [symmetric] r_def by blast
qed

subsection \<open>The JSON body\<close>

lemma retry_loop_calls:
  "ev \<in> set (fst (retry_loop body R name a prev calls))
   \<Longrightarrow> ev \<in> set calls \<or> (\<exists>k. ev \<in> set (fst (body k)))"
proof (induction body R name a prev calls rule: retry_loop.induct)
  case (1 body retries name attempt last_exc calls)
  show ?case
  proof (cases "int attempt \<le> retries")
    case False
    with "1.prems" show ?thesis by (simp add: retry_loop_exhausted)
  next
    case True
    obtain made res where b: "body attempt = (made, res)" by (cases "body attempt")
    have m: "set made = set (fst (body attempt))" by (simp add: b)
    show ?thesis
    proof (cases res)
      case (Inr r)
      have "retry_loop body retries name attempt last_exc calls = (calls @ made, Inr r)"
        using b Inr by (intro retry_loop_Inr [where body = body and a = attempt, OF True]) simp
      with "1.prems" m show ?thesis by auto
    next
      case (Inl e)
      with b have b': "body attempt = (made, Inl e)" by simp
      show ?thesis
      proof (cases "is_Exception e")
        case False
        have "retry_loop body retries name attempt last_exc calls = (calls @ made, Inl e)"
          by (rule retry_loop_not_caught [where body = body and a = attempt, OF True b' False])
        with "1.prems" m show ?thesis by auto
      next
        case ex: True
        have "retry_loop body retries name attempt last_exc calls
              = retry_loop body retries name (Suc attempt) (Some e) (calls @ made)"
          by (rule retry_loop_Inl [where body = body and a = attempt, OF True b' ex])
        with "1.IH" [OF True b' [symmetric] refl ex] "1.prems" m show ?thesis by auto
      qed
    qed
  qed
qed

lemma attempt_body_requests:
  assumes "ev \<in> set (fst (attempt_body send E W J k))" and "is_request ev"
  shows "ev \<in> set (fst (send k))"
proof -
  from assms have "ev \<in> set (filter is_request (fst (attempt_body send E W J k)))" by simp
  then have "ev \<in> set (filter is_request (fst (send k)))"
    unfolding attempt_body_request_filter by (simp split: if_splits)
  then show ?thesis by simp
qed

lemma perform_requests:
  assumes "RequestsCall q \<in> set (fst (perform_request_with_retries E W J))"
  shows "q = request_args_of J"
proof -
  from assms retry_loop_calls obtain k where
    "RequestsCall q \<in> set (fst (attempt_body (build_request W J) E W J k))"
    unfolding perform_request_with_retries_def by fastforce
  then have "RequestsCall q \<in> set (fst (build_request W J k))"
    by (rule attempt_body_requests) simp
  then show ?thesis by (simp add: build_request_def)
qed

lemma stdlib_perform_requests:
  assumes "OpenerOpen q \<in> set (fst (stdlib_perform_request_with_retries E W J))"
  shows "\<exists>u. q = url_request_of E J u"
proof -
  from assms retry_loop_calls obtain k where
    "OpenerOpen q \<in> set (fst (attempt_body (build_and_send_request E W J) E W J k))"
    unfolding stdlib_perform_request_with_retries_def by fastforce
  then have "OpenerOpen q \<in> set (fst (build_and_send_request E W J k))"
    by (rule attempt_body_requests) simp
  then show ?thesis by (auto simp: build_and_send_request_def split: sum.splits)
qed

lemma pre_run_jobs_body:
  assumes "pre_run pp hp bp E A = Inr jobs"
  shows "\<exists>d j. bp E A = Inr (d, j) \<and> (\<forall>J \<in> set jobs. j_data J = d \<and> j_json J = j)"
  using assms
  by (auto simp: pre_run_def job_of_def split: sum.splits prod.splits if_splits)

lemma collect_results_traces:
  "fst (snd (collect_results E A fin)) = map (\<lambda>f. fst (snd f)) fin"
  by (simp add: collect_results_def split: prod.splits sum.splits option.splits)

lemma run_with_traces:
  assumes "run_with pp hp bp perform E A = (r, traces, m)" and "tr \<in> set traces"
  shows "\<exists>jobs i. pre_run pp hp bp E A = Inr jobs \<and> i < length jobs
           \<and> tr = fst (perform E (worker E i) (jobs ! i))"
proof (cases "pre_run pp hp bp E A")
  case (Inl e)
  with assms show ?thesis by (simp add: run_with_def)
next
  case (Inr jobs)
  let ?fin = "map (\<lambda>i. (j_name (jobs ! i), perform E (worker E i) (jobs ! i))) [0..<length jobs]"
  from assms(1) Inr have "collect_results E A ?fin = (r, traces, m)"
    by (simp add: run_with_def)
  then have "traces = map (\<lambda>f. fst (snd f)) ?fin"
    using collect_results_traces [of E A ?fin] by simp
  with assms(2) Inr show ?thesis by auto
qed

lemma run_with_single_trace:
  assumes "pre_run pp hp bp E A = Inr [J]"
  shows "fst (snd (run_with pp hp bp perform E A)) = [fst (perform E (worker E 0) J)]"
  by (simp add: run_with_jobs [OF assms] collect_results_traces)

lemma parse_body_json:
  assumes "a_json A = Some s" and "parse_body E A = Inr (d, j)"
  shows "d = None \<and> (\<exists>obj. json_source E s = Inr obj \<and> j = json_body_of obj)"
  using assms by (auto simp: parse_body_def split: if_splits sum.splits option.splits)

lemma stdlib_parse_body_json:
  assumes "a_json A = Some s" and "stdlib_parse_body E A = Inr (d, j)"
  shows "d = None \<and> (\<exists>obj bs. json_source E s = Inr obj
            \<and> utf8_encode (encode_error_message E) (json_dumps E obj) = Inr bs \<and> j = Some bs)"
  using assms by (auto simp: stdlib_parse_body_def split: if_splits sum.splits option.splits)

text \<open>
  C7, as amended. Let \<open>--json\<close> be given. In http_runner_stdlib.py \<open>parse_body\<close>
  serialises the JSON value once, to the UTF-8 bytes of its \<open>json.dumps\<close> text, and
  every request of every attempt of every target carries exactly these bytes as its
  body. In http_runner.py \<open>parse_body\<close> only parses: it returns the JSON value
  (Python's \<open>None\<close> for the JSON text \<open>null\<close>, as when no \<open>--json\<close> is given), and
  every request of every attempt of every target hands that same value to
  \<open>requests.request\<close> as \<open>json\<close>, with no \<open>data\<close>; the bytes are made by
  \<open>requests\<close> at each call.
\<close>

theorem json_body_built_once:
  assumes "a_json A = Some s"
  shows "(stdlib_run_concurrent_requests E A = (r, traces, m)
          \<longrightarrow> (\<forall>tr \<in> set traces. \<forall>q. OpenerOpen q \<in> set tr
                \<longrightarrow> (\<exists>obj bs. json_source E s = Inr obj
                       \<and> utf8_encode (encode_error_message E) (json_dumps E obj) = Inr bs
                       \<and> stdlib_parse_body E A = Inr (None, Some bs)
                       \<and> u_body q = Some bs)))
       \<and> (run_concurrent_requests E A = (r', traces', m')
          \<longrightarrow> (\<forall>tr \<in> set traces'. \<forall>q. RequestsCall q \<in> set tr
                \<longrightarrow> (\<exists>obj. json_source E s = Inr obj
                       \<and> parse_body E A = Inr (None, json_body_of obj)
                       \<and> rq_json q = json_body_of obj \<and> rq_data q = None)))"
proof (intro conjI impI ballI allI)
  fix tr q
  assume run: "stdlib_run_concurrent_requests E A = (r, traces, m)"
    and tr: "tr \<in> set traces" and q: "OpenerOpen q \<in> set tr"
  from run_with_traces [OF run [unfolded stdlib_run_concurrent_requests_def] tr]
  obtain jobs i where
    jobs: "pre_run stdlib_parse_key_value_pairs stdlib_parse_header_pairs stdlib_parse_body E A
           = Inr jobs"
    and i: "i < length jobs"
    and t: "tr = fst (stdlib_perform_request_with_retries E (worker E i) (jobs ! i))"
    by blast
  from pre_run_jobs_body [OF jobs] i obtain d j where
    b: "stdlib_parse_body E A = Inr (d, j)" and J: "j_data (jobs ! i) = d" "j_json (jobs ! i) = j"
    by force
  from stdlib_parse_body_json [OF assms b] obtain obj bs where
    o: "d = None" "json_source E s = Inr obj"
       "utf8_encode (encode_error_message E) (json_dumps E obj) = Inr bs" "j = Some bs"
    by blast
  from q t stdlib_perform_requests obtain u where "q = url_request_of E (jobs ! i) u" by blast
  then have "u_body q = Some bs" using J o by (simp add: url_request_of_def)
  with o b show "\<exists>obj bs. json_source E s = Inr obj
                       \<and> utf8_encode (encode_error_message E) (json_dumps E obj) = Inr bs
                       \<and> stdlib_parse_body E A = Inr (None, Some bs)
                       \<and> u_body q = Some bs" by auto
next
  fix tr q
  assume run: "run_concurrent_requests E A = (r', traces', m')"
    and tr: "tr \<in> set traces'" and q: "RequestsCall q \<in> set tr"
  from run_with_traces [OF run [unfolded run_concurrent_requests_def] tr]
  obtain jobs i where
    jobs: "pre_run parse_key_value_pairs parse_header_pairs parse_body E A = Inr jobs"
    and i: "i < length jobs"
    and t: "tr = fst (perform_request_with_retries E (worker E i) (jobs ! i))"
    by blast
  from pre_run_jobs_body [OF jobs] i obtain d j where
    b: "parse_body E A = Inr (d, j)" and J: "j_data (jobs ! i) = d" "j_json (jobs ! i) = j"
    by force
  from parse_body_json [OF assms b] obtain obj where
    o: "d = None" "json_source E s = Inr obj" "j = json_body_of obj"
    by blast
  from q t perform_requests have "q = request_args_of (jobs ! i)" by blast
  then have "rq_json q = json_body_of obj \<and> rq_data q = None"
    using J o by (simp add: request_args_of_def)
  with o b show "\<exists>obj. json_source E s = Inr obj
                       \<and> parse_body E A = Inr (None, json_body_of obj)
                       \<and> rq_json q = json_body_of obj \<and> rq_data q = None" by auto
qed

theorem json_body_built_once_witness:
  "stdlib_parse_body (example_env (\<lambda>k. Inr 200) None None)
     (example_args \<lparr> a_json := Some (py ''{}'') \<rparr>) = Inr (None, Some (py ''{}''))
   \<and> filter is_request (concat (fst (snd (stdlib_run_concurrent_requests
         (example_env (\<lambda>k. Inr 200) None None) (example_args \<lparr> a_json := Some (py ''{}'') \<rparr>)))))
     = [OpenerOpen (url_request_of (example_env (\<lambda>k. Inr 200) None None)
          (job_of (example_args \<lparr> a_json := Some (py ''{}'') \<rparr>) [] [] [] None
             (Some (py ''{}'')) (py ''request'', None))
          (py ''http://h/''))]
   \<and> u_body (url_request_of (example_env (\<lambda>k. Inr 200) None None)
          (job_of (example_args \<lparr> a_json := Some (py ''{}'') \<rparr>) [] [] [] None
             (Some (py ''{}'')) (py ''request'', None))
          (py ''http://h/'')) = Some (py ''{}'')"
proof -
  define E where "E = example_env (\<lambda>k. Inr 200) None None"
  define A where "A = example_args \<lparr> a_json := Some (py ''{}'') \<rparr>"
  define J :: "pybytes job"
    where "J = job_of A [] [] [] None (Some (py ''{}'')) (py ''request'', None)"
  define q where "q = url_request_of E J (py ''http://h/'')"
  have A: "a_param A = None" "a_cookie A = None" "a_header A = None"
    "a_session_file A = None" "a_name A = None" "0 < a_concurrency A"
    "a_json A = Some (py ''{}'')" "a_data A = None"
    by (simp_all add: A_def example_args_def)
  have src: "json_source E (py ''{}'') = Inr (JDict [])"
    by (simp add: json_source_def E_def example_env_def py_def)
  have enc: "utf8_encode (encode_error_message E) (json_dumps E v) = Inr (py ''{}'')" for v
    by (simp add: E_def example_env_def py_def utf8_encode_def utf8_char_def)
  have pb: "stdlib_parse_body E A = Inr (None, Some (py ''{}''))"
    by (simp add: stdlib_parse_body_def A src enc)
  have pre: "pre_run stdlib_parse_key_value_pairs stdlib_parse_header_pairs stdlib_parse_body E A
             = Inr [J]"
    unfolding J_def stdlib_pre_run_eq
    by (rule pre_run_example [where bp = stdlib_parse_body and E = E, OF A(1-3) pb A(4-6)])
  have tr: "fst (snd (stdlib_run_concurrent_requests E A))
            = [fst (stdlib_perform_request_with_retries E (worker E 0) J)]"
    unfolding stdlib_run_concurrent_requests_def by (rule run_with_single_trace [OF pre])
  have J: "int 0 \<le> j_retries J" "\<not> truthy (j_save_dir J)"
    "attach_params_to_url E (j_url J) (j_params J) = Inr (py ''http://h/'')"
    "j_delay_between_ms J \<le> 0"
    by (simp_all add: J_def job_of_def A_def example_args_def attach_params_to_url_def)
  have sl: "snd (backoff_sleep E J 0) = None" "snd (pacing_sleep E J) = None"
    using J(4) by (simp_all add: backoff_sleep_def pacing_sleep_def)
  have sent: "build_and_send_request E (worker E 0) J 0 = ([OpenerOpen q], Inr (200, [], [], 12.5))"
    using J(3)
    by (simp add: build_and_send_request_def q_def)
       (simp add: E_def example_env_def example_worker_def dict_of_items_def)
  have save: "snd (save_result E (worker E 0) J 0 (success_record E (j_name J) (200, [], [], 12.5))
                     (fst (snd (snd (200, [], [], 12.5))))) = None"
    using J(2) by (simp add: save_result_no_dir)
  have before: "\<forall>k. k < 0 \<longrightarrow> snd (attempt_body (build_and_send_request E (worker E 0) J) E
                                      (worker E 0) J k) = Inl (timed_out)
                                 \<and> is_Exception timed_out"
    by simp
  from retry_loop_response [where send = "build_and_send_request E (worker E 0) J"
      and err = "\<lambda>k. timed_out", OF J(1) before sl sent _ save, of "j_name J"]
  have one: "filter is_request (fst (stdlib_perform_request_with_retries E (worker E 0) J))
             = [OpenerOpen q]"
    by (simp add: stdlib_perform_request_with_retries_def)
  then have "OpenerOpen q \<in> set (filter is_request
               (fst (stdlib_perform_request_with_retries E (worker E 0) J)))"
    by simp
  then have mem: "OpenerOpen q \<in> set (fst (stdlib_perform_request_with_retries E (worker E 0) J))"
    by simp
  have run: "stdlib_run_concurrent_requests E A
             = (fst (stdlib_run_concurrent_requests E A),
                [fst (stdlib_perform_request_with_retries E (worker E 0) J)],
                snd (snd (stdlib_run_concurrent_requests E A)))"
    by (metis tr prod.collapse)
  from json_body_built_once [OF A(7), THEN conjunct1, rule_format, OF run _ mem]
  obtain obj bs where "stdlib_parse_body E A = Inr (None, Some bs)" "u_body q = Some bs"
    by auto
  with pb have "u_body q = Some (py ''{}'')" by simp
  with pb one tr show ?thesis
    unfolding E_def [symmetric] A_def [symmetric] J_def [symmetric] q_def [symmetric]
    by simp
qed

text \<open>
  C7 as stated fails in http_runner.py: for \<open>--json {}\<close> and a transport that times
  out once and then answers, \<open>parse_body\<close> returns the parsed value and no bytes,
  and both attempts call \<open>requests.request\<close> with that value as \<open>json\<close> and without
  \<open>data\<close>.
\<close>

theorem json_value_sent_per_attempt:
  "parse_body (example_env (\<lambda>k. if k = 0 then Inl timed_out else Inr 200) None None)
     (example_args \<lparr> a_json := Some (py ''{}'') \<rparr>) = Inr (None, Some (JDict []))
   \<and> filter is_request (concat (fst (snd (run_concurrent_requests
         (example_env (\<lambda>k. if k = 0 then Inl timed_out else Inr 200) None None)
         (example_args \<lparr> a_json := Some (py ''{}'') \<rparr>)))))
     = [RequestsCall (request_args_of
          (job_of (example_args \<lparr> a_json := Some (py ''{}'') \<rparr>) [] [] [] None
             (Some (JDict [])) (py ''request'', None))),
        RequestsCall (request_args_of
          (job_of (example_args \<lparr> a_json := Some (py ''{}'') \<rparr>) [] [] [] None
             (Some (JDict [])) (py ''request'', None)))]
   \<and> rq_json (request_args_of
          (job_of (example_args \<lparr> a_json := Some (py ''{}'') \<rparr>) [] [] [] None
             (Some (JDict [])) (py ''request'', None))) = Some (JDict [])
   \<and> rq_data (request_args_of
          (job_of (example_args \<lparr> a_json := Some (py ''{}'') \<rparr>) [] [] [] None
             (Some (JDict [])) (py ''request'', None))) = None"
proof -
  define E where "E = example_env (\<lambda>k. if k = 0 then Inl timed_out else Inr 200) None None"
  define A where "A = example_args \<lparr> a_json := Some (py ''{}'') \<rparr>"
  define J :: "json job"
    where "J = job_of A [] [] [] None (Some (JDict [])) (py ''request'', None)"
  define W where "W = worker E 0"
  have A: "a_param A = None" "a_cookie A = None" "a_header A = None"
    "a_session_file A = None" "a_name A = None" "0 < a_concurrency A"
    "a_json A = Some (py ''{}'')" "a_data A = None"
    by (simp_all add: A_def example_args_def)
  have src: "json_source E (py ''{}'') = Inr (JDict [])"
    by (simp add: json_source_def E_def example_env_def py_def)
  have pb: "parse_body E A = Inr (None, Some (JDict []))"
    by (simp add: parse_body_def A src json_body_of_def)
  have pre: "pre_run parse_key_value_pairs parse_header_pairs parse_body E A = Inr [J]"
    unfolding J_def
    by (rule pre_run_example [where bp = parse_body and E = E, OF A(1-3) pb A(4-6)])
  have tr: "fst (snd (run_concurrent_requests E A))
            = [fst (perform_request_with_retries E W J)]"
    unfolding run_concurrent_requests_def W_def by (rule run_with_single_trace [OF pre])
  have J: "int (Suc 0) \<le> j_retries J" "\<not> truthy (j_save_dir J)"
    "rq_json (request_args_of J) = Some (JDict [])" "rq_data (request_args_of J) = None"
    "j_retries J \<le> 2" "j_backoff_base_ms J \<le> 1000" "j_delay_between_ms J \<le> 1000"
    by (simp_all add: J_def job_of_def A_def example_args_def request_args_of_def)
  have ts: "\<forall>ms. time_sleep E ms = None" by (simp add: E_def example_env_def)
  note sl = sleeps_return_small [OF ts J(5,6,7)]
  have sl0: "snd (backoff_sleep E J 0) = None" "snd (pacing_sleep E J) = None"
    and sl1: "snd (backoff_sleep E J (Suc 0)) = None"
    using sl [rule_format, of 0] sl [rule_format, of "Suc 0"] J(1) by simp_all
  let ?body = "attempt_body (build_request W J) E W J"
  have s0: "build_request W J 0 = ([RequestsCall (request_args_of J)], Inl timed_out)"
    by (simp add: build_request_def W_def E_def example_env_def example_worker_def)
  have s1: "build_request W J (Suc 0)
            = ([RequestsCall (request_args_of J)], Inr (200, [], [], 12.5))"
    by (simp add: build_request_def W_def E_def example_env_def example_worker_def)
  have b0: "snd (?body 0) = Inl timed_out"
    using attempt_body_Inl [where send = "build_request W J" and k = 0, OF sl0 s0] by simp
  have f0: "filter is_request (fst (?body 0)) = [RequestsCall (request_args_of J)]"
    by (simp add: attempt_body_request_filter sl0 s0)
  have sv: "snd (save_result E W J (Suc 0)
                (success_record E (j_name J) (200, [], [], 12.5))
                (fst (snd (snd (200, [], [], 12.5))))) = None"
    using J(2) by (simp add: save_result_no_dir)
  have before: "\<forall>k. k < Suc 0 \<longrightarrow> snd (?body k) = Inl timed_out \<and> is_Exception timed_out"
    using b0 by (simp add: timed_out_def is_Exception_def)
  from retry_loop_response [where send = "build_request W J" and err = "\<lambda>k. timed_out"
      and n = "Suc 0", OF J(1) before sl1 sl0(2) s1 _ sv, of "j_name J"]
  have "filter is_request (fst (perform_request_with_retries E W J))
        = [RequestsCall (request_args_of J), RequestsCall (request_args_of J)]"
    by (simp add: perform_request_with_retries_def f0)
  with pb tr J(3,4) show ?thesis
    unfolding E_def [symmetric] A_def [symmetric] J_def [symmetric]
    by simp
qed

end
